theory Spec2Isabelle
  imports Complex_Main
begin

section \<open>JavaScript values\<close>

text \<open>
  A JavaScript number is a double: a rational, or one of the three special values.
  Comparisons and the truthiness test on doubles are exact, so the rationals model them
  (the negative zero is identified with zero: both are falsy and compare equal).
\<close>

datatype number = Num rat | NaN | PosInf | NegInf

text \<open>The values that cross the model boundary are JSON values, or \<open>undefined\<close> for a missing property.\<close>

datatype jsval =
    JUndefined
  | JNull
  | JBool bool
  | JNum number
  | JStr string
  | JArr "jsval list"
  | JObj "(string \<times> jsval) list"

text \<open>A thrown value: an \<open>Error\<close> object with its message (a \<open>TypeError\<close> is one), or anything else.\<close>

datatype exn = Error string | Thrown jsval

fun truthy_num :: "number \<Rightarrow> bool" where
  "truthy_num (Num r) = (r \<noteq> 0)"
| "truthy_num NaN = False"
| "truthy_num PosInf = True"
| "truthy_num NegInf = True"

fun truthy :: "jsval \<Rightarrow> bool" where
  "truthy JUndefined = False"
| "truthy JNull = False"
| "truthy (JBool b) = b"
| "truthy (JNum n) = truthy_num n"
| "truthy (JStr s) = (s \<noteq> [])"
| "truthy (JArr xs) = True"
| "truthy (JObj kvs) = True"

text \<open>\<open>a || b\<close>\<close>

definition js_or :: "jsval \<Rightarrow> jsval \<Rightarrow> jsval" where
  "js_or a b = (if truthy a then a else b)"

text \<open>Property read on a value that is not null or undefined.\<close>

fun get_prop :: "jsval \<Rightarrow> string \<Rightarrow> jsval" where
  "get_prop (JObj kvs) k = (case map_of kvs k of Some v \<Rightarrow> v | None \<Rightarrow> JUndefined)"
| "get_prop v k = JUndefined"

text \<open>A string is a list of code units below 256. The white space and line terminators
  of the language in that range are the space, U+0009 to U+000D and the no-break space
  U+00A0; \<open>String.prototype.trim\<close> strips them from both ends.\<close>

definition is_space :: "char \<Rightarrow> bool" where
  "is_space c = (c = CHR '' '' \<or> c = CHR 0x09 \<or> c = CHR 0x0A \<or> c = CHR 0x0B
     \<or> c = CHR 0x0C \<or> c = CHR 0x0D \<or> c = CHR 0xA0)"

definition trim :: "string \<Rightarrow> string" where
  "trim s = rev (dropWhile is_space (rev (dropWhile is_space s)))"

text \<open>\<open>s.slice(i, j)\<close> for \<open>0 \<le> i \<le> j\<close>.\<close>

definition slice :: "'a list \<Rightarrow> nat \<Rightarrow> nat \<Rightarrow> 'a list" where
  "slice s i j = take (j - i) (drop i s)"

text \<open>\<open>xs.join(sep)\<close> on strings.\<close>

fun join :: "string \<Rightarrow> string list \<Rightarrow> string" where
  "join sep [] = []"
| "join sep [x] = x"
| "join sep (x # y # ys) = x @ sep @ join sep (y # ys)"

section \<open>Data model of the agent tools\<close>

record AgentContext =
  tenantId :: string
  sessionId :: string
  cartId :: "string option"

record ToolDefinition =
  name :: string
  description :: string
  properties :: "(string \<times> string \<times> string) list"
  required :: "string list"

record ToolResult =
  success :: bool
  data :: "jsval option"
  error :: "string option"

definition AGENT_TOOLS :: "ToolDefinition list" where
  "AGENT_TOOLS = [
    \<lparr>name = ''search_products'',
     description = ''Search for products in the store by keywords or description'',
     properties = [(''query'', ''string'', ''Search query for finding products''),
                   (''limit'', ''number'', ''Maximum number of results (default 5)'')],
     required = [''query'']\<rparr>,
    \<lparr>name = ''get_product_details'',
     description = ''Get detailed information about a specific product by its handle/slug'',
     properties = [(''productHandle'', ''string'', ''Product handle (URL slug)'')],
     required = [''productHandle'']\<rparr>,
    \<lparr>name = ''add_to_cart'',
     description = ''Add a product variant to the shopping cart'',
     properties = [(''variantId'', ''string'', ''Product variant ID to add''),
                   (''quantity'', ''number'', ''Quantity to add (default 1)'')],
     required = [''variantId'']\<rparr>,
    \<lparr>name = ''get_cart'',
     description = ''Get current shopping cart contents and checkout URL'',
     properties = [],
     required = []\<rparr>,
    \<lparr>name = ''search_faqs'',
     description = ''Search FAQ/help articles for customer questions about shipping, returns, policies'',
     properties = [(''query'', ''string'', ''Question or topic to search'')],
     required = [''query'']\<rparr>,
    \<lparr>name = ''create_order'',
     description = ''Create a draft order for the customer (requires customer email)'',
     properties = [(''email'', ''string'', ''Customer email address''),
                   (''note'', ''string'', ''Optional note for the order'')],
     required = [''email'']\<rparr>]"

subsection \<open>What the collaborators return\<close>

record ProductResult =
  pr_id :: string
  pr_title :: string
  pr_description :: "string option"
  pr_price :: "number option"
  pr_currency :: string
  pr_imageUrl :: "string option"
  pr_category :: "string option"
  pr_similarity :: number

record FaqResult =
  fq_question :: string
  fq_answer :: string
  fq_category :: "string option"
  fq_similarity :: number

record ShopifyCredentials =
  storeUrl :: string
  storefrontToken :: "string option"
  adminToken :: "string option"

text \<open>
  The tenant object as its two readers see it: the agent reads \<open>systemPrompt\<close> (here \<open>tn_systemPrompt\<close>), the
  Shopify factory (handed the object \<open>as any\<close>) reads \<open>shopifyCredentials\<close>.
\<close>

record Tenant =
  tn_id :: string
  tn_name :: string
  tn_systemPrompt :: "string option"
  shopifyCredentials :: "ShopifyCredentials option"

record StorefrontConfig =
  sf_storeUrl :: string
  sf_storefrontToken :: string

record AdminConfig =
  ad_storeUrl :: string
  ad_adminToken :: string

record Variant =
  v_id :: string
  v_title :: string
  v_price :: number
  v_available :: bool

record ShopifyProduct =
  sp_id :: string
  sp_title :: string
  sp_handle :: string
  sp_description :: "string option"
  sp_minPrice :: number
  sp_maxPrice :: number
  sp_images :: "(string \<times> string) list"
  sp_variants :: "Variant list"

record CartLine =
  merchandiseId :: string
  quantity :: number

record CartResponse =
  cr_cartId :: string
  cr_checkoutUrl :: string
  cr_lines :: "CartLine list"

text \<open>A line as the executor sends it: both fields come unchecked from the tool input.\<close>

record LineInput =
  li_merchandiseId :: jsval
  li_quantity :: jsval

record DraftOrder =
  do_id :: string
  do_invoiceUrl :: string
  do_totalPrice :: string
  do_status :: string

subsection \<open>Model responses and conversation messages\<close>

datatype ContentBlock =
    ToolUseBlock string string "string \<Rightarrow> jsval"
  | TextBlock string

datatype stop_reason = end_turn | tool_use | max_tokens

record ClaudeResponse =
  content :: "ContentBlock list"
  stop_reason :: stop_reason

record ChatMessage =
  role :: string
  msg_content :: string

datatype message_content =
    MText string
  | MBlocks "ContentBlock list"
  | MToolResults "(string \<times> string) list"

type_synonym conv_message = "string \<times> message_content"

text \<open>The answer of one HTTP call to the model: status, body text, and the parsed body.\<close>

record ClaudeHttp =
  ch_status :: nat
  ch_text :: "exn + string"
  ch_json :: "exn + ClaudeResponse"

subsection \<open>Calls to the collaborators\<close>

datatype event =
    EvRagSearchProducts string string jsval
  | EvRagSearchFaqs string string
  | EvRagSearch string string
  | EvGetTenant string
  | EvSfSearchProducts StorefrontConfig string jsval
  | EvSfGetProduct StorefrontConfig jsval
  | EvSfCreateCart StorefrontConfig "LineInput list"
  | EvSfAddToCart StorefrontConfig string "LineInput list"
  | EvSfGetCart StorefrontConfig string
  | EvAdminCreateDraftOrder AdminConfig "(string \<times> number) list" jsval jsval
  | EvClaudeFetch "conv_message list" string

text \<open>
  The collaborators are injected into the classes. Each is an arbitrary function of its
  arguments and of the calls made so far; the last three fields are the host's
  number and JSON formatting.
\<close>

record env =
  rag_searchProducts :: "event list \<Rightarrow> string \<Rightarrow> string \<Rightarrow> jsval \<Rightarrow> exn + ProductResult list"
  rag_searchFaqs :: "event list \<Rightarrow> string \<Rightarrow> string \<Rightarrow> exn + FaqResult list"
  rag_search :: "event list \<Rightarrow> string \<Rightarrow> string \<Rightarrow> exn + (ProductResult list \<times> FaqResult list)"
  getTenant :: "event list \<Rightarrow> string \<Rightarrow> exn + Tenant option"
  sf_searchProducts :: "event list \<Rightarrow> StorefrontConfig \<Rightarrow> string \<Rightarrow> jsval \<Rightarrow> exn + ShopifyProduct list"
  sf_getProduct :: "event list \<Rightarrow> StorefrontConfig \<Rightarrow> jsval \<Rightarrow> exn + ShopifyProduct option"
  sf_createCart :: "event list \<Rightarrow> StorefrontConfig \<Rightarrow> LineInput list \<Rightarrow> exn + CartResponse"
  sf_addToCart :: "event list \<Rightarrow> StorefrontConfig \<Rightarrow> string \<Rightarrow> LineInput list \<Rightarrow> exn + CartResponse"
  sf_getCart :: "event list \<Rightarrow> StorefrontConfig \<Rightarrow> string \<Rightarrow> exn + CartResponse"
  admin_createDraftOrder :: "event list \<Rightarrow> AdminConfig \<Rightarrow> (string \<times> number) list \<Rightarrow> jsval \<Rightarrow> jsval \<Rightarrow> exn + DraftOrder"
  claude_fetch :: "event list \<Rightarrow> conv_message list \<Rightarrow> string \<Rightarrow> exn + ClaudeHttp"
  toFixed2 :: "number \<Rightarrow> string"
  num_toString :: "number \<Rightarrow> string"
  stringify :: "ToolResult \<Rightarrow> string"

text \<open>The executor's state: its session-to-cart map, and the calls made so far.\<close>

record exec_state =
  cartStore :: "string \<rightharpoonup> string"
  trace :: "event list"

definition log :: "event \<Rightarrow> exec_state \<Rightarrow> exec_state" where
  "log ev s = s\<lparr>trace := trace s @ [ev]\<rparr>"

section \<open>Tool executor\<close>

text \<open>\<open>String(v)\<close>, as a template literal applies it; the first argument formats a number.\<close>

fun js_String :: "(number \<Rightarrow> string) \<Rightarrow> jsval \<Rightarrow> string" where
  "js_String nts JUndefined = ''undefined''"
| "js_String nts JNull = ''null''"
| "js_String nts (JBool b) = (if b then ''true'' else ''false'')"
| "js_String nts (JNum n) = nts n"
| "js_String nts (JStr s) = s"
| "js_String nts (JArr xs) =
     join '','' (map (\<lambda>x. if x = JUndefined \<or> x = JNull then [] else js_String nts x) xs)"
| "js_String nts (JObj kvs) = ''[object Object]''"

text \<open>\<open>a !== b\<close> on numbers: \<open>NaN\<close> differs from itself.\<close>

definition num_neq :: "number \<Rightarrow> number \<Rightarrow> bool" where
  "num_neq a b = (a = NaN \<or> b = NaN \<or> a \<noteq> b)"

definition opt_str :: "string option \<Rightarrow> jsval" where
  "opt_str x = (case x of None \<Rightarrow> JNull | Some s \<Rightarrow> JStr s)"

definition ok_result :: "jsval \<Rightarrow> ToolResult" where
  "ok_result d = \<lparr>success = True, data = Some d, error = None\<rparr>"

definition fail_result :: "string \<Rightarrow> ToolResult" where
  "fail_result m = \<lparr>success = False, data = None, error = Some m\<rparr>"

text \<open>\<open>description?.slice(0, 200) || 'No description'\<close>\<close>

definition short_description :: "string option \<Rightarrow> string" where
  "short_description d =
     (case d of
        None \<Rightarrow> ''No description''
      | Some t \<Rightarrow> if slice t 0 200 = [] then ''No description'' else slice t 0 200)"

definition formatProduct :: "env \<Rightarrow> ShopifyProduct \<Rightarrow> jsval" where
  "formatProduct env product =
     (let availableVariants = filter v_available (sp_variants product) in
      JObj [
        (''title'', JStr (sp_title product)),
        (''handle'', JStr (sp_handle product)),
        (''description'', JStr (short_description (sp_description product))),
        (''price'', JStr (''$'' @ toFixed2 env (sp_minPrice product))),
        (''priceRange'',
           if num_neq (sp_minPrice product) (sp_maxPrice product)
           then JStr (''$'' @ toFixed2 env (sp_minPrice product) @ '' - $''
                      @ toFixed2 env (sp_maxPrice product))
           else JNull),
        (''image'',
           case sp_images product of
             [] \<Rightarrow> JNull
           | img # rest \<Rightarrow> if fst img = [] then JNull else JStr (fst img)),
        (''variants'',
           JArr (map (\<lambda>v. JObj [(''id'', JStr (v_id v)), (''title'', JStr (v_title v)),
                                 (''price'', JStr (''$'' @ toFixed2 env (v_price v)))])
                     availableVariants)),
        (''inStock'', JBool (availableVariants \<noteq> []))])"

definition formatCart :: "CartResponse \<Rightarrow> (string \<times> jsval) list" where
  "formatCart cart =
     [(''cartId'', JStr (cr_cartId cart)),
      (''checkoutUrl'', JStr (cr_checkoutUrl cart)),
      (''itemCount'', JNum (Num (of_nat (length (cr_lines cart))))),
      (''items'',
         JArr (map (\<lambda>line. JObj [(''variantId'', JStr (merchandiseId line)),
                                  (''quantity'', JNum (quantity line))])
                   (cr_lines cart)))]"

subsection \<open>The Shopify factory\<close>

definition createStorefrontClient :: "Tenant \<Rightarrow> StorefrontConfig option" where
  "createStorefrontClient tenant =
     (case shopifyCredentials tenant of
        None \<Rightarrow> None
      | Some credentials \<Rightarrow>
          (case storefrontToken credentials of
             None \<Rightarrow> None
           | Some tok \<Rightarrow>
               if storeUrl credentials = [] \<or> tok = [] then None
               else Some \<lparr>sf_storeUrl = storeUrl credentials, sf_storefrontToken = tok\<rparr>))"

definition createAdminClient :: "Tenant \<Rightarrow> AdminConfig option" where
  "createAdminClient tenant =
     (case shopifyCredentials tenant of
        None \<Rightarrow> None
      | Some credentials \<Rightarrow>
          (case adminToken credentials of
             None \<Rightarrow> None
           | Some tok \<Rightarrow>
               if storeUrl credentials = [] \<or> tok = [] then None
               else Some \<lparr>ad_storeUrl = storeUrl credentials, ad_adminToken = tok\<rparr>))"

subsection \<open>The session-to-cart map\<close>

definition sessionKey :: "AgentContext \<Rightarrow> string" where
  "sessionKey context = tenantId context @ '':'' @ sessionId context"

text \<open>\<open>this.cartStore.get(sessionKey) || context.cartId\<close>\<close>

definition getCartId :: "exec_state \<Rightarrow> AgentContext \<Rightarrow> string option" where
  "getCartId s context =
     (case cartStore s (sessionKey context) of
        Some c \<Rightarrow> if c \<noteq> [] then Some c else cartId context
      | None \<Rightarrow> cartId context)"

definition setCartId :: "AgentContext \<Rightarrow> string \<Rightarrow> exec_state \<Rightarrow> exec_state" where
  "setCartId context c s = s\<lparr>cartStore := (cartStore s)(sessionKey context \<mapsto> c)\<rparr>"

subsection \<open>Calls, each recorded in the trace\<close>

definition call_getTenant :: "env \<Rightarrow> string \<Rightarrow> exec_state \<Rightarrow> (exn + Tenant option) \<times> exec_state" where
  "call_getTenant env tid s = (getTenant env (trace s) tid, log (EvGetTenant tid) s)"

definition call_ragSearchProducts ::
  "env \<Rightarrow> string \<Rightarrow> string \<Rightarrow> jsval \<Rightarrow> exec_state \<Rightarrow> (exn + ProductResult list) \<times> exec_state" where
  "call_ragSearchProducts env tid q lmt s =
     (rag_searchProducts env (trace s) tid q lmt, log (EvRagSearchProducts tid q lmt) s)"

definition call_ragSearchFaqs ::
  "env \<Rightarrow> string \<Rightarrow> string \<Rightarrow> exec_state \<Rightarrow> (exn + FaqResult list) \<times> exec_state" where
  "call_ragSearchFaqs env tid q s =
     (rag_searchFaqs env (trace s) tid q, log (EvRagSearchFaqs tid q) s)"

definition call_sfSearchProducts ::
  "env \<Rightarrow> StorefrontConfig \<Rightarrow> string \<Rightarrow> jsval \<Rightarrow> exec_state \<Rightarrow> (exn + ShopifyProduct list) \<times> exec_state" where
  "call_sfSearchProducts env sf q lmt s =
     (sf_searchProducts env (trace s) sf q lmt, log (EvSfSearchProducts sf q lmt) s)"

definition call_sfGetProduct ::
  "env \<Rightarrow> StorefrontConfig \<Rightarrow> jsval \<Rightarrow> exec_state \<Rightarrow> (exn + ShopifyProduct option) \<times> exec_state" where
  "call_sfGetProduct env sf h s =
     (sf_getProduct env (trace s) sf h, log (EvSfGetProduct sf h) s)"

definition call_sfCreateCart ::
  "env \<Rightarrow> StorefrontConfig \<Rightarrow> LineInput list \<Rightarrow> exec_state \<Rightarrow> (exn + CartResponse) \<times> exec_state" where
  "call_sfCreateCart env sf ls s =
     (sf_createCart env (trace s) sf ls, log (EvSfCreateCart sf ls) s)"

definition call_sfAddToCart ::
  "env \<Rightarrow> StorefrontConfig \<Rightarrow> string \<Rightarrow> LineInput list \<Rightarrow> exec_state \<Rightarrow> (exn + CartResponse) \<times> exec_state" where
  "call_sfAddToCart env sf c ls s =
     (sf_addToCart env (trace s) sf c ls, log (EvSfAddToCart sf c ls) s)"

definition call_sfGetCart ::
  "env \<Rightarrow> StorefrontConfig \<Rightarrow> string \<Rightarrow> exec_state \<Rightarrow> (exn + CartResponse) \<times> exec_state" where
  "call_sfGetCart env sf c s =
     (sf_getCart env (trace s) sf c, log (EvSfGetCart sf c) s)"

definition call_adminCreateDraftOrder ::
  "env \<Rightarrow> AdminConfig \<Rightarrow> (string \<times> number) list \<Rightarrow> jsval \<Rightarrow> jsval \<Rightarrow> exec_state \<Rightarrow> (exn + DraftOrder) \<times> exec_state" where
  "call_adminCreateDraftOrder env ad ls email note s =
     (admin_createDraftOrder env (trace s) ad ls email note,
      log (EvAdminCreateDraftOrder ad ls email note) s)"

subsection \<open>The six tools\<close>

definition productJson :: "env \<Rightarrow> ProductResult \<Rightarrow> jsval" where
  "productJson env p =
     JObj [
       (''id'', JStr (pr_id p)),
       (''title'', JStr (pr_title p)),
       (''description'', JStr (short_description (pr_description p))),
       (''price'',
          JStr (case pr_price p of
                  None \<Rightarrow> ''Price not available''
                | Some n \<Rightarrow>
                    if truthy_num n then ''$'' @ toFixed2 env n @ '' '' @ pr_currency p
                    else ''Price not available'')),
       (''image'', opt_str (pr_imageUrl p)),
       (''category'', opt_str (pr_category p))]"

definition searchProducts ::
  "env \<Rightarrow> (string \<Rightarrow> jsval) \<Rightarrow> AgentContext \<Rightarrow> exec_state \<Rightarrow> (exn + ToolResult) \<times> exec_state" where
  "searchProducts env input context s =
     (let query = input ''query'';
          limit = js_or (input ''limit'') (JNum (Num 5))
      in
      if \<not> truthy query then (Inr (fail_result ''Search query is required''), s)
      else
        (case query of
           JStr q \<Rightarrow>
             if length (trim q) = 0 then (Inr (fail_result ''Search query is required''), s)
             else
               (case call_ragSearchProducts env (tenantId context) q limit s of
                  (Inl e, s1) \<Rightarrow> (Inl e, s1)
                | (Inr ragResults, s1) \<Rightarrow>
                    if length ragResults > 0 then
                      (Inr (ok_result (JObj [(''source'', JStr ''database''),
                                             (''products'', JArr (map (productJson env) ragResults))])),
                       s1)
                    else
                      (case call_getTenant env (tenantId context) s1 of
                         (Inl e, s2) \<Rightarrow> (Inl e, s2)
                       | (Inr None, s2) \<Rightarrow> (Inr (fail_result ''Tenant not found''), s2)
                       | (Inr (Some tenant), s2) \<Rightarrow>
                           (case createStorefrontClient tenant of
                              None \<Rightarrow>
                                (Inr (ok_result (JObj [(''products'', JArr []),
                                                       (''message'', JStr ''No products found'')])),
                                 s2)
                            | Some storefront \<Rightarrow>
                                (case call_sfSearchProducts env storefront q limit s2 of
                                   (Inl e, s3) \<Rightarrow> (Inl e, s3)
                                 | (Inr products, s3) \<Rightarrow>
                                     (Inr (ok_result (JObj [(''source'', JStr ''shopify''),
                                                            (''products'',
                                                             JArr (map (formatProduct env) products))])),
                                      s3)))))
         | other \<Rightarrow> (Inl (Error ''query.trim is not a function''), s)))"

definition getProductDetails ::
  "env \<Rightarrow> (string \<Rightarrow> jsval) \<Rightarrow> AgentContext \<Rightarrow> exec_state \<Rightarrow> (exn + ToolResult) \<times> exec_state" where
  "getProductDetails env input context s =
     (let productHandle = input ''productHandle'' in
      if \<not> truthy productHandle then (Inr (fail_result ''Product handle is required''), s)
      else
        (case call_getTenant env (tenantId context) s of
           (Inl e, s1) \<Rightarrow> (Inl e, s1)
         | (Inr None, s1) \<Rightarrow> (Inr (fail_result ''Tenant not found''), s1)
         | (Inr (Some tenant), s1) \<Rightarrow>
             (case createStorefrontClient tenant of
                None \<Rightarrow> (Inr (fail_result ''Shopify not configured for this store''), s1)
              | Some storefront \<Rightarrow>
                  (case call_sfGetProduct env storefront productHandle s1 of
                     (Inl e, s2) \<Rightarrow> (Inl e, s2)
                   | (Inr None, s2) \<Rightarrow>
                       (Inr (fail_result (''Product not found: ''
                                          @ js_String (num_toString env) productHandle)), s2)
                   | (Inr (Some product), s2) \<Rightarrow>
                       (Inr (ok_result (formatProduct env product)), s2)))))"

definition addToCart ::
  "env \<Rightarrow> (string \<Rightarrow> jsval) \<Rightarrow> AgentContext \<Rightarrow> exec_state \<Rightarrow> (exn + ToolResult) \<times> exec_state" where
  "addToCart env input context s =
     (let variantId = input ''variantId'';
          qty = js_or (input ''quantity'') (JNum (Num 1))
      in
      if \<not> truthy variantId then (Inr (fail_result ''Variant ID is required''), s)
      else
        (case call_getTenant env (tenantId context) s of
           (Inl e, s1) \<Rightarrow> (Inl e, s1)
         | (Inr None, s1) \<Rightarrow> (Inr (fail_result ''Tenant not found''), s1)
         | (Inr (Some tenant), s1) \<Rightarrow>
             (case createStorefrontClient tenant of
                None \<Rightarrow> (Inr (fail_result ''Shopify not configured for this store''), s1)
              | Some storefront \<Rightarrow>
                  (let existingCartId = getCartId s1 context;
                       line = \<lparr>li_merchandiseId = variantId, li_quantity = qty\<rparr>;
                       created =
                         (case call_sfCreateCart env storefront [line] s1 of
                            (Inl e, s2) \<Rightarrow> (Inl e, s2)
                          | (Inr cart, s2) \<Rightarrow> (Inr cart, setCartId context (cr_cartId cart) s2));
                       added =
                         (case existingCartId of
                            None \<Rightarrow> created
                          | Some c \<Rightarrow>
                              if c \<noteq> [] then call_sfAddToCart env storefront c [line] s1
                              else created)
                   in
                   case added of
                     (Inl e, s3) \<Rightarrow> (Inl e, s3)
                   | (Inr cart, s3) \<Rightarrow>
                       (Inr (ok_result (JObj (formatCart cart @
                               [(''message'',
                                 JStr (''Added '' @ js_String (num_toString env) qty
                                       @ '' item(s) to cart''))]))),
                        s3)))))"

definition getCart :: "env \<Rightarrow> AgentContext \<Rightarrow> exec_state \<Rightarrow> (exn + ToolResult) \<times> exec_state" where
  "getCart env context s =
     (case getCartId s context of
        None \<Rightarrow>
          (Inr (ok_result (JObj [(''items'', JArr []), (''message'', JStr ''Cart is empty'')])), s)
      | Some c \<Rightarrow>
          if c = [] then
            (Inr (ok_result (JObj [(''items'', JArr []), (''message'', JStr ''Cart is empty'')])), s)
          else
            (case call_getTenant env (tenantId context) s of
               (Inl e, s1) \<Rightarrow> (Inl e, s1)
             | (Inr None, s1) \<Rightarrow> (Inr (fail_result ''Tenant not found''), s1)
             | (Inr (Some tenant), s1) \<Rightarrow>
                 (case createStorefrontClient tenant of
                    None \<Rightarrow> (Inr (fail_result ''Shopify not configured''), s1)
                  | Some storefront \<Rightarrow>
                      (case call_sfGetCart env storefront c s1 of
                         (Inl e, s2) \<Rightarrow>
                           (Inr (ok_result (JObj [(''items'', JArr []),
                                                  (''message'', JStr ''Cart is empty or expired'')])),
                            s2)
                       | (Inr cart, s2) \<Rightarrow> (Inr (ok_result (JObj (formatCart cart))), s2)))))"

definition searchFaqs ::
  "env \<Rightarrow> (string \<Rightarrow> jsval) \<Rightarrow> AgentContext \<Rightarrow> exec_state \<Rightarrow> (exn + ToolResult) \<times> exec_state" where
  "searchFaqs env input context s =
     (let query = input ''query'' in
      if \<not> truthy query then (Inr (fail_result ''Search query is required''), s)
      else
        (case query of
           JStr q \<Rightarrow>
             if length (trim q) = 0 then (Inr (fail_result ''Search query is required''), s)
             else
               (case call_ragSearchFaqs env (tenantId context) q s of
                  (Inl e, s1) \<Rightarrow> (Inl e, s1)
                | (Inr faqs, s1) \<Rightarrow>
                    if length faqs = 0 then
                      (Inr (ok_result (JObj [(''faqs'', JArr []),
                                             (''message'', JStr ''No relevant FAQs found'')])),
                       s1)
                    else
                      (Inr (ok_result (JObj [(''faqs'',
                              JArr (map (\<lambda>f. JObj [(''question'', JStr (fq_question f)),
                                                    (''answer'', JStr (fq_answer f)),
                                                    (''category'', opt_str (fq_category f))])
                                        faqs))])),
                       s1))
         | other \<Rightarrow> (Inl (Error ''query.trim is not a function''), s)))"

text \<open>
  \<open>email.includes('@')\<close> on a truthy value: a string is searched for the character, an
  array for the element, and any other value has no such method.
\<close>

fun includes_at :: "jsval \<Rightarrow> exn + bool" where
  "includes_at (JStr t) = Inr (CHR ''@'' \<in> set t)"
| "includes_at (JArr xs) = Inr (JStr ''@'' \<in> set xs)"
| "includes_at v = Inl (Error ''email.includes is not a function'')"

definition createOrder ::
  "env \<Rightarrow> (string \<Rightarrow> jsval) \<Rightarrow> AgentContext \<Rightarrow> exec_state \<Rightarrow> (exn + ToolResult) \<times> exec_state" where
  "createOrder env input context s =
     (let email = input ''email'';
          order_note = input ''note''
      in
      if \<not> truthy email then (Inr (fail_result ''Valid email address is required''), s)
      else
        (case includes_at email of
           Inl e \<Rightarrow> (Inl e, s)
         | Inr has_at \<Rightarrow>
             if \<not> has_at then (Inr (fail_result ''Valid email address is required''), s)
             else
               (case getCartId s context of
                  None \<Rightarrow>
                    (Inr (fail_result ''Cart is empty. Add items before creating order.''), s)
                | Some c \<Rightarrow>
                    if c = [] then
                      (Inr (fail_result ''Cart is empty. Add items before creating order.''), s)
                    else
                      (case call_getTenant env (tenantId context) s of
                         (Inl e, s1) \<Rightarrow> (Inl e, s1)
                       | (Inr None, s1) \<Rightarrow> (Inr (fail_result ''Tenant not found''), s1)
                       | (Inr (Some tenant), s1) \<Rightarrow>
                           (case createStorefrontClient tenant of
                              None \<Rightarrow> (Inr (fail_result ''Shopify not configured''), s1)
                            | Some storefront \<Rightarrow>
                                (case call_sfGetCart env storefront c s1 of
                                   (Inl e, s2) \<Rightarrow> (Inl e, s2)
                                 | (Inr cart, s2) \<Rightarrow>
                                     if length (cr_lines cart) = 0 then
                                       (Inr (fail_result ''Cart is empty''), s2)
                                     else
                                       (case createAdminClient tenant of
                                          None \<Rightarrow>
                                            (Inr (ok_result (JObj [
                                               (''checkoutUrl'', JStr (cr_checkoutUrl cart)),
                                               (''message'',
                                                JStr ''Please complete your order using the checkout link'')])),
                                             s2)
                                        | Some admin \<Rightarrow>
                                            (case call_adminCreateDraftOrder env admin
                                                    (map (\<lambda>line. (merchandiseId line, quantity line))
                                                         (cr_lines cart))
                                                    email order_note s2 of
                                               (Inl e, s3) \<Rightarrow> (Inl e, s3)
                                             | (Inr draftOrder, s3) \<Rightarrow>
                                                 (Inr (ok_result (JObj [
                                                    (''orderId'', JStr (do_id draftOrder)),
                                                    (''invoiceUrl'', JStr (do_invoiceUrl draftOrder)),
                                                    (''totalPrice'', JStr (do_totalPrice draftOrder)),
                                                    (''status'', JStr (do_status draftOrder)),
                                                    (''message'',
                                                     JStr ''Draft order created. Check your email for the invoice.'')])),
                                                  s3)))))))))"

subsection \<open>Dispatch\<close>

text \<open>The \<open>switch\<close> on the tool name, inside the \<open>try\<close> block.\<close>

definition dispatch ::
  "env \<Rightarrow> string \<Rightarrow> (string \<Rightarrow> jsval) \<Rightarrow> AgentContext \<Rightarrow> exec_state \<Rightarrow> (exn + ToolResult) \<times> exec_state" where
  "dispatch env toolName input context s =
     (if toolName = ''search_products'' then searchProducts env input context s
      else if toolName = ''get_product_details'' then getProductDetails env input context s
      else if toolName = ''add_to_cart'' then addToCart env input context s
      else if toolName = ''get_cart'' then getCart env context s
      else if toolName = ''search_faqs'' then searchFaqs env input context s
      else if toolName = ''create_order'' then createOrder env input context s
      else (Inr (fail_result (''Unknown tool: '' @ toolName)), s))"

text \<open>The \<open>catch\<close> block: \<open>error instanceof Error ? error.message : 'Tool execution failed'\<close>.\<close>

definition catch_message :: "exn \<Rightarrow> string" where
  "catch_message e = (case e of Error m \<Rightarrow> m | Thrown v \<Rightarrow> ''Tool execution failed'')"

definition execute ::
  "env \<Rightarrow> string \<Rightarrow> (string \<Rightarrow> jsval) \<Rightarrow> AgentContext \<Rightarrow> exec_state \<Rightarrow> (exn + ToolResult) \<times> exec_state" where
  "execute env toolName input context s =
     (case dispatch env toolName input context s of
        (Inr r, s1) \<Rightarrow> (Inr r, s1)
      | (Inl e, s1) \<Rightarrow> (Inr (fail_result (catch_message e)), s1))"

section \<open>Retrieval context and system prompt\<close>

definition nl :: string where
  "nl = [CHR 0x0A]"

text \<open>\<open>RagService.buildContext\<close>\<close>

definition buildContext :: "env \<Rightarrow> ProductResult list \<times> FaqResult list \<Rightarrow> string" where
  "buildContext env results =
     (let products = fst results; faqs = snd results;
          sections1 =
            (if length products > 0 then
               [''**Relevant Products:**'' @ nl @
                join nl (map (\<lambda>p.
                   ''- '' @ pr_title p @ '': ''
                   @ (case pr_description p of None \<Rightarrow> ''No description'' | Some d \<Rightarrow> d)
                   @ '' ('' @
                   (case pr_price p of
                      None \<Rightarrow> ''Price not available''
                    | Some n \<Rightarrow>
                        if truthy_num n then ''$'' @ num_toString env n @ '' '' @ pr_currency p
                        else ''Price not available'')
                   @ '')'') products)]
             else []);
          sections2 =
            (if length faqs > 0 then
               sections1 @
               [''**Relevant FAQs:**'' @ nl @
                join (nl @ nl) (map (\<lambda>f. ''Q: '' @ fq_question f @ nl @ ''A: '' @ fq_answer f) faqs)]
             else sections1)
      in join (nl @ nl) sections2)"

definition DEFAULT_SYSTEM_PROMPT :: string where
  "DEFAULT_SYSTEM_PROMPT =
     ''You are a helpful sales assistant for an online store.'' @ nl @
     ''Your job is to help customers:'' @ nl @
     ''- Find products they're looking for'' @ nl @
     ''- Answer questions about products and policies'' @ nl @
     ''- Help them add items to cart and checkout'' @ nl @ nl @
     ''Be friendly, concise, and helpful. Use the available tools to search products and manage the cart.'' @ nl @
     ''When recommending products, always include prices and key features.'' @ nl @
     ''If asked about shipping, returns, or policies, search the FAQs.'' @ nl @ nl @
     ''IMPORTANT:'' @ nl @
     ''- Always search for products before recommending'' @ nl @
     ''- Confirm with customer before adding to cart'' @ nl @
     ''- Provide checkout link when customer is ready to buy'' @ nl @
     ''- If you don't find relevant products, let the customer know and suggest alternatives'' @ nl @
     ''- Never make up product information - only use what the tools return''"

definition buildSystemPrompt :: "string option \<Rightarrow> string \<Rightarrow> string" where
  "buildSystemPrompt tenantPrompt ragContext =
     (let basePrompt = (case tenantPrompt of None \<Rightarrow> DEFAULT_SYSTEM_PROMPT | Some p \<Rightarrow> p) in
      if ragContext = [] \<or> length (trim ragContext) = 0 then basePrompt
      else
        basePrompt @ nl @ nl @
        ''---'' @ nl @
        ''CONTEXT FROM STORE DATABASE:'' @ nl @
        ragContext @ nl @
        ''---'' @ nl @ nl @
        ''Use the above context to answer customer questions when relevant.'' @ nl @
        ''If the context doesn't contain needed information, use the search tools.'')"

definition buildToolGuidance :: string where
  "buildToolGuidance =
     nl @
     ''TOOL USAGE GUIDELINES:'' @ nl @
     ''- search_products: Use when customer asks about products, looking for items, or needs recommendations'' @ nl @
     ''- get_product_details: Use when customer wants more info about a specific product'' @ nl @
     ''- add_to_cart: Use ONLY after customer confirms they want to add an item'' @ nl @
     ''- get_cart: Use to show customer their current cart or before checkout'' @ nl @
     ''- search_faqs: Use for questions about shipping, returns, policies, store info'' @ nl @
     ''- create_order: Use when customer provides email and wants to place order''"

section \<open>Chat agent\<close>

definition MAX_TOOL_ITERATIONS :: nat where
  "MAX_TOOL_ITERATIONS = 5"

record AgentResponse =
  reply :: string
  toolCalls :: "(string \<times> ToolResult) list option"
  ar_cartId :: "string option"
  ar_checkoutUrl :: "string option"

datatype StreamEvent =
    SText string
  | STool "string \<times> ToolResult"
  | SDone AgentResponse
  | SError string

text \<open>Decimal digits of a status code, as a template literal prints it.\<close>

fun show_nat :: "nat \<Rightarrow> string" where
  "show_nat n =
     (if n < 10 then [''0123456789'' ! n]
      else show_nat (n div 10) @ [''0123456789'' ! (n mod 10)])"

definition call_ragSearch ::
  "env \<Rightarrow> string \<Rightarrow> string \<Rightarrow> exec_state \<Rightarrow> (exn + (ProductResult list \<times> FaqResult list)) \<times> exec_state" where
  "call_ragSearch env tid q s = (rag_search env (trace s) tid q, log (EvRagSearch tid q) s)"

definition buildPrompt :: "env \<Rightarrow> AgentContext \<Rightarrow> string \<Rightarrow> exec_state \<Rightarrow> (exn + string) \<times> exec_state" where
  "buildPrompt env context userQuery s =
     (case call_getTenant env (tenantId context) s of
        (Inl e, s1) \<Rightarrow> (Inl e, s1)
      | (Inr tenant, s1) \<Rightarrow>
          (let tenantPrompt = (case tenant of None \<Rightarrow> None | Some t \<Rightarrow> tn_systemPrompt t) in
           case call_ragSearch env (tenantId context) userQuery s1 of
             (Inl e, s2) \<Rightarrow> (Inl e, s2)
           | (Inr ragResults, s2) \<Rightarrow>
               (let ragContext = buildContext env ragResults;
                    basePrompt = buildSystemPrompt tenantPrompt ragContext;
                    toolGuidance = buildToolGuidance
                in (Inr (basePrompt @ nl @ toolGuidance), s2))))"

text \<open>
  \<open>callClaude\<close> and \<open>callClaudeWithToolResults\<close> post the same request; the first
  sends the history as role and text pairs, which is the initial conversation list, the
  second the list that ends with the tool results.
\<close>

definition callClaude ::
  "env \<Rightarrow> conv_message list \<Rightarrow> string \<Rightarrow> exec_state \<Rightarrow> (exn + ClaudeResponse) \<times> exec_state" where
  "callClaude env msgs systemPrompt s =
     (let s1 = log (EvClaudeFetch msgs systemPrompt) s in
      case claude_fetch env (trace s) msgs systemPrompt of
        Inl e \<Rightarrow> (Inl e, s1)
      | Inr response \<Rightarrow>
          if \<not> (200 \<le> ch_status response \<and> ch_status response \<le> 299) then
            (case ch_text response of
               Inl e \<Rightarrow> (Inl e, s1)
             | Inr errorText \<Rightarrow>
                 (Inl (Error (''Claude API error: '' @ show_nat (ch_status response)
                              @ '' - '' @ errorText)), s1))
          else (ch_json response, s1))"

definition callClaudeWithToolResults ::
  "env \<Rightarrow> conv_message list \<Rightarrow> string \<Rightarrow> exec_state \<Rightarrow> (exn + ClaudeResponse) \<times> exec_state" where
  "callClaudeWithToolResults env msgs systemPrompt s =
     (let s1 = log (EvClaudeFetch msgs systemPrompt) s in
      case claude_fetch env (trace s) msgs systemPrompt of
        Inl e \<Rightarrow> (Inl e, s1)
      | Inr response \<Rightarrow>
          if \<not> (200 \<le> ch_status response \<and> ch_status response \<le> 299) then
            (case ch_text response of
               Inl e \<Rightarrow> (Inl e, s1)
             | Inr errorText \<Rightarrow>
                 (Inl (Error (''Claude API error: '' @ show_nat (ch_status response)
                              @ '' - '' @ errorText)), s1))
          else (ch_json response, s1))"

definition extractText :: "ContentBlock list \<Rightarrow> string" where
  "extractText blocks = concat (map (\<lambda>b. case b of TextBlock t \<Rightarrow> t | ToolUseBlock i n inp \<Rightarrow> []) blocks)"

fun extractToolUse :: "ContentBlock list \<Rightarrow> (string \<times> string \<times> (string \<Rightarrow> jsval)) list" where
  "extractToolUse [] = []"
| "extractToolUse (ToolUseBlock i n inp # bs) = (i, n, inp) # extractToolUse bs"
| "extractToolUse (TextBlock t # bs) = extractToolUse bs"

text \<open>What the tool loop carries from one round to the next.\<close>

record loop_vars =
  claudeResponse :: ClaudeResponse
  iterations :: nat
  conversationMessages :: "conv_message list"
  allToolCalls :: "(string \<times> ToolResult) list"
  lv_cartId :: "string option"
  lv_checkoutUrl :: "string option"

text \<open>
  \<open>if (data.cartId) cartId = data.cartId as string\<close>. The executor only ever puts a
  string under these keys; another truthy value would leave the variable as it is here.
\<close>

definition pick_string :: "jsval \<Rightarrow> string \<Rightarrow> string option \<Rightarrow> string option" where
  "pick_string d k old =
     (case get_prop d k of
        JStr v \<Rightarrow> if v \<noteq> [] then Some v else old
      | other \<Rightarrow> old)"

text \<open>The inner \<open>for\<close> loop: the tool calls of one model turn, in the order requested.\<close>

fun run_tools ::
  "env \<Rightarrow> AgentContext \<Rightarrow> (string \<times> string \<times> (string \<Rightarrow> jsval)) list
   \<Rightarrow> (string \<times> ToolResult) list \<times> string option \<times> string option \<times> (string \<times> string) list
   \<Rightarrow> exec_state
   \<Rightarrow> (exn + (string \<times> ToolResult) list \<times> string option \<times> string option \<times> (string \<times> string) list)
       \<times> exec_state" where
  "run_tools env context [] acc s = (Inr acc, s)"
| "run_tools env context ((tid, tname, tinput) # rest) (calls, cid, url, toolResults) s =
     (case execute env tname tinput (context\<lparr>cartId := cid\<rparr>) s of
        (Inl e, s1) \<Rightarrow> (Inl e, s1)
      | (Inr result, s1) \<Rightarrow>
          (let calls1 = calls @ [(tname, result)];
               extract = (success result \<and> (case data result of None \<Rightarrow> False | Some d \<Rightarrow> truthy d));
               cid1 = (if extract then pick_string (the (data result)) ''cartId'' cid else cid);
               url1 = (if extract then pick_string (the (data result)) ''checkoutUrl'' url else url);
               toolResults1 = toolResults @ [(tid, stringify env result)]
           in run_tools env context rest (calls1, cid1, url1, toolResults1) s1))"

function tool_loop ::
  "env \<Rightarrow> AgentContext \<Rightarrow> string \<Rightarrow> loop_vars \<Rightarrow> exec_state \<Rightarrow> (exn + loop_vars) \<times> exec_state" where
  "tool_loop env context systemPrompt v s =
     (if stop_reason (claudeResponse v) = tool_use \<and> iterations v < MAX_TOOL_ITERATIONS then
        (let toolUseBlocks = extractToolUse (content (claudeResponse v));
             conv1 = conversationMessages v @ [(''assistant'', MBlocks (content (claudeResponse v)))]
         in
         case run_tools env context toolUseBlocks (allToolCalls v, lv_cartId v, lv_checkoutUrl v, []) s of
           (Inl e, s1) \<Rightarrow> (Inl e, s1)
         | (Inr (calls, cid, url, toolResults), s1) \<Rightarrow>
             (let conv2 = conv1 @ [(''user'', MToolResults toolResults)] in
              case callClaudeWithToolResults env conv2 systemPrompt s1 of
                (Inl e, s2) \<Rightarrow> (Inl e, s2)
              | (Inr response, s2) \<Rightarrow>
                  tool_loop env context systemPrompt
                    \<lparr>claudeResponse = response, iterations = iterations v + 1,
                     conversationMessages = conv2, allToolCalls = calls,
                     lv_cartId = cid, lv_checkoutUrl = url\<rparr> s2))
      else (Inr v, s))"
  by pat_completeness auto
termination
  by (relation "measure (\<lambda>(env, context, systemPrompt, v, s). MAX_TOOL_ITERATIONS - iterations v)")
     (auto simp: MAX_TOOL_ITERATIONS_def)

declare tool_loop.simps [simp del]

definition processMessage ::
  "env \<Rightarrow> ChatMessage list \<Rightarrow> AgentContext \<Rightarrow> exec_state \<Rightarrow> (exn + AgentResponse) \<times> exec_state" where
  "processMessage env messages context s =
     (let userQuery = (case find (\<lambda>m. role m = ''user'') (rev messages) of
                         None \<Rightarrow> []
                       | Some m \<Rightarrow> msg_content m)
      in
      case buildPrompt env context userQuery s of
        (Inl e, s1) \<Rightarrow> (Inl e, s1)
      | (Inr systemPrompt, s1) \<Rightarrow>
          (let conv0 = map (\<lambda>m. (role m, MText (msg_content m))) messages in
           case callClaude env conv0 systemPrompt s1 of
             (Inl e, s2) \<Rightarrow> (Inl e, s2)
           | (Inr response, s2) \<Rightarrow>
               (case tool_loop env context systemPrompt
                       \<lparr>claudeResponse = response, iterations = 0,
                        conversationMessages = conv0, allToolCalls = [],
                        lv_cartId = cartId context, lv_checkoutUrl = None\<rparr> s2 of
                  (Inl e, s3) \<Rightarrow> (Inl e, s3)
                | (Inr v, s3) \<Rightarrow>
                    (Inr \<lparr>reply = extractText (content (claudeResponse v)),
                          toolCalls = (if length (allToolCalls v) > 0 then Some (allToolCalls v) else None),
                          ar_cartId = lv_cartId v,
                          ar_checkoutUrl = lv_checkoutUrl v\<rparr>, s3))))"

text \<open>The chunk loop of the streaming form, \<open>for (i = 0; i < reply.length; i += chunkSize)\<close> with \<open>chunkSize = 50\<close>.\<close>

function text_chunks :: "string \<Rightarrow> nat \<Rightarrow> string list" where
  "text_chunks r i =
     (if i < length r then slice r i (i + 50) # text_chunks r (i + 50)
      else [])"
  by pat_completeness auto
termination
  by (relation "measure (\<lambda>(r, i). length r - i)") auto

declare text_chunks.simps [simp del]

text \<open>The events the generator yields, in order.\<close>

definition processMessageStream ::
  "env \<Rightarrow> ChatMessage list \<Rightarrow> AgentContext \<Rightarrow> exec_state \<Rightarrow> StreamEvent list \<times> exec_state" where
  "processMessageStream env messages context s =
     (case processMessage env messages context s of
        (Inr response, s1) \<Rightarrow>
          ((case toolCalls response of None \<Rightarrow> [] | Some calls \<Rightarrow> map STool calls)
           @ map SText (text_chunks (reply response) 0)
           @ [SDone response], s1)
      | (Inl e, s1) \<Rightarrow>
          ([SError (case e of Error m \<Rightarrow> m | Thrown v \<Rightarrow> ''Unknown error'')], s1))"

section \<open>Embeddings service\<close>

definition MAX_BATCH_SIZE :: nat where
  "MAX_BATCH_SIZE = 128"

definition MAX_RETRIES :: nat where
  "MAX_RETRIES = 3"

definition INITIAL_RETRY_DELAY_MS :: nat where
  "INITIAL_RETRY_DELAY_MS = 1000"

datatype VoyageInputType = document_type | query_type

datatype voyage_input = Single string | Many "string list"

record VoyageItem =
  embedding :: "number list"
  index :: nat

text \<open>The parsed body: an error body has a \<open>detail\<close>, an embedding response has \<open>data\<close>.\<close>

record VoyageJson =
  vj_detail :: "string option"
  vj_data :: "VoyageItem list option"

text \<open>One HTTP response: the status, the \<open>Retry-After\<close> header, and the body parsed or not.\<close>

record VoyageHttp =
  vh_status :: nat
  vh_retryAfter :: "string option"
  vh_json :: "exn + VoyageJson"

datatype emb_event =
    EvFetch voyage_input VoyageInputType
  | EvSleep number

record emb_env =
  voyage_fetch :: "emb_event list \<Rightarrow> voyage_input \<Rightarrow> VoyageInputType \<Rightarrow> exn + VoyageHttp"
  emb_num_toString :: "number \<Rightarrow> string"

text \<open>\<open>s.includes(sub)\<close>\<close>

fun str_includes :: "string \<Rightarrow> string \<Rightarrow> bool" where
  "str_includes [] sub = (sub = [])"
| "str_includes (c # cs) sub = (take (length sub) (c # cs) = sub \<or> str_includes cs sub)"

text \<open>The decimal digits are the codes 48 to 57.\<close>

definition is_digit :: "char \<Rightarrow> bool" where
  "is_digit c = (48 \<le> (of_char c :: nat) \<and> (of_char c :: nat) \<le> 57)"

definition digit_val :: "char \<Rightarrow> nat" where
  "digit_val c = of_char c - 48"

text \<open>
  \<open>parseInt(s, 10)\<close>: leading white space, an optional sign, then the decimal digits;
  \<open>NaN\<close> when there is none. The result here is the exact integer; the program rounds
  an integer above \<open>2^53\<close> to the nearest double, which no delay in seconds reaches.
\<close>

definition parseInt10 :: "string \<Rightarrow> number" where
  "parseInt10 t =
     (let u = dropWhile is_space t;
          negative = (u \<noteq> [] \<and> hd u = CHR ''-'');
          v = (if u \<noteq> [] \<and> (hd u = CHR ''-'' \<or> hd u = CHR ''+'') then tl u else u);
          ds = takeWhile is_digit v;
          n = foldl (\<lambda>acc c. 10 * acc + digit_val c) 0 ds
      in if ds = [] then NaN
         else if negative then Num (- of_nat n) else Num (of_nat n))"

text \<open>\<open>x * 1000\<close>\<close>

fun times_1000 :: "number \<Rightarrow> number" where
  "times_1000 (Num r) = Num (r * 1000)"
| "times_1000 other = other"

definition call_fetch ::
  "emb_env \<Rightarrow> voyage_input \<Rightarrow> VoyageInputType \<Rightarrow> emb_event list \<Rightarrow> (exn + VoyageHttp) \<times> emb_event list" where
  "call_fetch env inp ty tr = (voyage_fetch env tr inp ty, tr @ [EvFetch inp ty])"

definition sleep :: "number \<Rightarrow> emb_event list \<Rightarrow> emb_event list" where
  "sleep ms tr = tr @ [EvSleep ms]"

definition backoff :: "nat \<Rightarrow> number" where
  "backoff attempt = Num (of_nat (INITIAL_RETRY_DELAY_MS * 2 ^ attempt))"

text \<open>\<open>error instanceof Error ? error : new Error(String(error))\<close>\<close>

definition as_Error :: "emb_env \<Rightarrow> exn \<Rightarrow> string" where
  "as_Error env e = (case e of Error m \<Rightarrow> m | Thrown v \<Rightarrow> js_String (emb_num_toString env) v)"

text \<open>
  The \<open>for\<close> loop of \<open>fetchWithRetry\<close>, from attempt \<open>attempt\<close> on. An exception raised
  inside the \<open>try\<close> block (by \<open>fetch\<close>, by parsing an error body, or the error built
  from a response that is not ok) reaches the \<open>catch\<close> block, here \<open>caught\<close>; the
  body of a response that is ok is returned without \<open>await\<close>, so a failure to parse
  it leaves the function at once.
\<close>

function fetchWithRetry_from ::
  "emb_env \<Rightarrow> voyage_input \<Rightarrow> VoyageInputType \<Rightarrow> nat \<Rightarrow> exn option \<Rightarrow> emb_event list
   \<Rightarrow> (exn + VoyageJson) \<times> emb_event list" where
  "fetchWithRetry_from env inp ty attempt lastError tr =
     (if attempt < MAX_RETRIES then
        (let (fetched, tr1) = call_fetch env inp ty tr;
             caught = (\<lambda>e.
               let message = as_Error env e;
                   isRetryable = (str_includes message ''429'' \<or> str_includes message ''fetch'')
               in if \<not> isRetryable \<or> attempt \<ge> MAX_RETRIES - 1 then (Inl (Error message), tr1)
                  else fetchWithRetry_from env inp ty (attempt + 1) (Some (Error message))
                         (sleep (backoff attempt) tr1))
         in
         case fetched of
           Inl e \<Rightarrow> caught e
         | Inr response \<Rightarrow>
             (let delayMs =
                    (case vh_retryAfter response of
                       None \<Rightarrow> backoff attempt
                     | Some retryAfter \<Rightarrow>
                         if retryAfter \<noteq> [] then times_1000 (parseInt10 retryAfter)
                         else backoff attempt)
              in
              if vh_status response = 429 \<and> attempt < MAX_RETRIES - 1 then
                fetchWithRetry_from env inp ty (attempt + 1) lastError (sleep delayMs tr1)
              else if \<not> (200 \<le> vh_status response \<and> vh_status response \<le> 299) then
                (case vh_json response of
                   Inl e \<Rightarrow> caught e
                 | Inr errorBody \<Rightarrow>
                     caught (Error (''Voyage AI Embeddings API error ''
                                    @ show_nat (vh_status response) @ '': ''
                                    @ (case vj_detail errorBody of
                                         None \<Rightarrow> ''Unknown error''
                                       | Some d \<Rightarrow> d))))
              else (vh_json response, tr1)))
      else
        (Inl (case lastError of None \<Rightarrow> Error ''Max retries exceeded'' | Some e \<Rightarrow> e), tr))"
  by pat_completeness auto
termination
  by (relation "measure (\<lambda>(env, inp, ty, attempt, lastError, tr). MAX_RETRIES - attempt)")
     (auto simp: MAX_RETRIES_def)

declare fetchWithRetry_from.simps [simp del]

definition fetchWithRetry ::
  "emb_env \<Rightarrow> voyage_input \<Rightarrow> VoyageInputType \<Rightarrow> emb_event list \<Rightarrow> (exn + VoyageJson) \<times> emb_event list" where
  "fetchWithRetry env inp ty tr = fetchWithRetry_from env inp ty 0 None tr"

text \<open>\<open>response.data[0].embedding\<close>\<close>

definition first_embedding :: "VoyageJson \<Rightarrow> exn + number list" where
  "first_embedding response =
     (case vj_data response of
        None \<Rightarrow> Inl (Error ''Cannot read properties of undefined (reading '0')'')
      | Some [] \<Rightarrow> Inl (Error ''Cannot read properties of undefined (reading 'embedding')'')
      | Some (item # rest) \<Rightarrow> Inr (embedding item))"

definition embed :: "emb_env \<Rightarrow> string \<Rightarrow> emb_event list \<Rightarrow> (exn + number list) \<times> emb_event list" where
  "embed env text tr =
     (if text = [] \<or> length (trim text) = 0 then (Inl (Error ''Text cannot be empty''), tr)
      else
        (case fetchWithRetry env (Single text) document_type tr of
           (Inl e, tr1) \<Rightarrow> (Inl e, tr1)
         | (Inr response, tr1) \<Rightarrow> (first_embedding response, tr1)))"

definition embedQuery :: "emb_env \<Rightarrow> string \<Rightarrow> emb_event list \<Rightarrow> (exn + number list) \<times> emb_event list" where
  "embedQuery env text tr =
     (if text = [] \<or> length (trim text) = 0 then (Inl (Error ''Query text cannot be empty''), tr)
      else
        (case fetchWithRetry env (Single text) query_type tr of
           (Inl e, tr1) \<Rightarrow> (Inl e, tr1)
         | (Inr response, tr1) \<Rightarrow> (first_embedding response, tr1)))"

text \<open>
  \<open>response.data.forEach((item, responseIndex) => results.push({embedding: item.embedding,
  index: chunk[responseIndex].index}))\<close>: the item at position \<open>responseIndex\<close> of the
  response takes the original index of the chunk entry at that same position.
\<close>

fun map_back :: "VoyageItem list \<Rightarrow> (string \<times> nat) list \<Rightarrow> exn + (number list \<times> nat) list" where
  "map_back [] chunk = Inr []"
| "map_back (item # items) [] = Inl (Error ''Cannot read properties of undefined (reading 'index')'')"
| "map_back (item # items) (c # cs) =
     (case map_back items cs of
        Inl e \<Rightarrow> Inl e
      | Inr rs \<Rightarrow> Inr ((embedding item, snd c) # rs))"

text \<open>The chunk loop of \<open>embedBatch\<close>, from position \<open>i\<close> of the non-empty texts on.\<close>

function embed_chunks ::
  "emb_env \<Rightarrow> (string \<times> nat) list \<Rightarrow> nat \<Rightarrow> (number list \<times> nat) list \<Rightarrow> emb_event list
   \<Rightarrow> (exn + (number list \<times> nat) list) \<times> emb_event list" where
  "embed_chunks env nonEmpty i results tr =
     (if i < length nonEmpty then
        (let chunk = slice nonEmpty i (i + MAX_BATCH_SIZE);
             chunkTexts = map fst chunk
         in
         case fetchWithRetry env (Many chunkTexts) document_type tr of
           (Inl e, tr1) \<Rightarrow> (Inl e, tr1)
         | (Inr response, tr1) \<Rightarrow>
             (case vj_data response of
                None \<Rightarrow> (Inl (Error ''Cannot read properties of undefined (reading 'forEach')''), tr1)
              | Some items \<Rightarrow>
                  (case map_back items chunk of
                     Inl e \<Rightarrow> (Inl e, tr1)
                   | Inr mapped \<Rightarrow>
                       embed_chunks env nonEmpty (i + MAX_BATCH_SIZE) (results @ mapped) tr1)))
      else (Inr results, tr))"
  by pat_completeness auto
termination
  by (relation "measure (\<lambda>(env, nonEmpty, i, results, tr). length nonEmpty - i)")
     (auto simp: MAX_BATCH_SIZE_def)

declare embed_chunks.simps [simp del]

definition embedBatch ::
  "emb_env \<Rightarrow> string list \<Rightarrow> emb_event list \<Rightarrow> (exn + number list list) \<times> emb_event list" where
  "embedBatch env texts tr =
     (if length texts = 0 then (Inr [], tr)
      else
        (let validTexts = zip (map trim texts) [0 ..< length texts];
             nonEmpty = filter (\<lambda>t. length (fst t) > 0) validTexts
         in
         if length nonEmpty = 0 then (Inl (Error ''All texts are empty''), tr)
         else
           (case embed_chunks env nonEmpty 0 [] tr of
              (Inl e, tr1) \<Rightarrow> (Inl e, tr1)
            | (Inr results, tr1) \<Rightarrow> (Inr (map fst (sort_key snd results)), tr1))))"

section \<open>RAG service\<close>

definition DEFAULT_PRODUCT_LIMIT :: nat where
  "DEFAULT_PRODUCT_LIMIT = 5"

definition DEFAULT_FAQ_LIMIT :: nat where
  "DEFAULT_FAQ_LIMIT = 3"

definition DEFAULT_SIMILARITY_THRESHOLD :: number where
  "DEFAULT_SIMILARITY_THRESHOLD = Num (25 / 100)"

text \<open>The optional configuration handed to the constructor, and the one it keeps.\<close>

record RagConfig =
  productLimit :: "nat option"
  faqLimit :: "nat option"
  similarityThreshold :: "number option"

record RagSettings =
  rs_productLimit :: nat
  rs_faqLimit :: nat
  rs_similarityThreshold :: number

definition rag_settings :: "RagConfig option \<Rightarrow> RagSettings" where
  "rag_settings config =
     \<lparr>rs_productLimit =
        (case config of None \<Rightarrow> DEFAULT_PRODUCT_LIMIT
         | Some c \<Rightarrow> (case productLimit c of None \<Rightarrow> DEFAULT_PRODUCT_LIMIT | Some n \<Rightarrow> n)),
      rs_faqLimit =
        (case config of None \<Rightarrow> DEFAULT_FAQ_LIMIT
         | Some c \<Rightarrow> (case faqLimit c of None \<Rightarrow> DEFAULT_FAQ_LIMIT | Some n \<Rightarrow> n)),
      rs_similarityThreshold =
        (case config of None \<Rightarrow> DEFAULT_SIMILARITY_THRESHOLD
         | Some c \<Rightarrow> (case similarityThreshold c of
                         None \<Rightarrow> DEFAULT_SIMILARITY_THRESHOLD | Some t \<Rightarrow> t))\<rparr>"

text \<open>Rows of the two similarity-search procedures of the vector store.\<close>

record ProductSearchResult =
  psr_id :: string
  psr_shopify_product_id :: "string option"
  psr_title :: string
  psr_description :: "string option"
  psr_price :: "number option"
  psr_currency :: string
  psr_image_url :: "string option"
  psr_category :: "string option"
  psr_tags :: "string list option"
  psr_metadata :: jsval
  psr_similarity :: number

record FaqSearchResult =
  fsr_id :: string
  fsr_question :: string
  fsr_answer :: string
  fsr_category :: "string option"
  fsr_similarity :: number

text \<open>An answer of \<open>supabase.rpc\<close>: the rows or null, and the error or null.\<close>

record 'row rpc_result =
  rpc_data :: "'row list option"
  rpc_error :: "string option"

datatype rag_event =
    EvEmbedQuery string
  | EvRpcProducts "number list" string nat
  | EvRpcFaqs "number list" string nat

record rag_env =
  embeddings_embedQuery :: "rag_event list \<Rightarrow> string \<Rightarrow> exn + number list"
  rpc_search_products ::
    "rag_event list \<Rightarrow> number list \<Rightarrow> string \<Rightarrow> nat \<Rightarrow> ProductSearchResult rpc_result"
  rpc_search_faqs ::
    "rag_event list \<Rightarrow> number list \<Rightarrow> string \<Rightarrow> nat \<Rightarrow> FaqSearchResult rpc_result"

text \<open>\<open>a >= b\<close> on numbers: false as soon as one side is \<open>NaN\<close>.\<close>

fun num_ge :: "number \<Rightarrow> number \<Rightarrow> bool" where
  "num_ge NaN b = False"
| "num_ge a NaN = False"
| "num_ge PosInf b = True"
| "num_ge a NegInf = True"
| "num_ge (Num x) (Num y) = (x \<ge> y)"
| "num_ge (Num x) PosInf = False"
| "num_ge NegInf b = False"

definition toProductResult :: "ProductSearchResult \<Rightarrow> ProductResult" where
  "toProductResult p =
     \<lparr>pr_id = psr_id p, pr_title = psr_title p, pr_description = psr_description p,
      pr_price = psr_price p, pr_currency = psr_currency p, pr_imageUrl = psr_image_url p,
      pr_category = psr_category p, pr_similarity = psr_similarity p\<rparr>"

definition toFaqResult :: "FaqSearchResult \<Rightarrow> FaqResult" where
  "toFaqResult f =
     \<lparr>fq_question = fsr_question f, fq_answer = fsr_answer f, fq_category = fsr_category f,
      fq_similarity = fsr_similarity f\<rparr>"

definition call_embedQuery ::
  "rag_env \<Rightarrow> string \<Rightarrow> rag_event list \<Rightarrow> (exn + number list) \<times> rag_event list" where
  "call_embedQuery env q tr = (embeddings_embedQuery env tr q, tr @ [EvEmbedQuery q])"

definition call_rpcProducts ::
  "rag_env \<Rightarrow> number list \<Rightarrow> string \<Rightarrow> nat \<Rightarrow> rag_event list
   \<Rightarrow> ProductSearchResult rpc_result \<times> rag_event list" where
  "call_rpcProducts env v tid n tr = (rpc_search_products env tr v tid n, tr @ [EvRpcProducts v tid n])"

definition call_rpcFaqs ::
  "rag_env \<Rightarrow> number list \<Rightarrow> string \<Rightarrow> nat \<Rightarrow> rag_event list
   \<Rightarrow> FaqSearchResult rpc_result \<times> rag_event list" where
  "call_rpcFaqs env v tid n tr = (rpc_search_faqs env tr v tid n, tr @ [EvRpcFaqs v tid n])"

definition rag_searchProducts_impl ::
  "rag_env \<Rightarrow> RagSettings \<Rightarrow> string \<Rightarrow> string \<Rightarrow> nat option \<Rightarrow> rag_event list
   \<Rightarrow> (exn + ProductResult list) \<times> rag_event list" where
  "rag_searchProducts_impl env config tid q limit tr =
     (if q = [] \<or> length (trim q) = 0 then (Inr [], tr)
      else
        (case call_embedQuery env q tr of
           (Inl e, tr1) \<Rightarrow> (Inl e, tr1)
         | (Inr queryEmbedding, tr1) \<Rightarrow>
             (case call_rpcProducts env queryEmbedding tid
                     (case limit of None \<Rightarrow> rs_productLimit config | Some n \<Rightarrow> n) tr1 of
                (answer, tr2) \<Rightarrow>
                  (case rpc_error answer of
                     Some m \<Rightarrow> (Inl (Error (''Product search failed: '' @ m)), tr2)
                   | None \<Rightarrow>
                       (let results = (case rpc_data answer of None \<Rightarrow> [] | Some rows \<Rightarrow> rows) in
                        (Inr (map toProductResult
                                (filter (\<lambda>p. num_ge (psr_similarity p) (rs_similarityThreshold config))
                                        results)),
                         tr2))))))"

definition rag_searchFaqs_impl ::
  "rag_env \<Rightarrow> RagSettings \<Rightarrow> string \<Rightarrow> string \<Rightarrow> nat option \<Rightarrow> rag_event list
   \<Rightarrow> (exn + FaqResult list) \<times> rag_event list" where
  "rag_searchFaqs_impl env config tid q limit tr =
     (if q = [] \<or> length (trim q) = 0 then (Inr [], tr)
      else
        (case call_embedQuery env q tr of
           (Inl e, tr1) \<Rightarrow> (Inl e, tr1)
         | (Inr queryEmbedding, tr1) \<Rightarrow>
             (case call_rpcFaqs env queryEmbedding tid
                     (case limit of None \<Rightarrow> rs_faqLimit config | Some n \<Rightarrow> n) tr1 of
                (answer, tr2) \<Rightarrow>
                  (case rpc_error answer of
                     Some m \<Rightarrow> (Inl (Error (''FAQ search failed: '' @ m)), tr2)
                   | None \<Rightarrow>
                       (let results = (case rpc_data answer of None \<Rightarrow> [] | Some rows \<Rightarrow> rows) in
                        (Inr (map toFaqResult
                                (filter (\<lambda>f. num_ge (fsr_similarity f) (rs_similarityThreshold config))
                                        results)),
                         tr2))))))"

text \<open>
  The combined search sends both procedure calls before it looks at either answer
  (\<open>Promise.all\<close>).
\<close>

definition rag_search_impl ::
  "rag_env \<Rightarrow> RagSettings \<Rightarrow> string \<Rightarrow> string \<Rightarrow> rag_event list
   \<Rightarrow> (exn + ProductResult list \<times> FaqResult list) \<times> rag_event list" where
  "rag_search_impl env config tid q tr =
     (if q = [] \<or> length (trim q) = 0 then (Inr ([], []), tr)
      else
        (case call_embedQuery env q tr of
           (Inl e, tr1) \<Rightarrow> (Inl e, tr1)
         | (Inr queryEmbedding, tr1) \<Rightarrow>
             (case call_rpcProducts env queryEmbedding tid (rs_productLimit config) tr1 of
                (productsResult, tr2) \<Rightarrow>
                  (case call_rpcFaqs env queryEmbedding tid (rs_faqLimit config) tr2 of
                     (faqsResult, tr3) \<Rightarrow>
                       (case rpc_error productsResult of
                          Some m \<Rightarrow> (Inl (Error (''Product search failed: '' @ m)), tr3)
                        | None \<Rightarrow>
                            (case rpc_error faqsResult of
                               Some m \<Rightarrow> (Inl (Error (''FAQ search failed: '' @ m)), tr3)
                             | None \<Rightarrow>
                                 (let productData = (case rpc_data productsResult of
                                                       None \<Rightarrow> [] | Some rows \<Rightarrow> rows);
                                      faqData = (case rpc_data faqsResult of
                                                   None \<Rightarrow> [] | Some rows \<Rightarrow> rows);
                                      products = map toProductResult
                                        (filter (\<lambda>p. num_ge (psr_similarity p)
                                                              (rs_similarityThreshold config))
                                                productData);
                                      faqs = map toFaqResult
                                        (filter (\<lambda>f. num_ge (fsr_similarity f)
                                                              (rs_similarityThreshold config))
                                                faqData)
                                  in (Inr (products, faqs), tr3))))))))"

section \<open>Tenant service\<close>

definition TENANT_CACHE_TTL_MS :: int where
  "TENANT_CACHE_TTL_MS = 5 * 60 * 1000"

record TenantRow =
  row_id :: string
  row_name :: string
  row_shopify_store_url :: "string option"
  row_shopify_storefront_token :: "string option"
  row_shopify_admin_token :: "string option"
  row_system_prompt :: "string option"
  row_widget_config :: jsval
  row_created_at :: string
  row_updated_at :: string

record TenantConfig =
  tc_id :: string
  tc_name :: string
  tc_shopifyStoreUrl :: "string option"
  tc_systemPrompt :: "string option"
  tc_widgetConfig :: jsval
  tc_createdAt :: string
  tc_updatedAt :: string

record CacheEntry =
  ce_tenant :: "TenantConfig option"
  ce_expiresAt :: int

text \<open>An answer of the single-row query: the row or null, and the error (code, message) or null.\<close>

record db_result =
  db_data :: "TenantRow option"
  db_error :: "(string \<times> string) option"

datatype ts_event = EvNow | EvQuery string

record ts_env =
  db_query :: "ts_event list \<Rightarrow> string \<Rightarrow> db_result"
  date_now :: "ts_event list \<Rightarrow> int"

record ts_state =
  cache :: "string \<rightharpoonup> CacheEntry"
  cacheTtl :: int
  ts_trace :: "ts_event list"

text \<open>The constructor: an empty cache, and the given lifetime or five minutes.\<close>

definition new_TenantService :: "int option \<Rightarrow> ts_state" where
  "new_TenantService cacheTtlMs =
     \<lparr>cache = Map.empty,
      cacheTtl = (case cacheTtlMs of None \<Rightarrow> TENANT_CACHE_TTL_MS | Some t \<Rightarrow> t),
      ts_trace = []\<rparr>"

definition call_now :: "ts_env \<Rightarrow> ts_state \<Rightarrow> int \<times> ts_state" where
  "call_now env s = (date_now env (ts_trace s), s\<lparr>ts_trace := ts_trace s @ [EvNow]\<rparr>)"

definition call_query :: "ts_env \<Rightarrow> string \<Rightarrow> ts_state \<Rightarrow> db_result \<times> ts_state" where
  "call_query env tid s = (db_query env (ts_trace s) tid, s\<lparr>ts_trace := ts_trace s @ [EvQuery tid]\<rparr>)"

text \<open>The part of \<open>getTenant\<close> after the cache check.\<close>

definition fetch_tenant :: "ts_env \<Rightarrow> string \<Rightarrow> ts_state \<Rightarrow> (exn + TenantConfig option) \<times> ts_state" where
  "fetch_tenant env tid s =
     (case call_query env tid s of
        (answer, s1) \<Rightarrow>
          (case db_error answer of
             Some err \<Rightarrow>
               if fst err = ''PGRST116'' then
                 (case call_now env s1 of
                    (t, s2) \<Rightarrow>
                      (Inr None,
                       s2\<lparr>cache := (cache s2)(tid \<mapsto> \<lparr>ce_tenant = None, ce_expiresAt = t + cacheTtl s2\<rparr>)\<rparr>))
               else (Inl (Error (''Failed to fetch tenant: '' @ snd err)), s1)
           | None \<Rightarrow>
               (case db_data answer of
                  None \<Rightarrow> (Inl (Error ''Cannot read properties of null (reading 'id')''), s1)
                | Some row \<Rightarrow>
                    (let tenant = \<lparr>tc_id = row_id row, tc_name = row_name row,
                                   tc_shopifyStoreUrl = row_shopify_store_url row,
                                   tc_systemPrompt = row_system_prompt row,
                                   tc_widgetConfig = row_widget_config row,
                                   tc_createdAt = row_created_at row,
                                   tc_updatedAt = row_updated_at row\<rparr>
                     in
                     case call_now env s1 of
                       (t, s2) \<Rightarrow>
                         (Inr (Some tenant),
                          s2\<lparr>cache := (cache s2)(tid \<mapsto>
                                 \<lparr>ce_tenant = Some tenant, ce_expiresAt = t + cacheTtl s2\<rparr>)\<rparr>)))))"

definition ts_getTenant :: "ts_env \<Rightarrow> string \<Rightarrow> ts_state \<Rightarrow> (exn + TenantConfig option) \<times> ts_state" where
  "ts_getTenant env tid s =
     (if tid = [] \<or> length (trim tid) = 0 then (Inr None, s)
      else
        (case cache s tid of
           None \<Rightarrow> fetch_tenant env tid s
         | Some cached \<Rightarrow>
             (case call_now env s of
                (t, s1) \<Rightarrow>
                  if ce_expiresAt cached > t then (Inr (ce_tenant cached), s1)
                  else fetch_tenant env tid s1)))"

definition clearCache :: "string option \<Rightarrow> ts_state \<Rightarrow> ts_state" where
  "clearCache tid s =
     (case tid of
        None \<Rightarrow> s\<lparr>cache := Map.empty\<rparr>
      | Some t \<Rightarrow> if t \<noteq> [] then s\<lparr>cache := (cache s)(t := None)\<rparr> else s\<lparr>cache := Map.empty\<rparr>)"

text \<open>The calls that change the service, and a history of them run from a given state.\<close>

datatype ts_op = GetTenant string | ClearCache "string option"

fun run_ops :: "ts_env \<Rightarrow> ts_op list \<Rightarrow> ts_state \<Rightarrow> ts_state" where
  "run_ops env [] s = s"
| "run_ops env (GetTenant t # ops) s = run_ops env ops (snd (ts_getTenant env t s))"
| "run_ops env (ClearCache t # ops) s = run_ops env ops (clearCache t s)"

section \<open>Observations on traces and results\<close>

text \<open>The calls made between two states of the executor.\<close>

definition new_events :: "exec_state \<Rightarrow> exec_state \<Rightarrow> event list" where
  "new_events s s' = drop (length (trace s)) (trace s')"

text \<open>The cart lines a call hands to the commerce platform.\<close>

fun sent_lines :: "event \<Rightarrow> LineInput list" where
  "sent_lines (EvSfCreateCart sf ls) = ls"
| "sent_lines (EvSfAddToCart sf c ls) = ls"
| "sent_lines ev = []"

fun is_claude_fetch :: "event \<Rightarrow> bool" where
  "is_claude_fetch (EvClaudeFetch msgs p) = True"
| "is_claude_fetch ev = False"

text \<open>A call to the model that carries tool results: its last message is the tool-result turn.\<close>

fun is_tool_round_trip :: "event \<Rightarrow> bool" where
  "is_tool_round_trip (EvClaudeFetch msgs p) =
     (msgs \<noteq> [] \<and> (case snd (last msgs) of MToolResults rs \<Rightarrow> True | other \<Rightarrow> False))"
| "is_tool_round_trip ev = False"

definition model_calls :: "event list \<Rightarrow> nat" where
  "model_calls tr = length (filter is_claude_fetch tr)"

definition tool_round_trips :: "event list \<Rightarrow> nat" where
  "tool_round_trips tr = length (filter is_tool_round_trip tr)"

text \<open>The cart id a tool result reports, \<open>undefined\<close> when it reports none.\<close>

definition reported_cartId :: "ToolResult \<Rightarrow> jsval" where
  "reported_cartId r = (case data r of None \<Rightarrow> JUndefined | Some d \<Rightarrow> get_prop d ''cartId'')"

text \<open>The model answers with a response that asks for tools (\<open>stop_reason = 'tool_use'\<close>).\<close>

definition requests_tool :: "exn + ClaudeHttp \<Rightarrow> bool" where
  "requests_tool answer =
     (case answer of
        Inl e \<Rightarrow> False
      | Inr http \<Rightarrow>
          200 \<le> ch_status http \<and> ch_status http \<le> 299 \<and>
          (case ch_json http of Inl e \<Rightarrow> False | Inr response \<Rightarrow> stop_reason response = tool_use))"

text \<open>The number of tool invocations in an answer of the model.\<close>

definition invocations :: "exn + ClaudeHttp \<Rightarrow> nat" where
  "invocations answer =
     (case answer of
        Inl e \<Rightarrow> 0
      | Inr http \<Rightarrow>
          (case ch_json http of Inl e \<Rightarrow> 0 | Inr response \<Rightarrow> length (extractToolUse (content response))))"

text \<open>The text of an answer of the model.\<close>

definition answer_text :: "exn + ClaudeHttp \<Rightarrow> string" where
  "answer_text answer =
     (case answer of
        Inl e \<Rightarrow> []
      | Inr http \<Rightarrow> (case ch_json http of Inl e \<Rightarrow> [] | Inr response \<Rightarrow> extractText (content response)))"

text \<open>The payloads of the text events of a stream, and its last event.\<close>

fun text_payloads :: "StreamEvent list \<Rightarrow> string list" where
  "text_payloads [] = []"
| "text_payloads (SText t # evs) = t # text_payloads evs"
| "text_payloads (ev # evs) = text_payloads evs"

fun tool_payloads :: "StreamEvent list \<Rightarrow> (string \<times> ToolResult) list" where
  "tool_payloads [] = []"
| "tool_payloads (STool c # evs) = c # tool_payloads evs"
| "tool_payloads (ev # evs) = tool_payloads evs"

text \<open>
  The state of the tool loop after a call to the model: the last call made is that call,
  and the response the loop holds is its answer.
\<close>

definition last_answer :: "env \<Rightarrow> loop_vars \<Rightarrow> exec_state \<Rightarrow> bool" where
  "last_answer env v s =
     (\<exists>h msgs p. trace s = h @ [EvClaudeFetch msgs p] \<and>
        extractText (content (claudeResponse v)) = answer_text (claude_fetch env h msgs p) \<and>
        length (extractToolUse (content (claudeResponse v))) = invocations (claude_fetch env h msgs p))"

section \<open>A concrete shop, for running the model\<close>

definition demo_tenant :: Tenant where
  "demo_tenant =
     \<lparr>tn_id = ''t1'', tn_name = ''Demo shop'', tn_systemPrompt = None,
      shopifyCredentials = Some \<lparr>storeUrl = ''demo.myshopify.com'',
                                 storefrontToken = Some ''public-token'',
                                 adminToken = None\<rparr>\<rparr>"

definition bare_tenant :: Tenant where
  "bare_tenant =
     \<lparr>tn_id = ''t2'', tn_name = ''Shop without a storefront'', tn_systemPrompt = None,
      shopifyCredentials = None\<rparr>"

definition demo_storefront :: StorefrontConfig where
  "demo_storefront = \<lparr>sf_storeUrl = ''demo.myshopify.com'', sf_storefrontToken = ''public-token''\<rparr>"

definition demo_cart :: "string \<Rightarrow> CartResponse" where
  "demo_cart c =
     \<lparr>cr_cartId = c, cr_checkoutUrl = ''https://demo.myshopify.com/checkout'',
      cr_lines = [\<lparr>merchandiseId = ''gid://shopify/ProductVariant/1'', quantity = Num 1\<rparr>]\<rparr>"

text \<open>
  A platform that creates the cart \<open>gid://shopify/Cart/1\<close> and answers every cart call
  with the cart it was asked about; an index with no hits; a model that always asks for
  the cart.
\<close>

definition demo_env :: env where
  "demo_env =
     \<lparr>rag_searchProducts = (\<lambda>h tid q l. Inr []),
      rag_searchFaqs = (\<lambda>h tid q. Inr []),
      rag_search = (\<lambda>h tid q. Inr ([], [])),
      getTenant = (\<lambda>h tid. Inr (if tid = ''t1'' then Some demo_tenant
                                 else if tid = ''t2'' then Some bare_tenant else None)),
      sf_searchProducts = (\<lambda>h sf q l. Inr []),
      sf_getProduct = (\<lambda>h sf p. Inr None),
      sf_createCart = (\<lambda>h sf ls. Inr (demo_cart ''gid://shopify/Cart/1'')),
      sf_addToCart = (\<lambda>h sf c ls. Inr (demo_cart c)),
      sf_getCart = (\<lambda>h sf c. Inr (demo_cart c)),
      admin_createDraftOrder = (\<lambda>h ad ls e n. Inl (Error ''Shopify Admin API error: 401 Unauthorized'')),
      claude_fetch = (\<lambda>h msgs p.
         Inr \<lparr>ch_status = 200, ch_text = Inr [],
              ch_json = Inr \<lparr>content = [TextBlock ''Checking the cart.'',
                                        ToolUseBlock ''toolu_1'' ''get_cart'' (\<lambda>k. JUndefined)],
                             stop_reason = tool_use\<rparr>\<rparr>),
      toFixed2 = (\<lambda>n. ''0.00''),
      num_toString = (\<lambda>n. ''1''),
      stringify = (\<lambda>r. ''{}'')\<rparr>"

definition empty_state :: exec_state where
  "empty_state = \<lparr>cartStore = Map.empty, trace = []\<rparr>"

definition demo_context :: AgentContext where
  "demo_context = \<lparr>tenantId = ''t1'', sessionId = ''s1'', cartId = None\<rparr>"

definition no_input :: "string \<Rightarrow> jsval" where
  "no_input k = JUndefined"

definition bare_context :: AgentContext where
  "bare_context = \<lparr>tenantId = ''t2'', sessionId = ''s1'', cartId = None\<rparr>"

definition shoes_input :: "string \<Rightarrow> jsval" where
  "shoes_input k = (if k = ''query'' then JStr ''blue shoes'' else JUndefined)"

definition variant_input :: "string \<Rightarrow> jsval" where
  "variant_input k = (if k = ''variantId'' then JStr ''gid://shopify/ProductVariant/1'' else JUndefined)"

definition zero_quantity_input :: "string \<Rightarrow> jsval" where
  "zero_quantity_input k =
     (if k = ''variantId'' then JStr ''gid://shopify/ProductVariant/1''
      else if k = ''quantity'' then JNum (Num 0) else JUndefined)"

definition one_line :: LineInput where
  "one_line = \<lparr>li_merchandiseId = JStr ''gid://shopify/ProductVariant/1'', li_quantity = JNum (Num 1)\<rparr>"

text \<open>
  The platform answers a cart call with the cart it was asked about, and gives a new
  cart an id that is not empty.
\<close>

definition platform_keeps_ids :: "env \<Rightarrow> bool" where
  "platform_keeps_ids env =
     ((\<forall>h sf ls k. sf_createCart env h sf ls = Inr k \<longrightarrow> cr_cartId k \<noteq> []) \<and>
      (\<forall>h sf c ls k. sf_addToCart env h sf c ls = Inr k \<longrightarrow> cr_cartId k = c) \<and>
      (\<forall>h sf c k. sf_getCart env h sf c = Inr k \<longrightarrow> cr_cartId k = c))"

text \<open>
  A request whose context carries the id of an existing cart, followed in the same
  session by a request whose context carries none.
\<close>

definition carried_context :: AgentContext where
  "carried_context = \<lparr>tenantId = ''t1'', sessionId = ''s1'', cartId = Some ''gid://shopify/Cart/77''\<rparr>"

definition carried_add :: "(exn + ToolResult) \<times> exec_state" where
  "carried_add = execute demo_env ''add_to_cart'' variant_input carried_context empty_state"

definition carried_get :: "(exn + ToolResult) \<times> exec_state" where
  "carried_get = execute demo_env ''get_cart'' no_input demo_context (snd carried_add)"

text \<open>The result and the state of a first \<open>add_to_cart\<close> in the concrete shop.\<close>

definition cart_json :: "string \<Rightarrow> (string \<times> jsval) list" where
  "cart_json c =
     [(''cartId'', JStr c),
      (''checkoutUrl'', JStr ''https://demo.myshopify.com/checkout''),
      (''itemCount'', JNum (Num 1)),
      (''items'', JArr [JObj [(''variantId'', JStr ''gid://shopify/ProductVariant/1''),
                              (''quantity'', JNum (Num 1))]])]"

definition demo_add_result :: ToolResult where
  "demo_add_result =
     \<lparr>success = True,
      data = Some (JObj (cart_json ''gid://shopify/Cart/1'' @
                         [(''message'', JStr ''Added 1 item(s) to cart'')])),
      error = None\<rparr>"

definition demo_add_state :: exec_state where
  "demo_add_state =
     \<lparr>cartStore = [''t1:s1'' \<mapsto> ''gid://shopify/Cart/1''],
      trace = [EvGetTenant ''t1'', EvSfCreateCart demo_storefront [one_line]]\<rparr>"

text \<open>The state after a second \<open>add_to_cart\<close> in that session.\<close>

definition second_add_state :: exec_state where
  "second_add_state =
     \<lparr>cartStore = [''t1:s1'' \<mapsto> ''gid://shopify/Cart/1''],
      trace = [EvGetTenant ''t1'', EvSfCreateCart demo_storefront [one_line],
               EvGetTenant ''t1'', EvSfAddToCart demo_storefront ''gid://shopify/Cart/1'' [one_line]]\<rparr>"

definition demo_history :: "ChatMessage list" where
  "demo_history = [\<lparr>role = ''user'', msg_content = ''What is in my cart?''\<rparr>]"

text \<open>The same shop with a model that answers at once, in 76 characters.\<close>

definition hello_text :: string where
  "hello_text = ''Hello! Your cart is empty right now. Would you like to see our new arrivals?''"

definition quiet_env :: env where
  "quiet_env =
     demo_env\<lparr>claude_fetch := (\<lambda>h msgs p.
        Inr \<lparr>ch_status = 200, ch_text = Inr [],
             ch_json = Inr \<lparr>content = [TextBlock hello_text], stop_reason = end_turn\<rparr>\<rparr>)\<rparr>"

definition hello_response :: AgentResponse where
  "hello_response = \<lparr>reply = hello_text, toolCalls = None, ar_cartId = None, ar_checkoutUrl = None\<rparr>"

section \<open>Observations on the tenant service\<close>

text \<open>The store answers that there is no such row (error code \<open>PGRST116\<close>).\<close>

definition not_found :: "db_result \<Rightarrow> bool" where
  "not_found answer = (case db_error answer of None \<Rightarrow> False | Some err \<Rightarrow> fst err = ''PGRST116'')"

fun is_query :: "ts_event \<Rightarrow> bool" where
  "is_query (EvQuery tid) = True"
| "is_query EvNow = False"

text \<open>The number of queries sent to the store.\<close>

definition queries :: "ts_event list \<Rightarrow> nat" where
  "queries tr = length (filter is_query tr)"

text \<open>
  A store without tenants, and a clock that advances by one second with every call made.
\<close>

definition empty_store_env :: ts_env where
  "empty_store_env =
     \<lparr>db_query = (\<lambda>h tid. \<lparr>db_data = None,
                             db_error = Some (''PGRST116'', ''JSON object requested, multiple (or no) rows returned'')\<rparr>),
      date_now = (\<lambda>h. 1000 * int (length h))\<rparr>"

section \<open>A concrete catalog\<close>

definition catalog_row :: "string \<Rightarrow> rat \<Rightarrow> ProductSearchResult" where
  "catalog_row title sim =
     \<lparr>psr_id = title, psr_shopify_product_id = None, psr_title = title, psr_description = None,
      psr_price = Some (Num 20), psr_currency = ''USD'', psr_image_url = None,
      psr_category = None, psr_tags = None, psr_metadata = JObj [], psr_similarity = Num sim\<rparr>"

definition help_row :: "string \<Rightarrow> rat \<Rightarrow> FaqSearchResult" where
  "help_row q sim =
     \<lparr>fsr_id = q, fsr_question = q, fsr_answer = ''Yes.'', fsr_category = None,
      fsr_similarity = Num sim\<rparr>"

text \<open>A store that returns three catalog rows and two help rows, some below the floor.\<close>

definition catalog_env :: rag_env where
  "catalog_env =
     \<lparr>embeddings_embedQuery = (\<lambda>h q. Inr [Num 1, Num 0]),
      rpc_search_products = (\<lambda>h v tid n.
         \<lparr>rpc_data = Some [catalog_row ''Blue shoes'' (9 / 10),
                            catalog_row ''Blue socks'' (1 / 4),
                            catalog_row ''Red hat'' (1 / 5)],
          rpc_error = None\<rparr>),
      rpc_search_faqs = (\<lambda>h v tid n.
         \<lparr>rpc_data = Some [help_row ''Do you ship shoes?'' (1 / 2),
                            help_row ''Do you sell hats?'' (6 / 25)],
          rpc_error = None\<rparr>)\<rparr>"

section \<open>Concrete embedding providers\<close>

definition one_vector :: VoyageJson where
  "one_vector = \<lparr>vj_detail = None, vj_data = Some [\<lparr>embedding = [Num 1, Num 2], index = 0\<rparr>]\<rparr>"

fun is_fetch :: "emb_event \<Rightarrow> bool" where
  "is_fetch (EvFetch inp ty) = True"
| "is_fetch (EvSleep ms) = False"

text \<open>The number of calls made to the provider.\<close>

definition upstream_calls :: "emb_event list \<Rightarrow> nat" where
  "upstream_calls tr = length (filter is_fetch tr)"

text \<open>
  A provider whose first answer is a 500 with a detail that mentions a fetch, and which
  answers well from then on.
\<close>

definition flaky_env :: emb_env where
  "flaky_env =
     \<lparr>voyage_fetch = (\<lambda>h inp ty.
        if upstream_calls h = 0 then
          Inr \<lparr>vh_status = 500, vh_retryAfter = None,
               vh_json = Inr \<lparr>vj_detail = Some ''failed to fetch model weights'', vj_data = None\<rparr>\<rparr>
        else Inr \<lparr>vh_status = 200, vh_retryAfter = None, vh_json = Inr one_vector\<rparr>),
      emb_num_toString = (\<lambda>n. ''0'')\<rparr>"

text \<open>
  A provider that answers 429 twice, the first time with \<open>Retry-After: 2\<close>, and then
  answers well.
\<close>

definition throttled_env :: emb_env where
  "throttled_env =
     \<lparr>voyage_fetch = (\<lambda>h inp ty.
        if upstream_calls h = 0 then
          Inr \<lparr>vh_status = 429, vh_retryAfter = Some ''2'',
               vh_json = Inr \<lparr>vj_detail = Some ''Rate limit exceeded'', vj_data = None\<rparr>\<rparr>
        else if upstream_calls h = 1 then
          Inr \<lparr>vh_status = 429, vh_retryAfter = None,
               vh_json = Inr \<lparr>vj_detail = Some ''Rate limit exceeded'', vj_data = None\<rparr>\<rparr>
        else Inr \<lparr>vh_status = 200, vh_retryAfter = None, vh_json = Inr one_vector\<rparr>),
      emb_num_toString = (\<lambda>n. ''0'')\<rparr>"

text \<open>The message of the error built from a response that is not ok.\<close>

definition api_error_message :: "VoyageHttp \<Rightarrow> VoyageJson \<Rightarrow> string" where
  "api_error_message response errorBody =
     ''Voyage AI Embeddings API error '' @ show_nat (vh_status response) @ '': ''
     @ (case vj_detail errorBody of None \<Rightarrow> ''Unknown error'' | Some d \<Rightarrow> d)"

text \<open>A provider that answers 429 every time.\<close>

definition closed_env :: emb_env where
  "closed_env =
     \<lparr>voyage_fetch = (\<lambda>h inp ty.
        Inr \<lparr>vh_status = 429, vh_retryAfter = None,
             vh_json = Inr \<lparr>vj_detail = Some ''Rate limit exceeded'', vj_data = None\<rparr>\<rparr>),
      emb_num_toString = (\<lambda>n. ''0'')\<rparr>"

text \<open>
  The provider answers every batch request with a response that is ok and lists the
  vectors of the requested texts in the order of the request, whatever index each
  carries; \<open>emb\<close> is the vector of a text.
\<close>

definition in_order_provider :: "emb_env \<Rightarrow> (string \<Rightarrow> number list) \<Rightarrow> bool" where
  "in_order_provider env emb =
     (\<forall>h ts. \<exists>response body items.
        voyage_fetch env h (Many ts) document_type = Inr response \<and>
        200 \<le> vh_status response \<and> vh_status response \<le> 299 \<and>
        vh_json response = Inr body \<and> vj_data body = Some items \<and>
        map embedding items = map emb ts)"

text \<open>A list cut into consecutive pieces of \<open>n\<close> elements, the last one possibly shorter.\<close>

function chunks_of :: "nat \<Rightarrow> 'a list \<Rightarrow> 'a list list" where
  "chunks_of n xs = (if xs = [] \<or> n = 0 then [] else take n xs # chunks_of n (drop n xs))"
  by pat_completeness auto
termination
  by (relation "measure (\<lambda>(n, xs). length xs)") auto

declare chunks_of.simps [simp del]

text \<open>The texts that \<open>embedBatch\<close> sends: trimmed, and not empty.\<close>

definition kept_texts :: "string list \<Rightarrow> string list" where
  "kept_texts texts = filter (\<lambda>t. t \<noteq> []) (map trim texts)"

text \<open>
  Two providers whose vector for a text is its length: one lists the vectors in the
  order of the request, the other in reverse order; both tag each vector with the index
  of its text in the request.
\<close>

definition length_emb :: "string \<Rightarrow> number list" where
  "length_emb t = [Num (of_nat (length t))]"

definition tagged :: "string list \<Rightarrow> VoyageItem list" where
  "tagged ts = map (\<lambda>p. \<lparr>embedding = length_emb (fst p), index = snd p\<rparr>) (zip ts [0 ..< length ts])"

definition request_texts :: "voyage_input \<Rightarrow> string list" where
  "request_texts inp = (case inp of Single t \<Rightarrow> [t] | Many ts \<Rightarrow> ts)"

definition echo_env :: emb_env where
  "echo_env =
     \<lparr>voyage_fetch = (\<lambda>h inp ty.
        Inr \<lparr>vh_status = 200, vh_retryAfter = None,
             vh_json = Inr \<lparr>vj_detail = None, vj_data = Some (tagged (request_texts inp))\<rparr>\<rparr>),
      emb_num_toString = (\<lambda>n. ''0'')\<rparr>"

definition reversing_env :: emb_env where
  "reversing_env =
     \<lparr>voyage_fetch = (\<lambda>h inp ty.
        Inr \<lparr>vh_status = 200, vh_retryAfter = None,
             vh_json = Inr \<lparr>vj_detail = None, vj_data = Some (rev (tagged (request_texts inp)))\<rparr>\<rparr>),
      emb_num_toString = (\<lambda>n. ''0'')\<rparr>"

definition unknown_context :: AgentContext where
  "unknown_context = \<lparr>tenantId = ''t9'', sessionId = ''s1'', cartId = None\<rparr>"

text \<open>A shop whose index has a hit for the tenant \<open>t2\<close>, and whose live search finds a product.\<close>

definition demo_hit :: ProductResult where
  "demo_hit =
     \<lparr>pr_id = ''p1'', pr_title = ''Blue suede shoes'', pr_description = None,
      pr_price = Some (Num 59), pr_currency = ''USD'', pr_imageUrl = None,
      pr_category = Some ''Footwear'', pr_similarity = Num (9 / 10)\<rparr>"

definition demo_product :: ShopifyProduct where
  "demo_product =
     \<lparr>sp_id = ''gid://shopify/Product/1'', sp_title = ''Blue canvas shoes'',
      sp_handle = ''blue-canvas-shoes'', sp_description = None,
      sp_minPrice = Num 35, sp_maxPrice = Num 35, sp_images = [],
      sp_variants = [\<lparr>v_id = ''gid://shopify/ProductVariant/1'', v_title = ''42'',
                       v_price = Num 35, v_available = True\<rparr>]\<rparr>"

definition stocked_env :: env where
  "stocked_env =
     demo_env\<lparr>rag_searchProducts := (\<lambda>h tid q l. if tid = ''t2'' then Inr [demo_hit] else Inr []),
              sf_searchProducts := (\<lambda>h sf q l. Inr [demo_product])\<rparr>"

section \<open>Properties of the tool executor\<close>

lemmas call_defs = call_getTenant_def call_ragSearchProducts_def call_ragSearchFaqs_def
  call_sfSearchProducts_def call_sfGetProduct_def call_sfCreateCart_def call_sfAddToCart_def
  call_sfGetCart_def call_adminCreateDraftOrder_def log_def

lemma execute_returns:
  "\<exists>r s'. execute env toolName input context s = (Inr r, s')"
  by (cases "dispatch env toolName input context s") (auto simp: execute_def split: sum.splits)

text \<open>
  Claim C2. For every tool name, input and context, \<open>execute\<close> returns a tool result and
  does not throw. For a name that is not one of the six registered tools the result is
  \<open>{success: false, error: "Unknown tool: <name>"}\<close> and nothing else happens; and
  whenever the dispatched tool throws an \<open>Error\<close> with message \<open>m\<close>, the result is
  \<open>{success: false, error: m}\<close> (for a thrown value that is not an \<open>Error\<close>, the fixed
  message \<open>Tool execution failed\<close>).
\<close>

theorem execute_never_throws:
  "\<exists>r s'. execute env toolName input context s = (Inr r, s') \<and>
     (toolName \<notin> name ` set AGENT_TOOLS \<longrightarrow>
        r = \<lparr>success = False, data = None, error = Some (''Unknown tool: '' @ toolName)\<rparr> \<and> s' = s) \<and>
     (\<forall>m. fst (dispatch env toolName input context s) = Inl (Error m) \<longrightarrow>
        r = \<lparr>success = False, data = None, error = Some m\<rparr>) \<and>
     (\<forall>v. fst (dispatch env toolName input context s) = Inl (Thrown v) \<longrightarrow>
        r = \<lparr>success = False, data = None, error = Some ''Tool execution failed''\<rparr>)"
proof (cases "dispatch env toolName input context s")
  case (Pair a s1)
  have unknown: "toolName \<notin> name ` set AGENT_TOOLS \<Longrightarrow>
      dispatch env toolName input context s = (Inr (fail_result (''Unknown tool: '' @ toolName)), s)"
    by (simp add: AGENT_TOOLS_def dispatch_def)
  show ?thesis
  proof (cases a)
    case (Inl e)
    with Pair unknown show ?thesis
      by (cases e) (auto simp: execute_def fail_result_def catch_message_def)
  next
    case (Inr r)
    with Pair unknown show ?thesis
      by (auto simp: execute_def fail_result_def)
  qed
qed

text \<open>
  The theorem at an unknown tool name, and at a \<open>search_products\<close> call whose query is
  the number 7, on which \<open>query.trim\<close> is not a function.
\<close>

theorem execute_never_throws_witness:
  "''fly_to_the_moon'' \<notin> name ` set AGENT_TOOLS \<and>
   execute demo_env ''fly_to_the_moon'' no_input demo_context empty_state =
     (Inr \<lparr>success = False, data = None, error = Some ''Unknown tool: fly_to_the_moon''\<rparr>, empty_state) \<and>
   fst (dispatch demo_env ''search_products'' (\<lambda>k. JNum (Num 7)) demo_context empty_state) =
     Inl (Error ''query.trim is not a function'') \<and>
   fst (execute demo_env ''search_products'' (\<lambda>k. JNum (Num 7)) demo_context empty_state) =
     Inr \<lparr>success = False, data = None, error = Some ''query.trim is not a function''\<rparr>"
proof -
  have a: "''fly_to_the_moon'' \<notin> name ` set AGENT_TOOLS"
    by (simp add: AGENT_TOOLS_def)
  have b: "fst (dispatch demo_env ''search_products'' (\<lambda>k. JNum (Num 7)) demo_context empty_state) =
     Inl (Error ''query.trim is not a function'')"
    by (simp add: dispatch_def searchProducts_def js_or_def)
  from execute_never_throws [of demo_env "''fly_to_the_moon''" no_input demo_context empty_state] a
  have c: "execute demo_env ''fly_to_the_moon'' no_input demo_context empty_state =
     (Inr \<lparr>success = False, data = None, error = Some ''Unknown tool: fly_to_the_moon''\<rparr>, empty_state)"
    by auto
  from execute_never_throws [of demo_env "''search_products''" "\<lambda>k. JNum (Num 7)" demo_context empty_state] b
  have d: "fst (execute demo_env ''search_products'' (\<lambda>k. JNum (Num 7)) demo_context empty_state) =
     Inr \<lparr>success = False, data = None, error = Some ''query.trim is not a function''\<rparr>"
    by auto
  from a b c d show ?thesis by simp
qed

lemma trim_Nil [simp]: "trim [] = []"
  by (simp add: trim_def)

lemma dispatch_search: "dispatch env ''search_products'' i c s = searchProducts env i c s"
  by (simp add: dispatch_def)

lemma dispatch_add: "dispatch env ''add_to_cart'' i c s = addToCart env i c s"
  by (simp add: dispatch_def)

lemma dispatch_get: "dispatch env ''get_cart'' i c s = getCart env c s"
  by (simp add: dispatch_def)

lemma execute_trace: "trace (snd (execute env n i c s)) = trace (snd (dispatch env n i c s))"
  by (cases "dispatch env n i c s") (auto simp: execute_def split: sum.splits)

lemma trim_shoes: "trim ''blue shoes'' = ''blue shoes''"
  by (simp add: trim_def is_space_def)

lemma demo_store: "createStorefrontClient demo_tenant = Some demo_storefront"
  by (simp add: createStorefrontClient_def demo_tenant_def demo_storefront_def)

lemma bare_store: "createStorefrontClient bare_tenant = None"
  by (simp add: createStorefrontClient_def bare_tenant_def)

text \<open>
  Claim C8, as stated, fails. For a tenant that the tenant service does not know, a
  search with no hit in the indexed catalog does not give a success with an empty list:
  the tool returns the failure \<open>Tenant not found\<close>.
\<close>

theorem search_products_counterexample:
  "shoes_input ''query'' = JStr ''blue shoes'' \<and>
   rag_searchProducts demo_env (trace empty_state) (tenantId unknown_context) ''blue shoes''
      (js_or (shoes_input ''limit'') (JNum (Num 5))) = Inr [] \<and>
   getTenant demo_env
      (trace empty_state @ [EvRagSearchProducts (tenantId unknown_context) ''blue shoes''
                              (js_or (shoes_input ''limit'') (JNum (Num 5)))])
      (tenantId unknown_context) = Inr None \<and>
   execute demo_env ''search_products'' shoes_input unknown_context empty_state =
     (Inr \<lparr>success = False, data = None, error = Some ''Tenant not found''\<rparr>,
      \<lparr>cartStore = Map.empty,
       trace = [EvRagSearchProducts ''t9'' ''blue shoes'' (JNum (Num 5)), EvGetTenant ''t9'']\<rparr>)"
  by (simp add: execute_def dispatch_search searchProducts_def call_defs fail_result_def Let_def
        shoes_input_def js_or_def trim_shoes demo_env_def unknown_context_def empty_state_def)

text \<open>
  Claim C8, amended. The \<open>search_products\<close> tool. (1) A query that is missing, empty or
  blank gives the failure \<open>Search query is required\<close>, and no collaborator is called.
  (2) With a non-blank query the first call is the search of the tenant's indexed
  catalog. (3) The live search of the commerce platform is called only when the indexed
  search returned no hit and the tenant is known and has storefront credentials. (4) When
  the indexed search returns hits, the result is a success that lists exactly these hits,
  in order, with the source \<open>database\<close>, and no other call is made. (5) When the indexed
  search returned no hit and the tenant is known but has no storefront credentials, the
  result is a success with an empty product list and the message \<open>No products found\<close>,
  after the calls to the index and to the tenant service only. (6) When the indexed search
  returned no hit and the tenant is known and has storefront credentials, the live search
  is called, with the same query and limit, after the index and the tenant service; and
  when it returns, the result is a success that lists exactly the products it returned, in
  order, with the source \<open>shopify\<close>: also when it returned none. (7) When the indexed
  search returned no hit and the tenant is not known, the result is the failure
  \<open>Tenant not found\<close>.
\<close>

theorem search_products_contract:
  "((\<not> truthy (input ''query'') \<or> (\<exists>q. input ''query'' = JStr q \<and> trim q = [])) \<longrightarrow>
      execute env ''search_products'' input context s =
        (Inr \<lparr>success = False, data = None, error = Some ''Search query is required''\<rparr>, s)) \<and>
   (\<forall>q. input ''query'' = JStr q \<and> trim q \<noteq> [] \<longrightarrow>
      (\<exists>evs. new_events s (snd (execute env ''search_products'' input context s)) =
         EvRagSearchProducts (tenantId context) q (js_or (input ''limit'') (JNum (Num 5))) # evs)) \<and>
   (\<forall>sf q l. EvSfSearchProducts sf q l \<in> set (new_events s (snd (execute env ''search_products'' input context s))) \<longrightarrow>
      input ''query'' = JStr q \<and> l = js_or (input ''limit'') (JNum (Num 5)) \<and>
      rag_searchProducts env (trace s) (tenantId context) q l = Inr [] \<and>
      (\<exists>tenant. getTenant env (trace s @ [EvRagSearchProducts (tenantId context) q l]) (tenantId context)
                   = Inr (Some tenant) \<and>
                createStorefrontClient tenant = Some sf)) \<and>
   (\<forall>q hits. input ''query'' = JStr q \<and> trim q \<noteq> [] \<and>
      rag_searchProducts env (trace s) (tenantId context) q (js_or (input ''limit'') (JNum (Num 5))) = Inr hits \<and>
      hits \<noteq> [] \<longrightarrow>
      execute env ''search_products'' input context s =
        (Inr \<lparr>success = True,
              data = Some (JObj [(''source'', JStr ''database''),
                                 (''products'', JArr (map (productJson env) hits))]),
              error = None\<rparr>,
         s\<lparr>trace := trace s @
              [EvRagSearchProducts (tenantId context) q (js_or (input ''limit'') (JNum (Num 5)))]\<rparr>)) \<and>
   (\<forall>q tenant. input ''query'' = JStr q \<and> trim q \<noteq> [] \<and>
      rag_searchProducts env (trace s) (tenantId context) q (js_or (input ''limit'') (JNum (Num 5))) = Inr [] \<and>
      getTenant env (trace s @ [EvRagSearchProducts (tenantId context) q (js_or (input ''limit'') (JNum (Num 5)))])
                (tenantId context) = Inr (Some tenant) \<and>
      createStorefrontClient tenant = None \<longrightarrow>
      execute env ''search_products'' input context s =
        (Inr \<lparr>success = True,
              data = Some (JObj [(''products'', JArr []), (''message'', JStr ''No products found'')]),
              error = None\<rparr>,
         s\<lparr>trace := trace s @
              [EvRagSearchProducts (tenantId context) q (js_or (input ''limit'') (JNum (Num 5))),
               EvGetTenant (tenantId context)]\<rparr>)) \<and>
   (\<forall>q tenant sf. input ''query'' = JStr q \<and> trim q \<noteq> [] \<and>
      rag_searchProducts env (trace s) (tenantId context) q (js_or (input ''limit'') (JNum (Num 5))) = Inr [] \<and>
      getTenant env (trace s @ [EvRagSearchProducts (tenantId context) q (js_or (input ''limit'') (JNum (Num 5)))])
                (tenantId context) = Inr (Some tenant) \<and>
      createStorefrontClient tenant = Some sf \<longrightarrow>
      new_events s (snd (execute env ''search_products'' input context s)) =
        [EvRagSearchProducts (tenantId context) q (js_or (input ''limit'') (JNum (Num 5))),
         EvGetTenant (tenantId context),
         EvSfSearchProducts sf q (js_or (input ''limit'') (JNum (Num 5)))] \<and>
      (\<forall>products.
         sf_searchProducts env
           (trace s @ [EvRagSearchProducts (tenantId context) q (js_or (input ''limit'') (JNum (Num 5))),
                       EvGetTenant (tenantId context)])
           sf q (js_or (input ''limit'') (JNum (Num 5))) = Inr products \<longrightarrow>
         fst (execute env ''search_products'' input context s) =
           Inr \<lparr>success = True,
                data = Some (JObj [(''source'', JStr ''shopify''),
                                   (''products'', JArr (map (formatProduct env) products))]),
                error = None\<rparr>)) \<and>
   (\<forall>q. input ''query'' = JStr q \<and> trim q \<noteq> [] \<and>
      rag_searchProducts env (trace s) (tenantId context) q (js_or (input ''limit'') (JNum (Num 5))) = Inr [] \<and>
      getTenant env (trace s @ [EvRagSearchProducts (tenantId context) q (js_or (input ''limit'') (JNum (Num 5)))])
                (tenantId context) = Inr None \<longrightarrow>
      execute env ''search_products'' input context s =
        (Inr \<lparr>success = False, data = None, error = Some ''Tenant not found''\<rparr>,
         s\<lparr>trace := trace s @
              [EvRagSearchProducts (tenantId context) q (js_or (input ''limit'') (JNum (Num 5))),
               EvGetTenant (tenantId context)]\<rparr>))"
proof (intro conjI)
  show "(\<not> truthy (input ''query'') \<or> (\<exists>q. input ''query'' = JStr q \<and> trim q = [])) \<longrightarrow>
      execute env ''search_products'' input context s =
        (Inr \<lparr>success = False, data = None, error = Some ''Search query is required''\<rparr>, s)"
    by (auto simp: execute_def dispatch_search searchProducts_def fail_result_def Let_def)
next
  show "\<forall>q. input ''query'' = JStr q \<and> trim q \<noteq> [] \<longrightarrow>
      (\<exists>evs. new_events s (snd (execute env ''search_products'' input context s)) =
         EvRagSearchProducts (tenantId context) q (js_or (input ''limit'') (JNum (Num 5))) # evs)"
    by (auto simp: execute_trace dispatch_search searchProducts_def call_defs new_events_def Let_def
             split: sum.splits option.splits)
next
  show "\<forall>sf q l. EvSfSearchProducts sf q l \<in> set (new_events s (snd (execute env ''search_products'' input context s))) \<longrightarrow>
      input ''query'' = JStr q \<and> l = js_or (input ''limit'') (JNum (Num 5)) \<and>
      rag_searchProducts env (trace s) (tenantId context) q l = Inr [] \<and>
      (\<exists>tenant. getTenant env (trace s @ [EvRagSearchProducts (tenantId context) q l]) (tenantId context)
                   = Inr (Some tenant) \<and>
                createStorefrontClient tenant = Some sf)"
    by (auto simp: execute_trace dispatch_search searchProducts_def call_defs new_events_def Let_def
             split: sum.splits option.splits jsval.splits if_splits)
next
  show "\<forall>q hits. input ''query'' = JStr q \<and> trim q \<noteq> [] \<and>
      rag_searchProducts env (trace s) (tenantId context) q (js_or (input ''limit'') (JNum (Num 5))) = Inr hits \<and>
      hits \<noteq> [] \<longrightarrow>
      execute env ''search_products'' input context s =
        (Inr \<lparr>success = True,
              data = Some (JObj [(''source'', JStr ''database''),
                                 (''products'', JArr (map (productJson env) hits))]),
              error = None\<rparr>,
         s\<lparr>trace := trace s @
              [EvRagSearchProducts (tenantId context) q (js_or (input ''limit'') (JNum (Num 5)))]\<rparr>)"
    by (auto simp: execute_def dispatch_search searchProducts_def call_defs ok_result_def Let_def)
next
  show "\<forall>q tenant. input ''query'' = JStr q \<and> trim q \<noteq> [] \<and>
      rag_searchProducts env (trace s) (tenantId context) q (js_or (input ''limit'') (JNum (Num 5))) = Inr [] \<and>
      getTenant env (trace s @ [EvRagSearchProducts (tenantId context) q (js_or (input ''limit'') (JNum (Num 5)))])
                (tenantId context) = Inr (Some tenant) \<and>
      createStorefrontClient tenant = None \<longrightarrow>
      execute env ''search_products'' input context s =
        (Inr \<lparr>success = True,
              data = Some (JObj [(''products'', JArr []), (''message'', JStr ''No products found'')]),
              error = None\<rparr>,
         s\<lparr>trace := trace s @
              [EvRagSearchProducts (tenantId context) q (js_or (input ''limit'') (JNum (Num 5))),
               EvGetTenant (tenantId context)]\<rparr>)"
    by (auto simp: execute_def dispatch_search searchProducts_def call_defs ok_result_def Let_def)
next
  show "\<forall>q tenant sf. input ''query'' = JStr q \<and> trim q \<noteq> [] \<and>
      rag_searchProducts env (trace s) (tenantId context) q (js_or (input ''limit'') (JNum (Num 5))) = Inr [] \<and>
      getTenant env (trace s @ [EvRagSearchProducts (tenantId context) q (js_or (input ''limit'') (JNum (Num 5)))])
                (tenantId context) = Inr (Some tenant) \<and>
      createStorefrontClient tenant = Some sf \<longrightarrow>
      new_events s (snd (execute env ''search_products'' input context s)) =
        [EvRagSearchProducts (tenantId context) q (js_or (input ''limit'') (JNum (Num 5))),
         EvGetTenant (tenantId context),
         EvSfSearchProducts sf q (js_or (input ''limit'') (JNum (Num 5)))] \<and>
      (\<forall>products.
         sf_searchProducts env
           (trace s @ [EvRagSearchProducts (tenantId context) q (js_or (input ''limit'') (JNum (Num 5))),
                       EvGetTenant (tenantId context)])
           sf q (js_or (input ''limit'') (JNum (Num 5))) = Inr products \<longrightarrow>
         fst (execute env ''search_products'' input context s) =
           Inr \<lparr>success = True,
                data = Some (JObj [(''source'', JStr ''shopify''),
                                   (''products'', JArr (map (formatProduct env) products))]),
                error = None\<rparr>)"
    by (auto simp: execute_def execute_trace dispatch_search searchProducts_def call_defs ok_result_def
             new_events_def Let_def split: sum.splits)
next
  show "\<forall>q. input ''query'' = JStr q \<and> trim q \<noteq> [] \<and>
      rag_searchProducts env (trace s) (tenantId context) q (js_or (input ''limit'') (JNum (Num 5))) = Inr [] \<and>
      getTenant env (trace s @ [EvRagSearchProducts (tenantId context) q (js_or (input ''limit'') (JNum (Num 5)))])
                (tenantId context) = Inr None \<longrightarrow>
      execute env ''search_products'' input context s =
        (Inr \<lparr>success = False, data = None, error = Some ''Tenant not found''\<rparr>,
         s\<lparr>trace := trace s @
              [EvRagSearchProducts (tenantId context) q (js_or (input ''limit'') (JNum (Num 5))),
               EvGetTenant (tenantId context)]\<rparr>)"
    by (auto simp: execute_def dispatch_search searchProducts_def call_defs fail_result_def Let_def)
qed

text \<open>
  The theorem in concrete shops: an index with a hit, a live search with a product after
  an index without hits, and a tenant without storefront credentials.
\<close>

theorem search_products_contract_witness:
  "execute stocked_env ''search_products'' shoes_input bare_context empty_state =
     (Inr \<lparr>success = True,
           data = Some (JObj [(''source'', JStr ''database''),
                              (''products'', JArr (map (productJson stocked_env) [demo_hit]))]),
           error = None\<rparr>,
      empty_state\<lparr>trace := [EvRagSearchProducts ''t2'' ''blue shoes'' (JNum (Num 5))]\<rparr>) \<and>
   new_events empty_state (snd (execute stocked_env ''search_products'' shoes_input demo_context empty_state)) =
     [EvRagSearchProducts ''t1'' ''blue shoes'' (JNum (Num 5)), EvGetTenant ''t1'',
      EvSfSearchProducts demo_storefront ''blue shoes'' (JNum (Num 5))] \<and>
   fst (execute stocked_env ''search_products'' shoes_input demo_context empty_state) =
     Inr \<lparr>success = True,
          data = Some (JObj [(''source'', JStr ''shopify''),
                             (''products'', JArr (map (formatProduct stocked_env) [demo_product]))]),
          error = None\<rparr> \<and>
   execute demo_env ''search_products'' shoes_input bare_context empty_state =
     (Inr \<lparr>success = True,
           data = Some (JObj [(''products'', JArr []), (''message'', JStr ''No products found'')]),
           error = None\<rparr>,
      empty_state\<lparr>trace := [EvRagSearchProducts ''t2'' ''blue shoes'' (JNum (Num 5)), EvGetTenant ''t2'']\<rparr>)"
proof -
  have lim: "js_or (shoes_input ''limit'') (JNum (Num 5)) = JNum (Num 5)"
    and qry: "shoes_input ''query'' = JStr ''blue shoes''" and nonblank: "trim ''blue shoes'' \<noteq> []"
    by (simp_all add: shoes_input_def js_or_def trim_shoes)
  note indexed = search_products_contract [of shoes_input stocked_env bare_context empty_state,
      THEN conjunct2, THEN conjunct2, THEN conjunct2, THEN conjunct1, rule_format,
      of "''blue shoes''" "[demo_hit]"]
  note live = search_products_contract [of shoes_input stocked_env demo_context empty_state,
      THEN conjunct2, THEN conjunct2, THEN conjunct2, THEN conjunct2, THEN conjunct2, THEN conjunct1,
      rule_format, of "''blue shoes''" demo_tenant demo_storefront]
  note bare = search_products_contract [of shoes_input demo_env bare_context empty_state,
      THEN conjunct2, THEN conjunct2, THEN conjunct2, THEN conjunct2, THEN conjunct1, rule_format,
      of "''blue shoes''" bare_tenant]
  have a: "execute stocked_env ''search_products'' shoes_input bare_context empty_state =
     (Inr \<lparr>success = True,
           data = Some (JObj [(''source'', JStr ''database''),
                              (''products'', JArr (map (productJson stocked_env) [demo_hit]))]),
           error = None\<rparr>,
      empty_state\<lparr>trace := [EvRagSearchProducts ''t2'' ''blue shoes'' (JNum (Num 5))]\<rparr>)"
    using indexed qry nonblank
    by (simp add: lim stocked_env_def demo_env_def bare_context_def empty_state_def)
  have b: "new_events empty_state (snd (execute stocked_env ''search_products'' shoes_input demo_context empty_state)) =
     [EvRagSearchProducts ''t1'' ''blue shoes'' (JNum (Num 5)), EvGetTenant ''t1'',
      EvSfSearchProducts demo_storefront ''blue shoes'' (JNum (Num 5))] \<and>
   fst (execute stocked_env ''search_products'' shoes_input demo_context empty_state) =
     Inr \<lparr>success = True,
          data = Some (JObj [(''source'', JStr ''shopify''),
                             (''products'', JArr (map (formatProduct stocked_env) [demo_product]))]),
          error = None\<rparr>"
    using live qry nonblank
    by (simp add: lim stocked_env_def demo_env_def demo_context_def empty_state_def demo_store)
  have c: "execute demo_env ''search_products'' shoes_input bare_context empty_state =
     (Inr \<lparr>success = True,
           data = Some (JObj [(''products'', JArr []), (''message'', JStr ''No products found'')]),
           error = None\<rparr>,
      empty_state\<lparr>trace := [EvRagSearchProducts ''t2'' ''blue shoes'' (JNum (Num 5)), EvGetTenant ''t2'']\<rparr>)"
    using bare qry nonblank
    by (simp add: lim demo_env_def bare_context_def empty_state_def bare_store)
  from a b c show ?thesis by simp
qed

text \<open>
  Claim C10. The \<open>add_to_cart\<close> tool never hands the commerce platform a line whose
  quantity is falsy, so never the quantity 0. When the quantity of the input is falsy
  (omitted, 0, null, NaN, the empty string or false), every line it sends is the variant
  of the input with quantity exactly 1; and with a variant id, a known tenant and a
  configured storefront it does send that one line, to \<open>createCart\<close> or \<open>addToCart\<close>.
\<close>

theorem add_to_cart_quantity:
  "(\<forall>ev \<in> set (new_events s (snd (execute env ''add_to_cart'' input context s))).
      \<forall>l \<in> set (sent_lines ev). truthy (li_quantity l) \<and> li_quantity l \<noteq> JNum (Num 0)) \<and>
   (\<not> truthy (input ''quantity'') \<longrightarrow>
      (\<forall>ev \<in> set (new_events s (snd (execute env ''add_to_cart'' input context s))).
         \<forall>l \<in> set (sent_lines ev).
           l = \<lparr>li_merchandiseId = input ''variantId'', li_quantity = JNum (Num 1)\<rparr>) \<and>
      (\<forall>tenant sf. truthy (input ''variantId'') \<and>
         getTenant env (trace s) (tenantId context) = Inr (Some tenant) \<and>
         createStorefrontClient tenant = Some sf \<longrightarrow>
         (\<exists>ev. new_events s (snd (execute env ''add_to_cart'' input context s)) =
                  [EvGetTenant (tenantId context), ev] \<and>
               sent_lines ev = [\<lparr>li_merchandiseId = input ''variantId'', li_quantity = JNum (Num 1)\<rparr>])))"
proof (intro conjI impI)
  show "\<forall>ev \<in> set (new_events s (snd (execute env ''add_to_cart'' input context s))).
      \<forall>l \<in> set (sent_lines ev). truthy (li_quantity l) \<and> li_quantity l \<noteq> JNum (Num 0)"
    by (auto simp: execute_trace dispatch_add addToCart_def call_defs new_events_def Let_def js_or_def
          setCartId_def split: sum.splits option.splits if_splits)
next
  assume "\<not> truthy (input ''quantity'')"
  then show "\<forall>ev \<in> set (new_events s (snd (execute env ''add_to_cart'' input context s))).
         \<forall>l \<in> set (sent_lines ev).
           l = \<lparr>li_merchandiseId = input ''variantId'', li_quantity = JNum (Num 1)\<rparr>"
    by (auto simp: execute_trace dispatch_add addToCart_def call_defs new_events_def Let_def js_or_def
          setCartId_def split: sum.splits option.splits if_splits)
next
  assume "\<not> truthy (input ''quantity'')"
  then show "\<forall>tenant sf. truthy (input ''variantId'') \<and>
         getTenant env (trace s) (tenantId context) = Inr (Some tenant) \<and>
         createStorefrontClient tenant = Some sf \<longrightarrow>
         (\<exists>ev. new_events s (snd (execute env ''add_to_cart'' input context s)) =
                  [EvGetTenant (tenantId context), ev] \<and>
               sent_lines ev = [\<lparr>li_merchandiseId = input ''variantId'', li_quantity = JNum (Num 1)\<rparr>])"
    by (auto simp: execute_trace dispatch_add addToCart_def call_defs new_events_def Let_def js_or_def
          setCartId_def split: sum.splits option.splits if_splits)
qed

text \<open>The theorem in the concrete shop, for an input whose quantity is 0.\<close>

theorem add_to_cart_quantity_witness:
  "\<not> truthy (zero_quantity_input ''quantity'') \<and>
   truthy (zero_quantity_input ''variantId'') \<and>
   getTenant demo_env (trace empty_state) (tenantId demo_context) = Inr (Some demo_tenant) \<and>
   createStorefrontClient demo_tenant = Some demo_storefront \<and>
   (\<exists>ev. new_events empty_state
            (snd (execute demo_env ''add_to_cart'' zero_quantity_input demo_context empty_state)) =
            [EvGetTenant (tenantId demo_context), ev] \<and>
         sent_lines ev = [\<lparr>li_merchandiseId = zero_quantity_input ''variantId'',
                            li_quantity = JNum (Num 1)\<rparr>])"
proof -
  have falsy: "\<not> truthy (zero_quantity_input ''quantity'')"
    by (simp add: zero_quantity_input_def)
  have h: "truthy (zero_quantity_input ''variantId'') \<and>
     getTenant demo_env (trace empty_state) (tenantId demo_context) = Inr (Some demo_tenant) \<and>
     createStorefrontClient demo_tenant = Some demo_storefront"
    by (simp add: zero_quantity_input_def demo_env_def demo_context_def demo_store)
  note all = add_to_cart_quantity [of empty_state demo_env zero_quantity_input demo_context]
  note sends = all [THEN conjunct2, THEN mp, OF falsy, THEN conjunct2]
  have "\<exists>ev. new_events empty_state
            (snd (execute demo_env ''add_to_cart'' zero_quantity_input demo_context empty_state)) =
            [EvGetTenant (tenantId demo_context), ev] \<and>
         sent_lines ev = [\<lparr>li_merchandiseId = zero_quantity_input ''variantId'',
                            li_quantity = JNum (Num 1)\<rparr>]"
    by (rule sends [rule_format, of demo_tenant demo_storefront]) (rule h)
  with falsy h show ?thesis
    by simp
qed

lemma carried_add_eval:
  "carried_add =
     (Inr \<lparr>success = True,
           data = Some (JObj (cart_json ''gid://shopify/Cart/77'' @
                              [(''message'', JStr ''Added 1 item(s) to cart'')])),
           error = None\<rparr>,
      \<lparr>cartStore = Map.empty,
       trace = [EvGetTenant ''t1'', EvSfAddToCart demo_storefront ''gid://shopify/Cart/77'' [one_line]]\<rparr>)"
  by (simp add: carried_add_def execute_def dispatch_add addToCart_def call_defs Let_def js_or_def
      variant_input_def carried_context_def empty_state_def demo_env_def demo_store getCartId_def
      sessionKey_def ok_result_def formatCart_def demo_cart_def cart_json_def one_line_def)

text \<open>
  Claim C4, as stated, fails. In the concrete shop, on one executor whose map holds no
  cart for the session, an \<open>add_to_cart\<close> whose context carries the id of an existing
  cart adds a line to that cart and reports its id, but stores nothing in the
  session-to-cart map; the \<open>get_cart\<close> that follows in the same session (same tenantId
  and sessionId) with a context that carries no cart id reports an empty cart and no
  cart id. Only a caller of \<open>execute\<close> that does not hand on the cart id gets there:
  the tool loop of the agent does hand it on, as shown at the end of this section.
\<close>

theorem cart_continuity_counterexample:
  "tenantId demo_context = tenantId carried_context \<and>
   sessionId demo_context = sessionId carried_context \<and>
   fst carried_add =
     Inr \<lparr>success = True,
          data = Some (JObj (cart_json ''gid://shopify/Cart/77'' @
                             [(''message'', JStr ''Added 1 item(s) to cart'')])),
          error = None\<rparr> \<and>
   fst carried_get =
     Inr \<lparr>success = True,
          data = Some (JObj [(''items'', JArr []), (''message'', JStr ''Cart is empty'')]),
          error = None\<rparr> \<and>
   reported_cartId (projr (fst carried_add)) = JStr ''gid://shopify/Cart/77'' \<and>
   reported_cartId (projr (fst carried_get)) \<noteq> reported_cartId (projr (fst carried_add))"
  by (simp add: carried_get_def carried_add_eval execute_def dispatch_get getCart_def getCartId_def
      sessionKey_def demo_context_def carried_context_def ok_result_def reported_cartId_def
      cart_json_def)

lemma getCartId_same:
  "tenantId c' = tenantId c \<Longrightarrow> sessionId c' = sessionId c \<Longrightarrow> cartId c' = cartId c \<Longrightarrow>
   cartStore s' = cartStore s \<Longrightarrow> getCartId s' c' = getCartId s c"
  by (simp add: getCartId_def sessionKey_def split: option.splits)

lemma getCartId_trace [simp]: "getCartId (s\<lparr>trace := t\<rparr>) c = getCartId s c"
  by (simp add: getCartId_def)

text \<open>What a successful \<open>add_to_cart\<close> leaves behind.\<close>

lemma addToCart_success:
  assumes "addToCart env input context s = (Inr r1, s1)" and "success r1"
      and "platform_keeps_ids env"
  shows "\<exists>C. reported_cartId r1 = JStr C \<and> C \<noteq> [] \<and>
           ((getCartId s context = Some C \<and> cartStore s1 = cartStore s) \<or>
            ((getCartId s context = None \<or> getCartId s context = Some []) \<and>
             cartStore s1 = (cartStore s)(sessionKey context \<mapsto> C)))"
  using assms
  by (auto simp: addToCart_def call_defs Let_def setCartId_def ok_result_def fail_result_def
        reported_cartId_def formatCart_def platform_keeps_ids_def
        split: sum.splits option.splits if_splits prod.splits)


lemma getCart_reports:
  assumes g: "getCartId s1 context' = Some C" and C: "C \<noteq> []" and ids: "platform_keeps_ids env"
  shows "\<exists>r2 s2. execute env ''get_cart'' input' context' s1 = (Inr r2, s2) \<and>
           (\<forall>sf c. EvSfGetCart sf c \<in> set (new_events s1 s2) \<longrightarrow> c = C) \<and>
           (\<forall>tenant sf k.
              getTenant env (trace s1) (tenantId context') = Inr (Some tenant) \<and>
              createStorefrontClient tenant = Some sf \<and>
              sf_getCart env (trace s1 @ [EvGetTenant (tenantId context')]) sf C = Inr k \<longrightarrow>
              new_events s1 s2 = [EvGetTenant (tenantId context'), EvSfGetCart sf C] \<and>
              success r2 \<and> reported_cartId r2 = JStr C) \<and>
           ((\<nexists>tenant sf k.
              getTenant env (trace s1) (tenantId context') = Inr (Some tenant) \<and>
              createStorefrontClient tenant = Some sf \<and>
              sf_getCart env (trace s1 @ [EvGetTenant (tenantId context')]) sf C = Inr k) \<longrightarrow>
            reported_cartId r2 = JUndefined)"
proof (cases "getTenant env (trace s1) (tenantId context')")
  case (Inl e)
  with g C show ?thesis
    by (simp add: execute_def dispatch_get getCart_def call_defs fail_result_def reported_cartId_def
          new_events_def)
next
  case (Inr t)
  show ?thesis
  proof (cases t)
    case None
    with Inr g C show ?thesis
      by (simp add: execute_def dispatch_get getCart_def call_defs fail_result_def reported_cartId_def
            new_events_def)
  next
    case (Some tenant)
    show ?thesis
    proof (cases "createStorefrontClient tenant")
      case None
      with Some Inr g C show ?thesis
        by (simp add: execute_def dispatch_get getCart_def call_defs fail_result_def reported_cartId_def
              new_events_def)
    next
      case sf: (Some sf)
      show ?thesis
      proof (cases "sf_getCart env (trace s1 @ [EvGetTenant (tenantId context')]) sf C")
        case (Inl e)
        with sf Some Inr g C show ?thesis
          by (simp add: execute_def dispatch_get getCart_def call_defs ok_result_def reported_cartId_def
                new_events_def)
      next
        case k: (Inr k)
        from ids k have "cr_cartId k = C"
          unfolding platform_keeps_ids_def by blast
        with k sf Some Inr g C show ?thesis
          by (simp add: execute_def dispatch_get getCart_def call_defs ok_result_def reported_cartId_def
                formatCart_def new_events_def)
      qed
    qed
  qed
qed

text \<open>
  The cart id that \<open>get_cart\<close> looks up after a successful \<open>add_to_cart\<close> in the same
  session is the reported one, unless the id was known only from the context of the
  \<open>add_to_cart\<close> and the context of the \<open>get_cart\<close> carries another cart id or none.
\<close>

lemma getCartId_after_add:
  assumes add: "addToCart env input context s = (Inr r1, s1)" and ok: "success r1"
      and tenant: "tenantId context' = tenantId context"
      and session: "sessionId context' = sessionId context"
      and known: "(\<exists>c. cartStore s (sessionKey context) = Some c \<and> c \<noteq> []) \<or>
                  cartId context = None \<or> cartId context = Some [] \<or>
                  cartId context' = cartId context"
      and ids: "platform_keeps_ids env"
  shows "\<exists>C. reported_cartId r1 = JStr C \<and> C \<noteq> [] \<and> getCartId s1 context' = Some C"
proof -
  from addToCart_success [OF add ok ids]
  obtain C where C: "reported_cartId r1 = JStr C" "C \<noteq> []"
     and cases: "(getCartId s context = Some C \<and> cartStore s1 = cartStore s) \<or>
            ((getCartId s context = None \<or> getCartId s context = Some []) \<and>
             cartStore s1 = (cartStore s)(sessionKey context \<mapsto> C))"
    by blast
  have key: "sessionKey context' = sessionKey context"
    using tenant session by (simp add: sessionKey_def)
  from cases have "getCartId s1 context' = Some C"
  proof
    assume h: "getCartId s context = Some C \<and> cartStore s1 = cartStore s"
    show ?thesis
    proof (cases "\<exists>c. cartStore s (sessionKey context) = Some c \<and> c \<noteq> []")
      case True
      with h key show ?thesis
        by (auto simp: getCartId_def)
    next
      case False
      with h have carried: "cartId context = Some C"
        by (auto simp: getCartId_def split: option.splits if_splits)
      with known False C(2) have "cartId context' = cartId context"
        by auto
      with h tenant session have "getCartId s1 context' = getCartId s context"
        by (intro getCartId_same) simp_all
      with h show ?thesis
        by simp
    qed
  next
    assume "(getCartId s context = None \<or> getCartId s context = Some []) \<and>
           cartStore s1 = (cartStore s)(sessionKey context \<mapsto> C)"
    with key C(2) show ?thesis
      by (simp add: getCartId_def)
  qed
  with C show ?thesis
    by blast
qed

lemma execute_add_success:
  "execute env ''add_to_cart'' input context s = (Inr r1, s1) \<Longrightarrow> success r1 \<Longrightarrow>
   addToCart env input context s = (Inr r1, s1)"
  by (cases "addToCart env input context s")
     (auto simp: execute_def dispatch_add fail_result_def split: sum.splits)

text \<open>
  Claim C4, amended. Within one session (same tenantId and sessionId) on one executor,
  let a successful \<open>add_to_cart\<close> be followed at once by a \<open>get_cart\<close>, and let the
  platform answer every cart call with the cart it was asked about. Leave out one case:
  the session-to-cart map held no cart id for the session, the \<open>add_to_cart\<close> context
  carried a cart id, and the \<open>get_cart\<close> context carries another cart id or none. Then
  \<open>add_to_cart\<close> reports a cart id \<open>C\<close>, and \<open>get_cart\<close> returns a result; it asks
  the platform for no cart other than \<open>C\<close>; when the tenant lookup finds a tenant with
  a storefront and the platform returns the cart, it has asked the tenant service and
  then the platform for \<open>C\<close>, and its result is a success that reports \<open>C\<close>; in every
  other case its result reports no cart id.
\<close>

theorem cart_continuity:
  assumes add: "execute env ''add_to_cart'' input context s = (Inr r1, s1)"
      and ok: "success r1"
      and tenant: "tenantId context' = tenantId context"
      and session: "sessionId context' = sessionId context"
      and known: "(\<exists>c. cartStore s (sessionKey context) = Some c \<and> c \<noteq> []) \<or>
                  cartId context = None \<or> cartId context = Some [] \<or>
                  cartId context' = cartId context"
      and ids: "platform_keeps_ids env"
  shows "\<exists>C. reported_cartId r1 = JStr C \<and> C \<noteq> [] \<and>
           (\<exists>r2 s2. execute env ''get_cart'' input' context' s1 = (Inr r2, s2) \<and>
              (\<forall>sf c. EvSfGetCart sf c \<in> set (new_events s1 s2) \<longrightarrow> c = C) \<and>
              (\<forall>tenant sf k.
                 getTenant env (trace s1) (tenantId context) = Inr (Some tenant) \<and>
                 createStorefrontClient tenant = Some sf \<and>
                 sf_getCart env (trace s1 @ [EvGetTenant (tenantId context)]) sf C = Inr k \<longrightarrow>
                 new_events s1 s2 = [EvGetTenant (tenantId context), EvSfGetCart sf C] \<and>
                 success r2 \<and> reported_cartId r2 = JStr C) \<and>
              ((\<nexists>tenant sf k.
                 getTenant env (trace s1) (tenantId context) = Inr (Some tenant) \<and>
                 createStorefrontClient tenant = Some sf \<and>
                 sf_getCart env (trace s1 @ [EvGetTenant (tenantId context)]) sf C = Inr k) \<longrightarrow>
               reported_cartId r2 = JUndefined))"
proof -
  from getCartId_after_add [OF execute_add_success [OF add ok] ok tenant session known ids]
  obtain C where C: "reported_cartId r1 = JStr C" "C \<noteq> []" and g: "getCartId s1 context' = Some C"
    by blast
  from getCart_reports [OF g C(2) ids, of input'] C show ?thesis
    unfolding tenant by blast
qed

lemma demo_keeps_ids: "platform_keeps_ids demo_env"
  by (auto simp: platform_keeps_ids_def demo_env_def demo_cart_def)

lemma demo_add_eval:
  "execute demo_env ''add_to_cart'' variant_input demo_context empty_state =
     (Inr demo_add_result, demo_add_state)"
  by (simp add: execute_def dispatch_add addToCart_def call_defs Let_def js_or_def
      variant_input_def demo_context_def empty_state_def demo_env_def demo_store getCartId_def
      sessionKey_def ok_result_def formatCart_def demo_cart_def cart_json_def one_line_def
      demo_add_result_def demo_add_state_def setCartId_def)

lemma second_add_eval:
  "execute demo_env ''add_to_cart'' variant_input carried_context demo_add_state =
     (Inr demo_add_result, second_add_state)"
  by (simp add: execute_def dispatch_add addToCart_def call_defs Let_def js_or_def
      variant_input_def carried_context_def demo_env_def demo_store getCartId_def
      sessionKey_def ok_result_def formatCart_def demo_cart_def cart_json_def one_line_def
      demo_add_result_def demo_add_state_def second_add_state_def)

text \<open>
  The amended claim in the concrete shop, in a session whose cart the map already holds:
  the \<open>add_to_cart\<close> context carries the id of another cart and the \<open>get_cart\<close> context
  carries none, and both calls report the cart of the map.
\<close>

theorem cart_continuity_witness:
  "execute demo_env ''add_to_cart'' variant_input carried_context demo_add_state =
     (Inr demo_add_result, second_add_state) \<and>
   success demo_add_result \<and>
   tenantId demo_context = tenantId carried_context \<and>
   sessionId demo_context = sessionId carried_context \<and>
   cartStore demo_add_state (sessionKey carried_context) = Some ''gid://shopify/Cart/1'' \<and>
   cartId demo_context \<noteq> cartId carried_context \<and>
   platform_keeps_ids demo_env \<and>
   reported_cartId demo_add_result = JStr ''gid://shopify/Cart/1'' \<and>
   (\<exists>r2 s2. execute demo_env ''get_cart'' no_input demo_context second_add_state = (Inr r2, s2) \<and>
      new_events second_add_state s2 =
        [EvGetTenant ''t1'', EvSfGetCart demo_storefront ''gid://shopify/Cart/1''] \<and>
      success r2 \<and> reported_cartId r2 = JStr ''gid://shopify/Cart/1'')"
proof -
  have stored: "cartStore demo_add_state (sessionKey carried_context) = Some ''gid://shopify/Cart/1''"
    by (simp add: demo_add_state_def sessionKey_def carried_context_def)
  then have known: "(\<exists>c. cartStore demo_add_state (sessionKey carried_context) = Some c \<and> c \<noteq> []) \<or>
      cartId carried_context = None \<or> cartId carried_context = Some [] \<or>
      cartId demo_context = cartId carried_context"
    by simp
  have same: "tenantId demo_context = tenantId carried_context"
             "sessionId demo_context = sessionId carried_context"
    by (simp_all add: demo_context_def carried_context_def)
  have differ: "cartId demo_context \<noteq> cartId carried_context"
    by (simp add: demo_context_def carried_context_def)
  have ok: "success demo_add_result"
    by (simp add: demo_add_result_def)
  have rep: "reported_cartId demo_add_result = JStr ''gid://shopify/Cart/1''"
    by (simp add: demo_add_result_def reported_cartId_def cart_json_def)
  have tid: "tenantId carried_context = ''t1''"
    by (simp add: carried_context_def)
  have t: "getTenant demo_env (trace second_add_state) (tenantId carried_context) = Inr (Some demo_tenant)"
    by (simp add: demo_env_def carried_context_def)
  from cart_continuity [OF second_add_eval ok same known demo_keeps_ids, of no_input]
  obtain C r2 s2 where
    c: "reported_cartId demo_add_result = JStr C" and
    r2: "execute demo_env ''get_cart'' no_input demo_context second_add_state = (Inr r2, s2)" and
    imp: "\<forall>tenant sf k.
            getTenant demo_env (trace second_add_state) (tenantId carried_context) = Inr (Some tenant) \<and>
            createStorefrontClient tenant = Some sf \<and>
            sf_getCart demo_env (trace second_add_state @ [EvGetTenant (tenantId carried_context)]) sf C = Inr k \<longrightarrow>
            new_events second_add_state s2 = [EvGetTenant (tenantId carried_context), EvSfGetCart sf C] \<and>
            success r2 \<and> reported_cartId r2 = JStr C"
    by blast
  from c rep have C: "C = ''gid://shopify/Cart/1''"
    by simp
  have g: "sf_getCart demo_env (trace second_add_state @ [EvGetTenant (tenantId carried_context)])
             demo_storefront C = Inr (demo_cart C)"
    by (simp add: demo_env_def)
  have both: "new_events second_add_state s2 = [EvGetTenant (tenantId carried_context), EvSfGetCart demo_storefront C] \<and>
        success r2 \<and> reported_cartId r2 = JStr C"
    by (rule imp [rule_format, of demo_tenant demo_storefront "demo_cart C"]) (intro conjI t demo_store g)
  have last: "\<exists>r2 s2. execute demo_env ''get_cart'' no_input demo_context second_add_state = (Inr r2, s2) \<and>
      new_events second_add_state s2 =
        [EvGetTenant ''t1'', EvSfGetCart demo_storefront ''gid://shopify/Cart/1''] \<and>
      success r2 \<and> reported_cartId r2 = JStr ''gid://shopify/Cart/1''"
    by (rule exI [of _ r2], rule exI [of _ s2]) (intro conjI r2 both [unfolded C tid, THEN conjunct1]
          both [unfolded C tid, THEN conjunct2, THEN conjunct1]
          both [unfolded C tid, THEN conjunct2, THEN conjunct2])
  show ?thesis
    by (intro conjI second_add_eval ok same stored differ demo_keeps_ids rep last)
qed

text \<open>
  The tool loop hands every tool call the context with the cart id reported so far
  (\<open>{ ...context, cartId }\<close>, with \<open>cartId\<close> updated from each successful result). With
  that context the case left out above does not arise: a \<open>get_cart\<close> that follows a
  successful \<open>add_to_cart\<close> looks up the reported cart.
\<close>

lemma threaded_cart_lookup:
  assumes add: "execute env ''add_to_cart'' input context s = (Inr r1, s1)"
      and ok: "success r1"
      and ids: "platform_keeps_ids env"
  shows "\<exists>C. reported_cartId r1 = JStr C \<and> C \<noteq> [] \<and>
           pick_string (the (data r1)) ''cartId'' (cartId context) = Some C \<and>
           getCartId s1 (context\<lparr>cartId := pick_string (the (data r1)) ''cartId'' (cartId context)\<rparr>) = Some C"
proof -
  from addToCart_success [OF execute_add_success [OF add ok] ok ids]
  obtain C where C: "reported_cartId r1 = JStr C" "C \<noteq> []"
     and cases: "(getCartId s context = Some C \<and> cartStore s1 = cartStore s) \<or>
            ((getCartId s context = None \<or> getCartId s context = Some []) \<and>
             cartStore s1 = (cartStore s)(sessionKey context \<mapsto> C))"
    by blast
  from C have pick: "pick_string (the (data r1)) ''cartId'' (cartId context) = Some C"
    by (auto simp: reported_cartId_def pick_string_def split: option.splits)
  have key: "sessionKey (context\<lparr>cartId := Some C\<rparr>) = sessionKey context"
    by (simp add: sessionKey_def)
  from cases C(2) have "getCartId s1 (context\<lparr>cartId := Some C\<rparr>) = Some C"
    by (auto simp: getCartId_def key split: option.splits if_splits)
  with C pick show ?thesis
    by auto
qed

lemma threaded_cart_continuity:
  assumes add: "execute env ''add_to_cart'' input context s = (Inr r1, s1)"
      and ok: "success r1"
      and ids: "platform_keeps_ids env"
      and handed: "context' = context\<lparr>cartId := pick_string (the (data r1)) ''cartId'' (cartId context)\<rparr>"
  shows "\<exists>C. reported_cartId r1 = JStr C \<and> C \<noteq> [] \<and>
           (\<exists>r2 s2. execute env ''get_cart'' input' context' s1 = (Inr r2, s2) \<and>
              (\<forall>sf c. EvSfGetCart sf c \<in> set (new_events s1 s2) \<longrightarrow> c = C) \<and>
              (\<forall>tenant sf k.
                 getTenant env (trace s1) (tenantId context) = Inr (Some tenant) \<and>
                 createStorefrontClient tenant = Some sf \<and>
                 sf_getCart env (trace s1 @ [EvGetTenant (tenantId context)]) sf C = Inr k \<longrightarrow>
                 new_events s1 s2 = [EvGetTenant (tenantId context), EvSfGetCart sf C] \<and>
                 success r2 \<and> reported_cartId r2 = JStr C) \<and>
              ((\<nexists>tenant sf k.
                 getTenant env (trace s1) (tenantId context) = Inr (Some tenant) \<and>
                 createStorefrontClient tenant = Some sf \<and>
                 sf_getCart env (trace s1 @ [EvGetTenant (tenantId context)]) sf C = Inr k) \<longrightarrow>
               reported_cartId r2 = JUndefined))"
proof -
  from threaded_cart_lookup [OF add ok ids] handed
  obtain C where C: "reported_cartId r1 = JStr C" "C \<noteq> []" and g: "getCartId s1 context' = Some C"
    by auto
  have tenant: "tenantId context' = tenantId context"
    using handed by simp
  from getCart_reports [OF g C(2) ids, of input'] C show ?thesis
    unfolding tenant by blast
qed

section \<open>Properties of the chat agent\<close>

lemma model_calls_append [simp]: "model_calls (xs @ ys) = model_calls xs + model_calls ys"
  by (simp add: model_calls_def)

lemma tool_round_trips_append [simp]:
  "tool_round_trips (xs @ ys) = tool_round_trips xs + tool_round_trips ys"
  by (simp add: tool_round_trips_def)

lemma round_trip_is_fetch: "is_tool_round_trip ev \<Longrightarrow> is_claude_fetch ev"
  by (cases ev) simp_all

lemma quiet_counts:
  "\<forall>ev\<in>set evs. \<not> is_claude_fetch ev \<Longrightarrow> model_calls evs = 0 \<and> tool_round_trips evs = 0"
  by (auto simp: model_calls_def tool_round_trips_def filter_empty_conv dest: round_trip_is_fetch)

lemma searchProducts_quiet:
  "\<exists>evs. trace (snd (searchProducts env input context s)) = trace s @ evs \<and> (\<forall>ev\<in>set evs. \<not> is_claude_fetch ev)"
  by (auto simp: searchProducts_def call_defs Let_def split: jsval.splits sum.splits option.splits prod.splits)

lemma getProductDetails_quiet:
  "\<exists>evs. trace (snd (getProductDetails env input context s)) = trace s @ evs \<and> (\<forall>ev\<in>set evs. \<not> is_claude_fetch ev)"
  by (auto simp: getProductDetails_def call_defs Let_def split: jsval.splits sum.splits option.splits prod.splits)

lemma addToCart_quiet:
  "\<exists>evs. trace (snd (addToCart env input context s)) = trace s @ evs \<and> (\<forall>ev\<in>set evs. \<not> is_claude_fetch ev)"
  by (auto simp: addToCart_def call_defs Let_def setCartId_def split: jsval.splits sum.splits option.splits prod.splits)

lemma getCart_quiet:
  "\<exists>evs. trace (snd (getCart env context s)) = trace s @ evs \<and> (\<forall>ev\<in>set evs. \<not> is_claude_fetch ev)"
  by (auto simp: getCart_def call_defs Let_def split: jsval.splits sum.splits option.splits prod.splits)

lemma searchFaqs_quiet:
  "\<exists>evs. trace (snd (searchFaqs env input context s)) = trace s @ evs \<and> (\<forall>ev\<in>set evs. \<not> is_claude_fetch ev)"
  by (auto simp: searchFaqs_def call_defs Let_def split: jsval.splits sum.splits option.splits prod.splits)

lemma createOrder_quiet:
  "\<exists>evs. trace (snd (createOrder env input context s)) = trace s @ evs \<and> (\<forall>ev\<in>set evs. \<not> is_claude_fetch ev)"
  by (auto simp: createOrder_def call_defs Let_def split: jsval.splits sum.splits option.splits prod.splits)

lemma dispatch_quiet:
  "\<exists>evs. trace (snd (dispatch env n input context s)) = trace s @ evs \<and> (\<forall>ev\<in>set evs. \<not> is_claude_fetch ev)"
  using searchProducts_quiet getProductDetails_quiet addToCart_quiet getCart_quiet searchFaqs_quiet
        createOrder_quiet
  by (simp add: dispatch_def)

lemma execute_counts:
  "model_calls (trace (snd (execute env n input context s))) = model_calls (trace s) \<and>
   tool_round_trips (trace (snd (execute env n input context s))) = tool_round_trips (trace s)"
proof -
  from dispatch_quiet [of env n input "context" s] obtain evs where
    "trace (snd (dispatch env n input context s)) = trace s @ evs" "\<forall>ev\<in>set evs. \<not> is_claude_fetch ev"
    by blast
  then show ?thesis
    using quiet_counts [of evs] by (simp add: execute_trace)
qed

lemma run_tools_counts:
  "\<exists>new cid' url' newtrs s'.
     run_tools env context blocks (calls, cid, url, trs) s = (Inr (calls @ new, cid', url', trs @ newtrs), s') \<and>
     length new = length blocks \<and>
     model_calls (trace s') = model_calls (trace s) \<and>
     tool_round_trips (trace s') = tool_round_trips (trace s)"
proof (induction blocks arbitrary: calls cid url trs s)
  case Nil
  show ?case by simp
next
  case (Cons b blocks)
  obtain tid tname tinput where b: "b = (tid, tname, tinput)"
    by (cases b) auto
  from execute_returns [of env tname tinput "context\<lparr>cartId := cid\<rparr>" s]
  obtain r s1 where e: "execute env tname tinput (context\<lparr>cartId := cid\<rparr>) s = (Inr r, s1)"
    by blast
  from execute_counts [of env tname tinput "context\<lparr>cartId := cid\<rparr>" s] e
  have c: "model_calls (trace s1) = model_calls (trace s)" "tool_round_trips (trace s1) = tool_round_trips (trace s)"
    by simp_all
  define cid1 where "cid1 = (if success r \<and> (case data r of None \<Rightarrow> False | Some d \<Rightarrow> truthy d)
      then pick_string (the (data r)) ''cartId'' cid else cid)"
  define url1 where "url1 = (if success r \<and> (case data r of None \<Rightarrow> False | Some d \<Rightarrow> truthy d)
      then pick_string (the (data r)) ''checkoutUrl'' url else url)"
  from Cons.IH [of "calls @ [(tname, r)]" cid1 url1 "trs @ [(tid, stringify env r)]" s1]
  obtain new cid' url' newtrs s' where
    ih: "run_tools env context blocks (calls @ [(tname, r)], cid1, url1, trs @ [(tid, stringify env r)]) s1 =
           (Inr ((calls @ [(tname, r)]) @ new, cid', url', (trs @ [(tid, stringify env r)]) @ newtrs), s')"
        "length new = length blocks"
        "model_calls (trace s') = model_calls (trace s1)"
        "tool_round_trips (trace s') = tool_round_trips (trace s1)"
    by blast
  have "run_tools env context (b # blocks) (calls, cid, url, trs) s =
          (Inr (calls @ ((tname, r) # new), cid', url', trs @ ((tid, stringify env r) # newtrs)), s')"
    using e ih(1) by (simp add: b Let_def cid1_def url1_def)
  with ih(2-4) c show ?case
    by (intro exI [of _ "(tname, r) # new"] exI [of _ cid'] exI [of _ url']
              exI [of _ "(tid, stringify env r) # newtrs"] exI [of _ s']) simp
qed


lemma callClaudeWithToolResults_tool:
  assumes "requests_tool (claude_fetch env (trace s) msgs p)"
  shows "\<exists>resp. callClaudeWithToolResults env msgs p s = (Inr resp, log (EvClaudeFetch msgs p) s) \<and>
           stop_reason resp = tool_use \<and>
           extractText (content resp) = answer_text (claude_fetch env (trace s) msgs p) \<and>
           length (extractToolUse (content resp)) = invocations (claude_fetch env (trace s) msgs p)"
  using assms
  by (auto simp: callClaudeWithToolResults_def requests_tool_def answer_text_def invocations_def Let_def
           split: sum.splits)

lemma callClaude_tool:
  assumes "requests_tool (claude_fetch env (trace s) msgs p)"
  shows "\<exists>resp. callClaude env msgs p s = (Inr resp, log (EvClaudeFetch msgs p) s) \<and>
           stop_reason resp = tool_use \<and>
           extractText (content resp) = answer_text (claude_fetch env (trace s) msgs p) \<and>
           length (extractToolUse (content resp)) = invocations (claude_fetch env (trace s) msgs p)"
  using assms
  by (auto simp: callClaude_def requests_tool_def answer_text_def invocations_def Let_def
           split: sum.splits)

lemma tool_loop_runs:
  assumes tools: "\<forall>h msgs p. requests_tool (claude_fetch env h msgs p)"
  shows "n = MAX_TOOL_ITERATIONS - iterations v \<Longrightarrow> iterations v \<le> MAX_TOOL_ITERATIONS \<Longrightarrow>
     stop_reason (claudeResponse v) = tool_use \<Longrightarrow> last_answer env v s \<Longrightarrow>
     \<exists>v' s'. tool_loop env context p v s = (Inr v', s') \<and>
        model_calls (trace s') = model_calls (trace s) + n \<and>
        tool_round_trips (trace s') = tool_round_trips (trace s) + n \<and>
        last_answer env v' s' \<and>
        ((\<forall>h msgs p. invocations (claude_fetch env h msgs p) = 1) \<longrightarrow>
           length (allToolCalls v') = length (allToolCalls v) + n)"
proof (induction n arbitrary: v s)
  case 0
  then have "\<not> iterations v < MAX_TOOL_ITERATIONS"
    by simp
  then have "tool_loop env context p v s = (Inr v, s)"
    by (simp add: tool_loop.simps)
  with 0 show ?case
    by simp
next
  case (Suc n)
  then have lt: "iterations v < MAX_TOOL_ITERATIONS"
    by simp
  define conv1 where "conv1 = conversationMessages v @ [(''assistant'', MBlocks (content (claudeResponse v)))]"
  from run_tools_counts [of env "context" "extractToolUse (content (claudeResponse v))"
          "allToolCalls v" "lv_cartId v" "lv_checkoutUrl v" "[]" s]
  obtain new cid' url' newtrs s1 where
    rt: "run_tools env context (extractToolUse (content (claudeResponse v)))
           (allToolCalls v, lv_cartId v, lv_checkoutUrl v, []) s =
           (Inr (allToolCalls v @ new, cid', url', newtrs), s1)" and
    len: "length new = length (extractToolUse (content (claudeResponse v)))" and
    mc: "model_calls (trace s1) = model_calls (trace s)" and
    tr: "tool_round_trips (trace s1) = tool_round_trips (trace s)"
    by auto
  define conv2 where "conv2 = conv1 @ [(''user'', MToolResults newtrs)]"
  from tools have "requests_tool (claude_fetch env (trace s1) conv2 p)"
    by simp
  from callClaudeWithToolResults_tool [OF this]
  obtain resp where
    cc: "callClaudeWithToolResults env conv2 p s1 = (Inr resp, log (EvClaudeFetch conv2 p) s1)" and
    is_tool: "stop_reason resp = tool_use" and
    text_eq: "extractText (content resp) = answer_text (claude_fetch env (trace s1) conv2 p)" and
    inv: "length (extractToolUse (content resp)) = invocations (claude_fetch env (trace s1) conv2 p)"
    by blast
  define v2 where "v2 = \<lparr>claudeResponse = resp, iterations = iterations v + 1,
                     conversationMessages = conv2, allToolCalls = allToolCalls v @ new,
                     lv_cartId = cid', lv_checkoutUrl = url'\<rparr>"
  define s2 where "s2 = log (EvClaudeFetch conv2 p) s1"
  have step: "tool_loop env context p v s = tool_loop env context p v2 s2"
    using lt Suc.prems(3) rt cc
    by (subst tool_loop.simps) (simp add: Let_def conv1_def conv2_def v2_def s2_def)
  have la: "last_answer env v2 s2"
    unfolding last_answer_def
    by (rule exI [of _ "trace s1"], rule exI [of _ conv2], rule exI [of _ p])
       (simp add: v2_def s2_def log_def text_eq inv)
  have n: "n = MAX_TOOL_ITERATIONS - iterations v2" "iterations v2 \<le> MAX_TOOL_ITERATIONS"
          "stop_reason (claudeResponse v2) = tool_use"
    using Suc.prems(1) lt is_tool by (simp_all add: v2_def)
  from Suc.IH [OF n la]
  obtain v' s' where
    r: "tool_loop env context p v2 s2 = (Inr v', s')" and
    r1: "model_calls (trace s') = model_calls (trace s2) + n" and
    r2: "tool_round_trips (trace s') = tool_round_trips (trace s2) + n" and
    r3: "last_answer env v' s'" and
    r4: "(\<forall>h msgs p. invocations (claude_fetch env h msgs p) = 1) \<longrightarrow>
           length (allToolCalls v') = length (allToolCalls v2) + n"
    by blast
  have m2: "model_calls (trace s2) = model_calls (trace s) + 1"
    by (simp add: s2_def log_def mc) (simp add: model_calls_def)
  have t2: "tool_round_trips (trace s2) = tool_round_trips (trace s) + 1"
    by (simp add: s2_def log_def tr) (simp add: tool_round_trips_def conv2_def)
  have calls: "(\<forall>h msgs p. invocations (claude_fetch env h msgs p) = 1) \<longrightarrow>
           length (allToolCalls v') = length (allToolCalls v) + Suc n"
  proof
    assume one: "\<forall>h msgs p. invocations (claude_fetch env h msgs p) = 1"
    from Suc.prems(4) one have "length (extractToolUse (content (claudeResponse v))) = 1"
      by (auto simp: last_answer_def)
    with len r4 one show "length (allToolCalls v') = length (allToolCalls v) + Suc n"
      by (simp add: v2_def)
  qed
  show ?case
    by (rule exI [of _ v'], rule exI [of _ s'])
       (simp add: step r r1 r2 r3 m2 t2 calls)
qed


lemma buildPrompt_ok:
  assumes "\<forall>h. \<not> isl (getTenant env h (tenantId context))"
      and "\<forall>h q. \<not> isl (rag_search env h (tenantId context) q)"
  shows "\<exists>p s1. buildPrompt env context q s = (Inr p, s1) \<and>
           model_calls (trace s1) = model_calls (trace s) \<and>
           tool_round_trips (trace s1) = tool_round_trips (trace s)"
proof -
  from assms(1) obtain t where t: "getTenant env (trace s) (tenantId context) = Inr t"
    by (cases "getTenant env (trace s) (tenantId context)") (auto dest: spec [of _ "trace s"])
  from assms(2) obtain r where
    r: "rag_search env (trace s @ [EvGetTenant (tenantId context)]) (tenantId context) q = Inr r"
    by (cases "rag_search env (trace s @ [EvGetTenant (tenantId context)]) (tenantId context) q")
       (auto simp: isl_def)
  show ?thesis
    using t r
    by (simp add: buildPrompt_def call_getTenant_def call_ragSearch_def log_def Let_def
                  model_calls_def tool_round_trips_def)
qed

lemma first_call_no_round_trip:
  "\<not> is_tool_round_trip (EvClaudeFetch (map (\<lambda>m. (role m, MText (msg_content m))) messages) p)"
  by (cases messages rule: rev_cases) simp_all

text \<open>
  Claim C1. Let every answer of the model ask for tools (\<open>stop_reason = 'tool_use'\<close>),
  and let the tenant lookup and the retrieval that build the system prompt not fail, so
  that the model is reached. Then \<open>processMessage\<close> returns an \<open>AgentResponse\<close> and
  does not throw; it makes exactly \<open>MAX_TOOL_ITERATIONS = 5\<close> calls to the model that
  carry tool results (one initial call and five round trips, six calls in all); the reply
  is the text of the answer to the last of these calls, whatever it is; and when every
  answer holds one tool invocation, \<open>toolCalls\<close> has length five.
\<close>

theorem iteration_cap:
  assumes tools: "\<forall>h msgs p. requests_tool (claude_fetch env h msgs p)"
      and tenant_ok: "\<forall>h. \<not> isl (getTenant env h (tenantId context))"
      and rag_ok: "\<forall>h q. \<not> isl (rag_search env h (tenantId context) q)"
  shows "MAX_TOOL_ITERATIONS = 5 \<and>
         (\<exists>r s'. processMessage env messages context s = (Inr r, s') \<and>
            tool_round_trips (trace s') = tool_round_trips (trace s) + MAX_TOOL_ITERATIONS \<and>
            model_calls (trace s') = model_calls (trace s) + MAX_TOOL_ITERATIONS + 1 \<and>
            (\<exists>h msgs p. trace s' = h @ [EvClaudeFetch msgs p] \<and>
               reply r = answer_text (claude_fetch env h msgs p)) \<and>
            ((\<forall>h msgs p. invocations (claude_fetch env h msgs p) = 1) \<longrightarrow>
               (\<exists>calls. toolCalls r = Some calls \<and> length calls = MAX_TOOL_ITERATIONS)))"
proof
  show "MAX_TOOL_ITERATIONS = 5"
    by (simp add: MAX_TOOL_ITERATIONS_def)
next
  define userQuery where "userQuery = (case find (\<lambda>m. role m = ''user'') (rev messages) of
                         None \<Rightarrow> []
                       | Some m \<Rightarrow> msg_content m)"
  define conv0 where "conv0 = map (\<lambda>m. (role m, MText (msg_content m))) messages"
  from buildPrompt_ok [OF tenant_ok rag_ok, of userQuery s]
  obtain p s1 where
    bp: "buildPrompt env context userQuery s = (Inr p, s1)" and
    m1: "model_calls (trace s1) = model_calls (trace s)" and
    t1: "tool_round_trips (trace s1) = tool_round_trips (trace s)"
    by blast
  from tools have "requests_tool (claude_fetch env (trace s1) conv0 p)"
    by simp
  from callClaude_tool [OF this]
  obtain resp where
    cc: "callClaude env conv0 p s1 = (Inr resp, log (EvClaudeFetch conv0 p) s1)" and
    is_tool: "stop_reason resp = tool_use" and
    text_eq: "extractText (content resp) = answer_text (claude_fetch env (trace s1) conv0 p)" and
    inv: "length (extractToolUse (content resp)) = invocations (claude_fetch env (trace s1) conv0 p)"
    by blast
  define v0 where "v0 = \<lparr>claudeResponse = resp, iterations = 0,
                        conversationMessages = conv0, allToolCalls = [],
                        lv_cartId = cartId context, lv_checkoutUrl = None\<rparr>"
  define s2 where "s2 = log (EvClaudeFetch conv0 p) s1"
  have la: "last_answer env v0 s2"
    unfolding last_answer_def
    by (rule exI [of _ "trace s1"], rule exI [of _ conv0], rule exI [of _ p])
       (simp add: v0_def s2_def log_def text_eq inv)
  have pre: "MAX_TOOL_ITERATIONS = MAX_TOOL_ITERATIONS - iterations v0"
            "iterations v0 \<le> MAX_TOOL_ITERATIONS" "stop_reason (claudeResponse v0) = tool_use"
    using is_tool by (simp_all add: v0_def)
  from tool_loop_runs [OF tools pre la, of "context" p]
  obtain v' s' where
    tl: "tool_loop env context p v0 s2 = (Inr v', s')" and
    r1: "model_calls (trace s') = model_calls (trace s2) + MAX_TOOL_ITERATIONS" and
    r2: "tool_round_trips (trace s') = tool_round_trips (trace s2) + MAX_TOOL_ITERATIONS" and
    r3: "last_answer env v' s'" and
    r4: "(\<forall>h msgs p. invocations (claude_fetch env h msgs p) = 1) \<longrightarrow>
           length (allToolCalls v') = length (allToolCalls v0) + MAX_TOOL_ITERATIONS"
    by blast
  define r where "r = \<lparr>reply = extractText (content (claudeResponse v')),
                          toolCalls = (if length (allToolCalls v') > 0 then Some (allToolCalls v') else None),
                          ar_cartId = lv_cartId v',
                          ar_checkoutUrl = lv_checkoutUrl v'\<rparr>"
  have pm: "processMessage env messages context s = (Inr r, s')"
    using bp cc tl
    by (simp add: processMessage_def Let_def userQuery_def [symmetric] conv0_def [symmetric]
                  v0_def [symmetric] s2_def [symmetric] r_def)
  have m2: "model_calls (trace s2) = model_calls (trace s) + 1"
    by (simp add: s2_def log_def m1) (simp add: model_calls_def)
  have t2: "tool_round_trips (trace s2) = tool_round_trips (trace s)"
    using first_call_no_round_trip [of messages p]
    by (simp add: s2_def log_def t1 conv0_def) (simp add: tool_round_trips_def)
  from r3 have ans: "\<exists>h msgs p. trace s' = h @ [EvClaudeFetch msgs p] \<and>
               reply r = answer_text (claude_fetch env h msgs p)"
    by (auto simp: last_answer_def r_def)
  have calls: "(\<forall>h msgs p. invocations (claude_fetch env h msgs p) = 1) \<longrightarrow>
               (\<exists>calls. toolCalls r = Some calls \<and> length calls = MAX_TOOL_ITERATIONS)"
    using r4 by (simp add: r_def v0_def MAX_TOOL_ITERATIONS_def)
  show "\<exists>r s'. processMessage env messages context s = (Inr r, s') \<and>
            tool_round_trips (trace s') = tool_round_trips (trace s) + MAX_TOOL_ITERATIONS \<and>
            model_calls (trace s') = model_calls (trace s) + MAX_TOOL_ITERATIONS + 1 \<and>
            (\<exists>h msgs p. trace s' = h @ [EvClaudeFetch msgs p] \<and>
               reply r = answer_text (claude_fetch env h msgs p)) \<and>
            ((\<forall>h msgs p. invocations (claude_fetch env h msgs p) = 1) \<longrightarrow>
               (\<exists>calls. toolCalls r = Some calls \<and> length calls = MAX_TOOL_ITERATIONS))"
    by (rule exI [of _ r], rule exI [of _ s'])
       (simp add: pm r1 r2 m2 t2 ans calls)
qed


text \<open>The theorem in the concrete shop, whose model always asks for the cart.\<close>

theorem iteration_cap_witness:
  "(\<forall>h msgs p. requests_tool (claude_fetch demo_env h msgs p)) \<and>
   (\<forall>h. \<not> isl (getTenant demo_env h (tenantId demo_context))) \<and>
   (\<forall>h q. \<not> isl (rag_search demo_env h (tenantId demo_context) q)) \<and>
   (\<forall>h msgs p. invocations (claude_fetch demo_env h msgs p) = 1) \<and>
   (\<exists>r s'. processMessage demo_env demo_history demo_context empty_state = (Inr r, s') \<and>
      tool_round_trips (trace s') = 5 \<and>
      model_calls (trace s') = 6 \<and>
      reply r = ''Checking the cart.'' \<and>
      (\<exists>calls. toolCalls r = Some calls \<and> length calls = 5))"
proof -
  have tools: "\<forall>h msgs p. requests_tool (claude_fetch demo_env h msgs p)"
    by (simp add: requests_tool_def demo_env_def)
  have tenant_ok: "\<forall>h. \<not> isl (getTenant demo_env h (tenantId demo_context))"
    by (simp add: demo_env_def)
  have rag_ok: "\<forall>h q. \<not> isl (rag_search demo_env h (tenantId demo_context) q)"
    by (simp add: demo_env_def)
  have one: "\<forall>h msgs p. invocations (claude_fetch demo_env h msgs p) = 1"
    by (simp add: invocations_def demo_env_def)
  have answer: "\<And>h msgs p. answer_text (claude_fetch demo_env h msgs p) = ''Checking the cart.''"
    by (simp add: answer_text_def demo_env_def extractText_def)
  from iteration_cap [OF tools tenant_ok rag_ok, of demo_history empty_state]
  obtain r s' where
    pm: "processMessage demo_env demo_history demo_context empty_state = (Inr r, s')" and
    a: "tool_round_trips (trace s') = tool_round_trips (trace empty_state) + MAX_TOOL_ITERATIONS" and
    b: "model_calls (trace s') = model_calls (trace empty_state) + MAX_TOOL_ITERATIONS + 1" and
    c: "\<exists>h msgs p. trace s' = h @ [EvClaudeFetch msgs p] \<and>
               reply r = answer_text (claude_fetch demo_env h msgs p)" and
    d: "(\<forall>h msgs p. invocations (claude_fetch demo_env h msgs p) = 1) \<longrightarrow>
               (\<exists>calls. toolCalls r = Some calls \<and> length calls = MAX_TOOL_ITERATIONS)"
    by blast
  from a have a': "tool_round_trips (trace s') = 5"
    by (simp add: empty_state_def tool_round_trips_def MAX_TOOL_ITERATIONS_def)
  from b have b': "model_calls (trace s') = 6"
    by (simp add: empty_state_def model_calls_def MAX_TOOL_ITERATIONS_def)
  from c answer have c': "reply r = ''Checking the cart.''"
    by auto
  from d one have d': "\<exists>calls. toolCalls r = Some calls \<and> length calls = 5"
    by (simp add: MAX_TOOL_ITERATIONS_def)
  have "\<exists>r s'. processMessage demo_env demo_history demo_context empty_state = (Inr r, s') \<and>
      tool_round_trips (trace s') = 5 \<and>
      model_calls (trace s') = 6 \<and>
      reply r = ''Checking the cart.'' \<and>
      (\<exists>calls. toolCalls r = Some calls \<and> length calls = 5)"
    by (rule exI [of _ r], rule exI [of _ s']) (intro conjI pm a' b' c' d')
  with tools tenant_ok rag_ok one show ?thesis
    by (intro conjI)
qed

lemma text_payloads_append: "text_payloads (xs @ ys) = text_payloads xs @ text_payloads ys"
  by (induction xs rule: text_payloads.induct) simp_all

lemma tool_payloads_append: "tool_payloads (xs @ ys) = tool_payloads xs @ tool_payloads ys"
  by (induction xs rule: tool_payloads.induct) simp_all

lemma text_payloads_tools [simp]: "text_payloads (map STool cs) = []"
  by (induction cs) simp_all

lemma text_payloads_texts [simp]: "text_payloads (map SText ts) = ts"
  by (induction ts) simp_all

lemma tool_payloads_tools [simp]: "tool_payloads (map STool cs) = cs"
  by (induction cs) simp_all

lemma tool_payloads_texts [simp]: "tool_payloads (map SText ts) = []"
  by (induction ts) simp_all

lemma concat_text_chunks: "concat (text_chunks r i) = drop i r"
proof (induction r i rule: text_chunks.induct)
  case (1 r i)
  show ?case
  proof (cases "i < length r")
    case True
    have "take 50 (drop i r) @ drop (i + 50) r = drop i r"
      using append_take_drop_id [of 50 "drop i r"] by (simp add: add.commute)
    with True 1 show ?thesis
      by (subst text_chunks.simps) (simp add: slice_def)
  next
    case False
    then show ?thesis
      by (subst text_chunks.simps) simp
  qed
qed

text \<open>
  Claim C5. On the same history, context and collaborators, whenever \<open>processMessage\<close>
  returns a response, the events of \<open>processMessageStream\<close> are such that the payloads
  of the text events, concatenated in order, are the reply of that response; the last
  event is the \<open>done\<close> event and carries that very response; the tool events are its
  tool calls; and both forms leave the same state behind.
\<close>

theorem stream_matches_sync:
  assumes "fst (processMessage env messages context s) = Inr response"
  shows "concat (text_payloads (fst (processMessageStream env messages context s))) = reply response \<and>
         last (fst (processMessageStream env messages context s)) = SDone response \<and>
         tool_payloads (fst (processMessageStream env messages context s)) =
           (case toolCalls response of None \<Rightarrow> [] | Some calls \<Rightarrow> calls) \<and>
         snd (processMessageStream env messages context s) = snd (processMessage env messages context s)"
  using assms
  by (cases "processMessage env messages context s")
     (simp add: processMessageStream_def text_payloads_append tool_payloads_append concat_text_chunks
           split: option.splits)

lemma quiet_run: "fst (processMessage quiet_env demo_history demo_context empty_state) = Inr hello_response"
  by (simp add: processMessage_def buildPrompt_def call_getTenant_def call_ragSearch_def callClaude_def
        log_def Let_def quiet_env_def demo_env_def demo_history_def demo_context_def empty_state_def
        tool_loop.simps extractText_def hello_response_def)

text \<open>The theorem in the shop whose model answers at once: the reply goes out in two chunks.\<close>

theorem stream_matches_sync_witness:
  "fst (processMessage quiet_env demo_history demo_context empty_state) = Inr hello_response \<and>
   concat (text_payloads (fst (processMessageStream quiet_env demo_history demo_context empty_state))) =
     reply hello_response \<and>
   last (fst (processMessageStream quiet_env demo_history demo_context empty_state)) = SDone hello_response \<and>
   length (text_payloads (fst (processMessageStream quiet_env demo_history demo_context empty_state))) = 2"
proof -
  note sync = stream_matches_sync [OF quiet_run]
  have two: "length (text_payloads (fst (processMessageStream quiet_env demo_history demo_context empty_state))) = 2"
    using quiet_run
    by (cases "processMessage quiet_env demo_history demo_context empty_state")
       (simp add: processMessageStream_def text_payloads_append hello_response_def hello_text_def
                  text_chunks.simps)
  from quiet_run sync two show ?thesis
    by simp
qed


section \<open>Properties of the tenant service\<close>

lemma queries_append [simp]: "queries (xs @ ys) = queries xs + queries ys"
  by (simp add: queries_def)

lemma queries_Cons [simp]:
  "queries [] = 0" "queries (EvQuery t # xs) = Suc (queries xs)" "queries (EvNow # xs) = queries xs"
  by (simp_all add: queries_def)

lemma fetch_tenant_absent:
  assumes "not_found (db_query env (ts_trace s) tid)"
  shows "fetch_tenant env tid s =
           (Inr None,
            s\<lparr>ts_trace := (ts_trace s @ [EvQuery tid]) @ [EvNow],
              cache := (cache s)(tid \<mapsto> \<lparr>ce_tenant = None,
                 ce_expiresAt = date_now env (ts_trace s @ [EvQuery tid]) + cacheTtl s\<rparr>)\<rparr>)"
  using assms
  by (auto simp del: append_assoc simp: fetch_tenant_def call_query_def call_now_def not_found_def
           split: option.splits)

lemma getTenant_keeps_negative:
  assumes absent: "\<forall>h. not_found (db_query env h tid)"
      and inv: "\<forall>e. cache s tid = Some e \<longrightarrow> ce_tenant e = None"
  shows "\<forall>e. cache (snd (ts_getTenant env t s)) tid = Some e \<longrightarrow> ce_tenant e = None"
proof (cases "t = tid")
  case True
  from absent have nf: "\<And>h. not_found (db_query env h tid)"
    by simp
  from inv show ?thesis
    by (auto simp: True ts_getTenant_def call_now_def fetch_tenant_absent [OF nf]
             split: option.splits)
next
  case False
  have "cache (snd (fetch_tenant env t s')) tid = cache s' tid" for s'
    using False
    by (auto simp: fetch_tenant_def call_query_def call_now_def Let_def split: option.splits prod.splits)
  moreover have "cache (snd (call_now env s)) tid = cache s tid"
    by (simp add: call_now_def)
  ultimately have "cache (snd (ts_getTenant env t s)) tid = cache s tid"
    by (auto simp: ts_getTenant_def call_now_def split: option.splits prod.splits)
  with inv show ?thesis
    by simp
qed

lemma clearCache_keeps_negative:
  "\<forall>e. cache s tid = Some e \<longrightarrow> ce_tenant e = None \<Longrightarrow>
   \<forall>e. cache (clearCache t s) tid = Some e \<longrightarrow> ce_tenant e = None"
  by (auto simp: clearCache_def split: option.splits)

lemma run_ops_keeps_negative:
  assumes absent: "\<forall>h. not_found (db_query env h tid)"
  shows "\<forall>e. cache s tid = Some e \<longrightarrow> ce_tenant e = None \<Longrightarrow>
         \<forall>e. cache (run_ops env ops s) tid = Some e \<longrightarrow> ce_tenant e = None"
proof (induction ops arbitrary: s)
  case Nil
  then show ?case by simp
next
  case (Cons op ops)
  show ?case
  proof (cases op)
    case (GetTenant t)
    with Cons.IH [OF getTenant_keeps_negative [OF absent Cons.prems, of t]] show ?thesis
      by simp
  next
    case (ClearCache t)
    with Cons.IH [OF clearCache_keeps_negative [OF Cons.prems, of t]] show ?thesis
      by simp
  qed
qed

lemma reachable_negative:
  assumes "\<forall>h. not_found (db_query env h tid)"
  shows "\<forall>e. cache (run_ops env ops (new_TenantService ttl)) tid = Some e \<longrightarrow> ce_tenant e = None"
  by (rule run_ops_keeps_negative [OF assms]) (simp add: new_TenantService_def)


text \<open>
  Claim C9. Let the store answer every query for the tenant id with "no such row", and
  take the service in any state it can reach from its constructor through \<open>getTenant\<close>
  and \<open>clearCache\<close> calls. Let the second of two consecutive \<open>getTenant\<close> calls for
  the id read the clock before the entry left by the first has expired. Then both calls
  return null, together they send at most one query to the store, and the second sends
  none. After the first call the cache holds a negative entry for the id (unless the id
  is blank, which returns null without any lookup); when the first call did query the
  store, that entry expires \<open>cacheTtl\<close> after the clock reading it made, five minutes by
  default.
\<close>

theorem negative_cache:
  assumes absent: "\<forall>h. not_found (db_query env h tid)"
      and reachable: "s = run_ops env ops (new_TenantService ttl)"
      and first_call: "ts_getTenant env tid s = (r1, s1)"
      and within: "\<forall>e. cache s1 tid = Some e \<longrightarrow> date_now env (ts_trace s1) < ce_expiresAt e"
      and second_call: "ts_getTenant env tid s1 = (r2, s2)"
  shows "r1 = Inr None \<and> r2 = Inr None \<and>
         queries (ts_trace s2) \<le> queries (ts_trace s) + 1 \<and>
         queries (ts_trace s2) = queries (ts_trace s1) \<and>
         (tid \<noteq> [] \<and> trim tid \<noteq> [] \<longrightarrow> (\<exists>e. cache s1 tid = Some e \<and> ce_tenant e = None)) \<and>
         (queries (ts_trace s1) = queries (ts_trace s) + 1 \<longrightarrow>
            (\<exists>h. ts_trace s1 = h @ [EvNow] \<and>
                 cache s1 tid = Some \<lparr>ce_tenant = None, ce_expiresAt = date_now env h + cacheTtl s\<rparr>))"
proof (cases "tid = [] \<or> trim tid = []")
  case True
  with first_call second_call show ?thesis
    by (auto simp: ts_getTenant_def)
next
  case False
  then have nb: "\<not> (tid = [] \<or> length (trim tid) = 0)"
    by simp
  from absent have nf: "\<And>h. not_found (db_query env h tid)"
    by simp
  have consistent: "\<forall>e. cache s tid = Some e \<longrightarrow> ce_tenant e = None"
    unfolding reachable by (rule reachable_negative [OF absent])
  have one: "r1 = Inr None \<and> queries (ts_trace s1) \<le> queries (ts_trace s) + 1 \<and>
             (\<exists>e. cache s1 tid = Some e \<and> ce_tenant e = None) \<and>
             (queries (ts_trace s1) = queries (ts_trace s) + 1 \<longrightarrow>
               (\<exists>h. ts_trace s1 = h @ [EvNow] \<and>
                 cache s1 tid = Some \<lparr>ce_tenant = None, ce_expiresAt = date_now env h + cacheTtl s\<rparr>))"
  proof (cases "cache s tid")
    case None
    with first_call nb show ?thesis
      by (auto simp del: append_assoc simp: ts_getTenant_def fetch_tenant_absent [OF nf])
  next
    case (Some cached)
    with consistent have neg: "ce_tenant cached = None"
      by simp
    show ?thesis
    proof (cases "ce_expiresAt cached > date_now env (ts_trace s)")
      case True
      with Some neg first_call nb show ?thesis
        by (auto simp: ts_getTenant_def call_now_def)
    next
      case False
      with Some first_call nb show ?thesis
        by (auto simp del: append_assoc simp: ts_getTenant_def call_now_def fetch_tenant_absent [OF nf])
    qed
  qed
  then obtain e where e: "cache s1 tid = Some e" "ce_tenant e = None"
    by blast
  with within have live: "ce_expiresAt e > date_now env (ts_trace s1)"
    by simp
  with e second_call nb have two: "r2 = Inr None \<and> queries (ts_trace s2) = queries (ts_trace s1)"
    by (auto simp: ts_getTenant_def call_now_def)
  from one two show ?thesis
    by auto
qed

text \<open>The theorem for a fresh service with the default lifetime and a store without tenants.\<close>

theorem negative_cache_witness:
  "(\<forall>h. not_found (db_query empty_store_env h ''ghost'')) \<and>
   cache (new_TenantService None) ''ghost'' = None \<and>
   cacheTtl (new_TenantService None) = 300000 \<and>
   (\<exists>s1. ts_getTenant empty_store_env ''ghost'' (new_TenantService None) = (Inr None, s1) \<and>
      cache s1 ''ghost'' = Some \<lparr>ce_tenant = None, ce_expiresAt = 301000\<rparr> \<and>
      date_now empty_store_env (ts_trace s1) = 2000 \<and>
      queries (ts_trace s1) = 1 \<and>
      (\<exists>s2. ts_getTenant empty_store_env ''ghost'' s1 = (Inr None, s2) \<and> queries (ts_trace s2) = 1))"
proof -
  have absent: "\<forall>h. not_found (db_query empty_store_env h ''ghost'')"
    by (simp add: not_found_def empty_store_env_def)
  have fresh: "cache (new_TenantService None) ''ghost'' = None"
    by (simp add: new_TenantService_def)
  have ttl: "cacheTtl (new_TenantService None) = 300000"
    by (simp add: new_TenantService_def TENANT_CACHE_TTL_MS_def)
  have start: "new_TenantService None = run_ops empty_store_env [] (new_TenantService None)"
    by simp
  define s1 where "s1 = snd (ts_getTenant empty_store_env ''ghost'' (new_TenantService None))"
  define s2 where "s2 = snd (ts_getTenant empty_store_env ''ghost'' s1)"
  have tr: "trim ''ghost'' = ''ghost''"
    by (simp add: trim_def is_space_def)
  have s1_eq: "s1 = \<lparr>cache = [''ghost'' \<mapsto> \<lparr>ce_tenant = None, ce_expiresAt = 301000\<rparr>],
                      cacheTtl = 300000, ts_trace = [EvQuery ''ghost'', EvNow]\<rparr>"
    by (simp add: s1_def ts_getTenant_def tr fresh fetch_tenant_absent [OF absent [rule_format]])
       (simp add: new_TenantService_def TENANT_CACHE_TTL_MS_def empty_store_env_def)
  have c1: "cache s1 ''ghost'' = Some \<lparr>ce_tenant = None, ce_expiresAt = 301000\<rparr>"
    by (simp add: s1_eq)
  have now2: "date_now empty_store_env (ts_trace s1) = 2000"
    by (simp add: s1_eq empty_store_env_def)
  have within: "\<forall>e. cache s1 ''ghost'' = Some e \<longrightarrow> date_now empty_store_env (ts_trace s1) < ce_expiresAt e"
    by (simp add: c1 now2)
  have q1: "queries (ts_trace s1) = 1"
    by (simp add: s1_eq)
  have f: "ts_getTenant empty_store_env ''ghost'' (new_TenantService None) =
             (fst (ts_getTenant empty_store_env ''ghost'' (new_TenantService None)), s1)"
    by (simp add: s1_def)
  have g: "ts_getTenant empty_store_env ''ghost'' s1 = (fst (ts_getTenant empty_store_env ''ghost'' s1), s2)"
    by (simp add: s2_def)
  note nc = negative_cache [OF absent start f within g]
  from nc have r1: "fst (ts_getTenant empty_store_env ''ghost'' (new_TenantService None)) = Inr None"
    by (rule conjunct1)
  from nc have r2: "fst (ts_getTenant empty_store_env ''ghost'' s1) = Inr None"
    by (elim conjE)
  from nc have q2: "queries (ts_trace s2) = queries (ts_trace s1)"
    by (elim conjE)
  have second: "\<exists>s2. ts_getTenant empty_store_env ''ghost'' s1 = (Inr None, s2) \<and> queries (ts_trace s2) = 1"
    using g r2 q2 q1 by (intro exI [of _ s2]) simp
  have "\<exists>s1. ts_getTenant empty_store_env ''ghost'' (new_TenantService None) = (Inr None, s1) \<and>
      cache s1 ''ghost'' = Some \<lparr>ce_tenant = None, ce_expiresAt = 301000\<rparr> \<and>
      date_now empty_store_env (ts_trace s1) = 2000 \<and>
      queries (ts_trace s1) = 1 \<and>
      (\<exists>s2. ts_getTenant empty_store_env ''ghost'' s1 = (Inr None, s2) \<and> queries (ts_trace s2) = 1)"
    using f r1 c1 now2 q1 second by (intro exI [of _ s1]) simp
  with absent fresh ttl show ?thesis
    by (intro conjI)
qed


section \<open>Properties of the RAG service\<close>

text \<open>
  Claim C7. Every hit that \<open>searchProducts\<close>, \<open>searchFaqs\<close> or \<open>search\<close> of the RAG
  service returns has a similarity greater than or equal to the configured floor, so a
  row that the vector store returns with a similarity below the floor (or with no
  similarity that compares, \<open>NaN\<close>) is in no output. Without a configured value the
  floor is 0.25.
\<close>

theorem similarity_floor:
  "(\<forall>hits tr'. rag_searchProducts_impl env config tid q limit tr = (Inr hits, tr') \<longrightarrow>
      (\<forall>p \<in> set hits. num_ge (pr_similarity p) (rs_similarityThreshold config))) \<and>
   (\<forall>hits tr'. rag_searchFaqs_impl env config tid q limit tr = (Inr hits, tr') \<longrightarrow>
      (\<forall>f \<in> set hits. num_ge (fq_similarity f) (rs_similarityThreshold config))) \<and>
   (\<forall>products faqs tr'. rag_search_impl env config tid q tr = (Inr (products, faqs), tr') \<longrightarrow>
      (\<forall>p \<in> set products. num_ge (pr_similarity p) (rs_similarityThreshold config)) \<and>
      (\<forall>f \<in> set faqs. num_ge (fq_similarity f) (rs_similarityThreshold config))) \<and>
   rs_similarityThreshold (rag_settings None) = Num (25 / 100)"
proof (intro conjI)
  show "\<forall>hits tr'. rag_searchProducts_impl env config tid q limit tr = (Inr hits, tr') \<longrightarrow>
      (\<forall>p \<in> set hits. num_ge (pr_similarity p) (rs_similarityThreshold config))"
    by (auto simp: rag_searchProducts_impl_def call_embedQuery_def call_rpcProducts_def Let_def
               toProductResult_def split: if_splits sum.splits option.splits)
  show "\<forall>hits tr'. rag_searchFaqs_impl env config tid q limit tr = (Inr hits, tr') \<longrightarrow>
      (\<forall>f \<in> set hits. num_ge (fq_similarity f) (rs_similarityThreshold config))"
    by (auto simp: rag_searchFaqs_impl_def call_embedQuery_def call_rpcFaqs_def Let_def
               toFaqResult_def split: if_splits sum.splits option.splits)
  show "\<forall>products faqs tr'. rag_search_impl env config tid q tr = (Inr (products, faqs), tr') \<longrightarrow>
      (\<forall>p \<in> set products. num_ge (pr_similarity p) (rs_similarityThreshold config)) \<and>
      (\<forall>f \<in> set faqs. num_ge (fq_similarity f) (rs_similarityThreshold config))"
    by (auto simp: rag_search_impl_def call_embedQuery_def call_rpcProducts_def call_rpcFaqs_def Let_def
               toProductResult_def toFaqResult_def split: if_splits sum.splits option.splits)
  show "rs_similarityThreshold (rag_settings None) = Num (25 / 100)"
    by (simp add: rag_settings_def DEFAULT_SIMILARITY_THRESHOLD_def)
qed

lemma trim_shoes': "trim ''shoes'' = ''shoes''"
  by (simp add: trim_def is_space_def)

lemma catalog_search:
  "rag_search_impl catalog_env (rag_settings None) ''t1'' ''shoes'' [] =
     (Inr ([toProductResult (catalog_row ''Blue shoes'' (9 / 10)),
            toProductResult (catalog_row ''Blue socks'' (1 / 4))],
           [toFaqResult (help_row ''Do you ship shoes?'' (1 / 2))]),
      [EvEmbedQuery ''shoes'', EvRpcProducts [Num 1, Num 0] ''t1'' 5, EvRpcFaqs [Num 1, Num 0] ''t1'' 3])"
  by (simp add: rag_search_impl_def call_embedQuery_def call_rpcProducts_def call_rpcFaqs_def Let_def
        trim_shoes' catalog_env_def rag_settings_def DEFAULT_SIMILARITY_THRESHOLD_def
        DEFAULT_PRODUCT_LIMIT_def DEFAULT_FAQ_LIMIT_def catalog_row_def help_row_def)

text \<open>The theorem on the concrete catalog: of five rows, the three at or above 0.25 are returned.\<close>

theorem similarity_floor_witness:
  "rag_search_impl catalog_env (rag_settings None) ''t1'' ''shoes'' [] =
     (Inr ([toProductResult (catalog_row ''Blue shoes'' (9 / 10)),
            toProductResult (catalog_row ''Blue socks'' (1 / 4))],
           [toFaqResult (help_row ''Do you ship shoes?'' (1 / 2))]),
      [EvEmbedQuery ''shoes'', EvRpcProducts [Num 1, Num 0] ''t1'' 5, EvRpcFaqs [Num 1, Num 0] ''t1'' 3]) \<and>
   num_ge (pr_similarity (toProductResult (catalog_row ''Blue shoes'' (9 / 10))))
          (rs_similarityThreshold (rag_settings None)) \<and>
   num_ge (pr_similarity (toProductResult (catalog_row ''Blue socks'' (1 / 4))))
          (rs_similarityThreshold (rag_settings None)) \<and>
   num_ge (fq_similarity (toFaqResult (help_row ''Do you ship shoes?'' (1 / 2))))
          (rs_similarityThreshold (rag_settings None))"
proof -
  note third = similarity_floor [of catalog_env "rag_settings None" "''t1''" "''shoes''" None "[]",
      THEN conjunct2, THEN conjunct2, THEN conjunct1, rule_format, OF catalog_search]
  from third catalog_search show ?thesis
    by simp
qed


section \<open>Properties of the embeddings service\<close>

lemma trim_blue: "trim ''blue shoes'' = ''blue shoes''"
  by (simp add: trim_def is_space_def)

lemma upstream_calls_simps [simp]:
  "upstream_calls [] = 0"
  "upstream_calls (EvFetch inp ty # tr) = Suc (upstream_calls tr)"
  "upstream_calls (EvSleep ms # tr) = upstream_calls tr"
  "upstream_calls (xs @ ys) = upstream_calls xs + upstream_calls ys"
  by (simp_all add: upstream_calls_def)

text \<open>
  Claim C6 says that a response that is not ok and not a 429 fails at once, without a
  retry. The code decides whether to retry from the text of the error message
  (\<open>message.includes('429') || message.includes('fetch')\<close>), and the message of an
  error response holds the provider's \<open>detail\<close>: here the provider answers 500 with a
  detail that mentions a fetch, and \<open>embed\<close> sleeps one second, calls the provider a
  second time and returns the vector.
\<close>

theorem embed_retries_server_error:
  "voyage_fetch flaky_env [] (Single ''blue shoes'') document_type =
     Inr \<lparr>vh_status = 500, vh_retryAfter = None,
          vh_json = Inr \<lparr>vj_detail = Some ''failed to fetch model weights'', vj_data = None\<rparr>\<rparr> \<and>
   embed flaky_env ''blue shoes'' [] =
     (Inr [Num 1, Num 2],
      [EvFetch (Single ''blue shoes'') document_type, EvSleep (Num 1000),
       EvFetch (Single ''blue shoes'') document_type])"
  by (simp add: embed_def trim_blue fetchWithRetry_def fetchWithRetry_from.simps call_fetch_def
        flaky_env_def MAX_RETRIES_def Let_def as_Error_def sleep_def backoff_def
        INITIAL_RETRY_DELAY_MS_def first_embedding_def one_vector_def)

text \<open>
  The parts of the claim that hold: two 429 answers and then a good one give the vector
  after exactly three calls (the first delay is the \<open>Retry-After\<close> of 2 seconds, the
  second the backoff of 2 seconds); a failure whose message holds neither \<open>429\<close> nor
  \<open>fetch\<close> is not retried; and a provider that always answers 429 is called three
  times, after which the error carries the status.
\<close>

lemma embed_after_two_429:
  "embed throttled_env ''blue shoes'' [] =
     (Inr [Num 1, Num 2],
      [EvFetch (Single ''blue shoes'') document_type, EvSleep (Num 2000),
       EvFetch (Single ''blue shoes'') document_type, EvSleep (Num 2000),
       EvFetch (Single ''blue shoes'') document_type]) \<and>
   upstream_calls (snd (embed throttled_env ''blue shoes'' [])) = 3"
  by (simp add: embed_def trim_blue fetchWithRetry_def fetchWithRetry_from.simps call_fetch_def
        throttled_env_def MAX_RETRIES_def Let_def as_Error_def sleep_def backoff_def
        INITIAL_RETRY_DELAY_MS_def first_embedding_def one_vector_def
        parseInt10_def is_space_def is_digit_def digit_val_def)

lemma hard_failure_not_retried:
  assumes "voyage_fetch env tr inp ty = Inr response"
      and "\<not> (200 \<le> vh_status response \<and> vh_status response \<le> 299)"
      and "vh_status response \<noteq> 429"
      and "vh_json response = Inr errorBody"
      and "\<not> str_includes (api_error_message response errorBody) ''429''"
      and "\<not> str_includes (api_error_message response errorBody) ''fetch''"
  shows "fetchWithRetry env inp ty tr =
           (Inl (Error (api_error_message response errorBody)), tr @ [EvFetch inp ty])"
  using assms
  by (simp add: fetchWithRetry_def fetchWithRetry_from.simps [of _ _ _ 0] call_fetch_def
        MAX_RETRIES_def Let_def as_Error_def api_error_message_def)


lemma retries_exhausted:
  "embed closed_env ''blue shoes'' [] =
     (Inl (Error ''Voyage AI Embeddings API error 429: Rate limit exceeded''),
      [EvFetch (Single ''blue shoes'') document_type, EvSleep (Num 1000),
       EvFetch (Single ''blue shoes'') document_type, EvSleep (Num 2000),
       EvFetch (Single ''blue shoes'') document_type])"
  by (simp add: embed_def trim_blue fetchWithRetry_def fetchWithRetry_from.simps call_fetch_def
        closed_env_def MAX_RETRIES_def Let_def as_Error_def sleep_def backoff_def
        INITIAL_RETRY_DELAY_MS_def)

lemma trims: "trim ''a'' = ''a''" "trim ''bb'' = ''bb''" "trim '' '' = []" "trim [CHR 0xA0] = []"
  by (simp_all add: trim_def is_space_def)

text \<open>
  Claim C3 asks that the i-th vector returned by \<open>embedBatch\<close> corresponds to
  \<open>texts[i]\<close> whatever the order in which the provider lists its index-tagged
  embeddings in a response. The code does not do this. It never reads the index tag of
  a response item: the vector at position \<open>k\<close> of a response goes to the text at
  position \<open>k\<close> of the chunk (\<open>chunk[responseIndex].index\<close>), under the comment
  \<open>Map results back to original indices\<close>. For the two texts \<open>a\<close> and \<open>bb\<close> and a
  provider that answers the one request with the vector of \<open>bb\<close>, tagged 1, before the
  vector of \<open>a\<close>, tagged 0, the code returns the vector of \<open>bb\<close> first: its first
  vector is not the vector of the first text.
\<close>

theorem embedBatch_ignores_index_tags:
  "voyage_fetch reversing_env [] (Many [''a'', ''bb'']) document_type =
     Inr \<lparr>vh_status = 200, vh_retryAfter = None,
          vh_json = Inr \<lparr>vj_detail = None,
                         vj_data = Some [\<lparr>embedding = length_emb ''bb'', index = 1\<rparr>,
                                         \<lparr>embedding = length_emb ''a'', index = 0\<rparr>]\<rparr>\<rparr> \<and>
   embedBatch reversing_env [''a'', ''bb''] [] =
     (Inr [length_emb ''bb'', length_emb ''a''], [EvFetch (Many [''a'', ''bb'']) document_type]) \<and>
   length_emb ''a'' = [Num 1] \<and> length_emb ''bb'' = [Num 2] \<and>
   fst (embedBatch reversing_env [''a'', ''bb''] []) \<noteq> Inr [length_emb ''a'', length_emb ''bb'']"
  by (simp add: embedBatch_def trims Let_def embed_chunks.simps fetchWithRetry_def
        fetchWithRetry_from.simps call_fetch_def reversing_env_def MAX_RETRIES_def MAX_BATCH_SIZE_def
        slice_def tagged_def request_texts_def length_emb_def upt_rec)

text \<open>
  Texts that are blank after trimming are dropped before the provider is called: with a
  provider that answers in request order, three texts of which the second is blank give
  two vectors; and a list of blank texts only, the no-break space among them, makes
  \<open>embedBatch\<close> throw.
\<close>

lemma embedBatch_drops_blank_texts:
  "embedBatch echo_env [''a'', '' '', ''bb''] [] =
     (Inr [length_emb ''a'', length_emb ''bb''], [EvFetch (Many [''a'', ''bb'']) document_type]) \<and>
   embedBatch echo_env ['' '', [CHR 0xA0]] [] = (Inl (Error ''All texts are empty''), [])"
  by (simp add: embedBatch_def trims Let_def embed_chunks.simps fetchWithRetry_def
        fetchWithRetry_from.simps call_fetch_def echo_env_def MAX_RETRIES_def MAX_BATCH_SIZE_def
        slice_def tagged_def request_texts_def length_emb_def upt_rec)

lemma fetch_ok:
  assumes "voyage_fetch env tr inp ty = Inr response"
      and "200 \<le> vh_status response" "vh_status response \<le> 299"
  shows "fetchWithRetry env inp ty tr = (vh_json response, tr @ [EvFetch inp ty])"
  using assms
  by (simp add: fetchWithRetry_def fetchWithRetry_from.simps [of _ _ _ 0] call_fetch_def
        MAX_RETRIES_def Let_def)

lemma map_back_in_order:
  "length items = length chunk \<Longrightarrow>
   map_back items chunk = Inr (zip (map embedding items) (map snd chunk))"
proof (induction items arbitrary: chunk)
  case Nil
  then show ?case by simp
next
  case (Cons item items)
  then obtain c cs where "chunk = c # cs"
    by (cases chunk) auto
  with Cons show ?case
    by simp
qed

lemma map_back_emb:
  assumes "map embedding items = map emb (map fst chunk)"
  shows "map_back items chunk = Inr (map (\<lambda>c. (emb (fst c), snd c)) chunk)"
proof -
  from assms have len: "length items = length chunk"
    using map_eq_imp_length_eq by fastforce
  have "zip (map emb (map fst chunk)) (map snd chunk) = map (\<lambda>c. (emb (fst c), snd c)) chunk"
    by (induction chunk) simp_all
  with map_back_in_order [OF len] assms show ?thesis
    by simp
qed

lemma chunks_of_Nil [simp]: "chunks_of n [] = []"
  by (simp add: chunks_of.simps)

lemma chunks_of_step: "xs \<noteq> [] \<Longrightarrow> 0 < n \<Longrightarrow> chunks_of n xs = take n xs # chunks_of n (drop n xs)"
  by (subst chunks_of.simps) simp

lemma embed_chunks_in_order:
  "in_order_provider env emb \<Longrightarrow>
   embed_chunks env nonEmpty i results tr =
           (Inr (results @ map (\<lambda>c. (emb (fst c), snd c)) (drop i nonEmpty)),
            tr @ map (\<lambda>c. EvFetch (Many c) document_type)
                     (chunks_of MAX_BATCH_SIZE (map fst (drop i nonEmpty))))"
proof (induction env nonEmpty i results tr rule: embed_chunks.induct)
  case (1 env nonEmpty i results tr)
  note prov = "1.prems"
  show ?case
  proof (cases "i < length nonEmpty")
    case False
    then show ?thesis
      by (subst embed_chunks.simps) simp
  next
    case True
    define chunk where "chunk = slice nonEmpty i (i + MAX_BATCH_SIZE)"
    have chunk_eq: "chunk = take MAX_BATCH_SIZE (drop i nonEmpty)"
      by (simp add: chunk_def slice_def)
    from prov obtain response body items where
      f: "voyage_fetch env tr (Many (map fst chunk)) document_type = Inr response" and
      ok: "200 \<le> vh_status response" "vh_status response \<le> 299" and
      j: "vh_json response = Inr body" and
      d: "vj_data body = Some items" and
      e: "map embedding items = map emb (map fst chunk)"
      unfolding in_order_provider_def by blast
    have fw: "fetchWithRetry env (Many (map fst chunk)) document_type tr =
                (Inr body, tr @ [EvFetch (Many (map fst chunk)) document_type])"
      using fetch_ok [OF f ok] j by simp
    have mb: "map_back items chunk = Inr (map (\<lambda>c. (emb (fst c), snd c)) chunk)"
      by (rule map_back_emb [OF e])
    have ih: "embed_chunks env nonEmpty (i + MAX_BATCH_SIZE)
                (results @ map (\<lambda>c. (emb (fst c), snd c)) chunk)
                (tr @ [EvFetch (Many (map fst chunk)) document_type]) =
              (Inr ((results @ map (\<lambda>c. (emb (fst c), snd c)) chunk) @
                    map (\<lambda>c. (emb (fst c), snd c)) (drop (i + MAX_BATCH_SIZE) nonEmpty)),
               (tr @ [EvFetch (Many (map fst chunk)) document_type]) @
               map (\<lambda>c. EvFetch (Many c) document_type)
                   (chunks_of MAX_BATCH_SIZE (map fst (drop (i + MAX_BATCH_SIZE) nonEmpty))))"
      by (rule "1.IH" [OF True chunk_def refl fw [symmetric] refl d mb prov])
    have step: "embed_chunks env nonEmpty i results tr =
                embed_chunks env nonEmpty (i + MAX_BATCH_SIZE)
                  (results @ map (\<lambda>c. (emb (fst c), snd c)) chunk)
                  (tr @ [EvFetch (Many (map fst chunk)) document_type])"
      using True fw d mb
      by (subst embed_chunks.simps) (simp add: Let_def chunk_def [symmetric])
    have ne: "map fst (drop i nonEmpty) \<noteq> []"
      using True by simp
    have split: "drop i nonEmpty = chunk @ drop (i + MAX_BATCH_SIZE) nonEmpty"
      using append_take_drop_id [of MAX_BATCH_SIZE "drop i nonEmpty"]
      by (simp add: chunk_eq add.commute)
    have ch: "chunks_of MAX_BATCH_SIZE (map fst (drop i nonEmpty)) =
                map fst chunk # chunks_of MAX_BATCH_SIZE (map fst (drop (i + MAX_BATCH_SIZE) nonEmpty))"
      using chunks_of_step [OF ne, of MAX_BATCH_SIZE]
      by (simp add: chunk_eq take_map drop_map add.commute MAX_BATCH_SIZE_def)
    have res: "map (\<lambda>c. (emb (fst c), snd c)) (drop i nonEmpty) =
                 map (\<lambda>c. (emb (fst c), snd c)) chunk @
                 map (\<lambda>c. (emb (fst c), snd c)) (drop (i + MAX_BATCH_SIZE) nonEmpty)"
      by (subst split) simp
    show ?thesis
      by (simp only: step ih ch res) simp
  qed
qed


lemma concat_chunks_of: "0 < n \<Longrightarrow> concat (chunks_of n xs) = xs"
proof (induction n xs rule: chunks_of.induct)
  case (1 n xs)
  show ?case
  proof (cases "xs = []")
    case True
    then show ?thesis by simp
  next
    case False
    with 1 show ?thesis
      by (simp add: chunks_of_step)
  qed
qed

lemma chunks_of_bounds: "0 < n \<Longrightarrow> c \<in> set (chunks_of n xs) \<Longrightarrow> c \<noteq> [] \<and> length c \<le> n"
proof (induction n xs rule: chunks_of.induct)
  case (1 n xs)
  show ?case
  proof (cases "xs = []")
    case True
    with 1 show ?thesis by simp
  next
    case False
    with 1 show ?thesis
      by (auto simp: chunks_of_step)
  qed
qed

lemma map_fst_filter_zip:
  "length xs = length ys \<Longrightarrow> map fst (filter (\<lambda>t. P (fst t)) (zip xs ys)) = filter P xs"
  by (induction xs ys rule: list_induct2) simp_all

lemma map_on_fst_zip:
  "length xs = length ys \<Longrightarrow> map (\<lambda>p. f (fst p)) (zip xs ys) = map f xs"
  by (induction xs ys rule: list_induct2) simp_all

lemma kept_of_nonEmpty:
  "map fst (filter (\<lambda>t. length (fst t) > 0) (zip (map trim texts) [0 ..< length texts])) =
   kept_texts texts"
  using map_fst_filter_zip [of "map trim texts" "[0 ..< length texts]" "\<lambda>t. t \<noteq> []"]
  by (simp add: kept_texts_def)

lemma sorted_nonEmpty:
  "sorted (map snd (filter P (zip (map trim texts) [0 ..< length texts])))"
  by (rule sorted_filter) simp

text \<open>
  What holds of \<open>embedBatch\<close> when the provider does answer every batch request with
  the vectors of the requested texts in request order, and at least one text is
  non-blank: it cuts the trimmed non-blank texts, in input order, into chunks of at most
  128 (none empty, together the whole list), makes exactly one provider call per chunk,
  in order, and returns the vector of the i-th non-blank text at position i. When no
  text is blank, the output has the length of the input and its i-th vector is the
  vector of the trimmed i-th text.
\<close>

lemma embedBatch_in_order:
  assumes prov: "in_order_provider env emb"
      and some: "kept_texts texts \<noteq> []"
  shows "embedBatch env texts tr =
           (Inr (map emb (kept_texts texts)),
            tr @ map (\<lambda>c. EvFetch (Many c) document_type)
                     (chunks_of MAX_BATCH_SIZE (kept_texts texts))) \<and>
         MAX_BATCH_SIZE = 128 \<and>
         concat (chunks_of MAX_BATCH_SIZE (kept_texts texts)) = kept_texts texts \<and>
         (\<forall>c \<in> set (chunks_of MAX_BATCH_SIZE (kept_texts texts)). c \<noteq> [] \<and> length c \<le> MAX_BATCH_SIZE) \<and>
         ((\<forall>t \<in> set texts. trim t \<noteq> []) \<longrightarrow>
            length (map emb (kept_texts texts)) = length texts \<and>
            (\<forall>i < length texts. map emb (kept_texts texts) ! i = emb (trim (texts ! i))))"
proof (intro conjI)
  define nonEmpty where
    "nonEmpty = filter (\<lambda>t. length (fst t) > 0) (zip (map trim texts) [0 ..< length texts])"
  have k: "map fst nonEmpty = kept_texts texts"
    unfolding nonEmpty_def by (rule kept_of_nonEmpty)
  with some have ne: "length nonEmpty \<noteq> 0" "length texts \<noteq> 0"
    by (auto simp: kept_texts_def)
  define results where "results = map (\<lambda>c. (emb (fst c), snd c)) nonEmpty"
  have loop: "embed_chunks env nonEmpty 0 [] tr =
          (Inr results,
           tr @ map (\<lambda>c. EvFetch (Many c) document_type) (chunks_of MAX_BATCH_SIZE (kept_texts texts)))"
    using embed_chunks_in_order [OF prov, of nonEmpty 0 "[]" tr] by (simp add: results_def k)
  have "map snd results = map snd nonEmpty"
    by (simp add: results_def comp_def)
  then have "sorted (map snd results)"
    by (simp add: nonEmpty_def sorted_nonEmpty)
  then have sorted: "sort_key snd results = results"
    by (rule sort_key_id_if_sorted)
  have vectors: "map fst results = map emb (kept_texts texts)"
    by (simp add: results_def comp_def k [symmetric])
  show "embedBatch env texts tr =
           (Inr (map emb (kept_texts texts)),
            tr @ map (\<lambda>c. EvFetch (Many c) document_type)
                     (chunks_of MAX_BATCH_SIZE (kept_texts texts)))"
  proof -
    have alt: "filter (\<lambda>t. fst t \<noteq> []) (zip (map trim texts) [0 ..< length texts]) = nonEmpty"
      by (simp add: nonEmpty_def)
    from ne loop sorted vectors show ?thesis
      by (simp add: embedBatch_def Let_def alt)
  qed
next
  show "MAX_BATCH_SIZE = 128"
    by (simp add: MAX_BATCH_SIZE_def)
next
  show "concat (chunks_of MAX_BATCH_SIZE (kept_texts texts)) = kept_texts texts"
    by (rule concat_chunks_of) (simp add: MAX_BATCH_SIZE_def)
next
  show "\<forall>c \<in> set (chunks_of MAX_BATCH_SIZE (kept_texts texts)). c \<noteq> [] \<and> length c \<le> MAX_BATCH_SIZE"
    using chunks_of_bounds [of MAX_BATCH_SIZE _ "kept_texts texts"]
    by (simp add: MAX_BATCH_SIZE_def)
next
  show "(\<forall>t \<in> set texts. trim t \<noteq> []) \<longrightarrow>
            length (map emb (kept_texts texts)) = length texts \<and>
            (\<forall>i < length texts. map emb (kept_texts texts) ! i = emb (trim (texts ! i)))"
  proof
    assume "\<forall>t \<in> set texts. trim t \<noteq> []"
    then have "kept_texts texts = map trim texts"
      by (simp add: kept_texts_def)
    then show "length (map emb (kept_texts texts)) = length texts \<and>
            (\<forall>i < length texts. map emb (kept_texts texts) ! i = emb (trim (texts ! i)))"
      by simp
  qed
qed

lemma echo_in_order: "in_order_provider echo_env length_emb"
proof -
  have "\<And>ts. map embedding (tagged ts) = map length_emb ts"
    by (simp add: tagged_def comp_def map_on_fst_zip)
  then show ?thesis
    by (simp add: in_order_provider_def echo_env_def request_texts_def)
qed

lemma trim_x: "trim ''x'' = ''x''"
  by (simp add: trim_def is_space_def)

lemma kept_300: "kept_texts (replicate 300 ''x'') = replicate 300 ''x''"
  by (simp add: kept_texts_def trim_x)

lemma chunks_300:
  "chunks_of MAX_BATCH_SIZE (replicate 300 ''x'') =
     [replicate 128 ''x'', replicate 128 ''x'', replicate 44 ''x'']"
  by (simp add: chunks_of.simps [of _ "replicate n x" for n x] MAX_BATCH_SIZE_def)

text \<open>With 300 texts there are three calls, of 128, 128 and 44 texts.\<close>

lemma embedBatch_300_texts:
  "in_order_provider echo_env length_emb \<and>
   kept_texts (replicate 300 ''x'') \<noteq> [] \<and>
   embedBatch echo_env (replicate 300 ''x'') [] =
     (Inr (replicate 300 (length_emb ''x'')),
      [EvFetch (Many (replicate 128 ''x'')) document_type,
       EvFetch (Many (replicate 128 ''x'')) document_type,
       EvFetch (Many (replicate 44 ''x'')) document_type])"
proof -
  have some: "kept_texts (replicate 300 ''x'') \<noteq> []"
    by (simp add: kept_300)
  note run = embedBatch_in_order [OF echo_in_order some, of "[]", THEN conjunct1]
  have "embedBatch echo_env (replicate 300 ''x'') [] =
     (Inr (replicate 300 (length_emb ''x'')),
      [EvFetch (Many (replicate 128 ''x'')) document_type,
       EvFetch (Many (replicate 128 ''x'')) document_type,
       EvFetch (Many (replicate 44 ''x'')) document_type])"
    using run by (simp add: kept_300 chunks_300)
  with echo_in_order some show ?thesis
    by (intro conjI)
qed


end
